theory Spec2Isabelle
  imports Main "HOL-Library.Word" "HOL-Library.Signed_Division"
begin

unbundle bit_operations_syntax

section \<open>Data model\<close>

text \<open>
  The Go sources fix the representation: \<open>Int\<close> holds an \<open>int64\<close> (arithmetic wraps),
  \<open>Float\<close> holds a \<open>float64\<close>, kept here as its IEEE-754 binary64 bit pattern, and a Go
  \<open>string\<close> is a sequence of bytes (\<open>char\<close> is a byte).  Names of tokens are the
  strings of the token table (\<open>PLUS = "PLUS"\<close> and so on).
\<close>

type_synonym int64 = "64 word"
type_synonym float64 = "64 word"
type_synonym addr = nat

text \<open>\<open>util.Pos\<close>; the file name, the source text and the current character are left out.\<close>

record pos =
  Row :: nat
  Col :: nat
  Idx :: nat

text \<open>\<open>frame.Frame\<close>: a singly linked call stack.\<close>

datatype frame = MkFrame (FuncName: string) (Parent: "frame option")
  (PosStart: "pos option") (PosEnd: "pos option")

text \<open>
  The error structs of the packages \<open>evaluator\<close> and \<open>object\<close>.  Each carries the
  frame at the failure point and a message; the source span is left out.  Both packages
  declare a \<open>TypeError\<close>; they are one kind here.
\<close>

datatype error_kind = VariableError | TypeError | SyntaxError | ArgumentError
  | OperationError | MathError | IndexError

datatype error = MkError (Kind: error_kind) (ErrFrame: "frame option") (Message: string)

text \<open>\<open>lexer.Token\<close>, without its positions.\<close>

record token =
  Type :: string
  Literal :: string

text \<open>
  The AST.  \<open>ast.Expression\<close> and \<open>ast.Statement\<close> are the two interfaces of the
  source; a \<open>nil\<close> expression (an omitted call argument, a parameter without default,
  a missing \<open>else\<close>) is \<open>None\<close>.  Of the spans only the one of a call is kept, as
  the call frame records it.
\<close>

datatype expr =
    PrefixExpression token expr
  | InfixExpression expr token expr
  | IntExpression int64
  | FloatExpression float64
  | BoolExpression bool
  | NullExpression
  | StringExpression string
  | ListExpression "expr list"
  | IdentifierExpression string
  | GroupedExpression expr
  | VarInitializationExpression bool expr expr
  | VarAssignmentExpression expr expr
  | CompoundAssignmentExpression expr token expr
  | PrefixUnaryIncDecExpression token expr
  | PostfixUnaryIncDecExpression token expr
  | BlockExpression "stmt list"
  | IfExpression expr stmt "stmt option"
  | CallExpression expr "expr option list" "pos option" "pos option"
  | IndexExpression expr expr
and stmt =
    ForStatement stmt expr stmt stmt
  | ExpressionStatement expr
  | FunctionDeclarationStatement expr "(string \<times> expr option) list" stmt
  | ReturnStatement expr

text \<open>\<open>ast.Parameter\<close>: the name and the default value (\<open>nil\<close> when there is none).\<close>

type_synonym parameter = "string \<times> expr option"

text \<open>
  \<open>object.Object\<close>.  \<open>NilObject\<close> is the \<open>nil\<close> interface value, which several
  evaluation functions return.  \<open>String\<close> and \<open>List\<close> are pointers to mutable structs
  and hold the address of their cell in the store.  A \<open>Function\<close> or
  \<open>BuiltinFunction\<close> is compared by pointer, so each carries the identity of its struct
  as first field; the native code of a builtin is looked up under that identity.
\<close>

datatype object =
    NilObject
  | IntObject int64
  | Float float64
  | Bool bool
  | Null
  | String addr
  | List addr
  | Function nat string "parameter list" stmt addr
  | BuiltinFunction nat string "string list" "object list"
  | ReturnValue object

text \<open>\<open>object.Symbol\<close> and \<open>object.Environment\<close>.\<close>

record symbol =
  Name :: string
  Value :: object
  IsConst :: bool

record environment =
  Store :: "string \<rightharpoonup> symbol"
  Outer :: "addr option"

text \<open>
  The \<open>Evaluator\<close> struct (\<open>Frame\<close>, \<open>Err\<close>) together with the store it works on:
  the environments, the string cells and the list cells, each with the next free
  address, and the next identity of a function struct.
\<close>

record state =
  Frame :: "frame option"
  Err :: "error option"
  Envs :: "addr \<Rightarrow> environment"
  EnvNext :: addr
  Strings :: "addr \<Rightarrow> string"
  StringNext :: addr
  Lists :: "addr \<Rightarrow> object list"
  ListNext :: addr
  FuncNext :: nat

text \<open>
  The outcome of a piece of evaluation: it returns a value and the state it leaves, or
  the process panics, or the fuel of the model runs out (the evaluation of a program may
  go on forever).
\<close>

datatype 'a res = Ret 'a state | Panic | Timeout

definition bind :: "'a res \<Rightarrow> ('a \<Rightarrow> state \<Rightarrow> 'b res) \<Rightarrow> 'b res" where
  "bind m f = (case m of Ret x st \<Rightarrow> f x st | Panic \<Rightarrow> Panic | Timeout \<Rightarrow> Timeout)"

text \<open>A Go method result \<open>(Object, error)\<close>.\<close>

type_synonym mret = "object \<times> error option"

text \<open>
  What the host supplies: the arithmetic of \<open>float64\<close> (rounding is the hardware's),
  the conversion \<open>float64(int64)\<close>, \<open>math.Mod\<close>, the native code of the builtin
  functions, and \<open>maxAlloc\<close>, the number of bytes beyond which the Go runtime refuses an
  allocation with a panic (\<open>2 ^ 48\<close> on the 64-bit platforms).  The source files of the
  variants \<open>Null\<close> and \<open>ReturnValue\<close> are not part of the sources at hand, so their
  \<open>Type()\<close> and their methods are taken from the host too.
\<close>

datatype native_result = NRet object "error option" | NPanic

record host =
  fadd :: "float64 \<Rightarrow> float64 \<Rightarrow> float64"
  fsub :: "float64 \<Rightarrow> float64 \<Rightarrow> float64"
  fmul :: "float64 \<Rightarrow> float64 \<Rightarrow> float64"
  fdiv :: "float64 \<Rightarrow> float64 \<Rightarrow> float64"
  fmod :: "float64 \<Rightarrow> float64 \<Rightarrow> float64"
  float64_of_int64 :: "int64 \<Rightarrow> float64"
  native :: "nat \<Rightarrow> frame option \<Rightarrow> pos option \<Rightarrow> pos option \<Rightarrow> object list \<Rightarrow> state \<Rightarrow> native_result"
  NullType :: string
  ReturnValueType :: string
  absent_unary :: "object \<Rightarrow> string \<Rightarrow> frame option \<Rightarrow> mret"
  absent_binary :: "object \<Rightarrow> string \<Rightarrow> object \<Rightarrow> frame option \<Rightarrow> mret"
  maxAlloc :: nat


section \<open>Operations of the host language\<close>

text \<open>
  Comparison and negation of \<open>float64\<close> are determined by the bit pattern: a NaN
  compares unequal to everything, the two zeros are equal, and otherwise the order is
  that of sign and magnitude.  The constant \<open>0\<close> converted to \<open>float64\<close> is the pattern
  \<open>0\<close>.
\<close>

definition float_is_nan :: "float64 \<Rightarrow> bool" where
  "float_is_nan f \<longleftrightarrow>
     f AND 0x7FF0000000000000 = 0x7FF0000000000000 \<and> f AND 0x000FFFFFFFFFFFFF \<noteq> 0"

definition float_key :: "float64 \<Rightarrow> int" where
  "float_key f =
     (if bit f 63 then - uint (f AND 0x7FFFFFFFFFFFFFFF) else uint (f AND 0x7FFFFFFFFFFFFFFF))"

definition float_eq :: "float64 \<Rightarrow> float64 \<Rightarrow> bool" where
  "float_eq a b \<longleftrightarrow> \<not> float_is_nan a \<and> \<not> float_is_nan b \<and> float_key a = float_key b"

definition float_lt :: "float64 \<Rightarrow> float64 \<Rightarrow> bool" where
  "float_lt a b \<longleftrightarrow> \<not> float_is_nan a \<and> \<not> float_is_nan b \<and> float_key a < float_key b"

definition float_le :: "float64 \<Rightarrow> float64 \<Rightarrow> bool" where
  "float_le a b \<longleftrightarrow> \<not> float_is_nan a \<and> \<not> float_is_nan b \<and> float_key a \<le> float_key b"

definition float_neg :: "float64 \<Rightarrow> float64" where
  "float_neg f = f XOR 0x8000000000000000"

text \<open>Go's \<open>%\<close> on \<open>int64\<close> truncates towards zero; \<open>math.MinInt64 % -1\<close> is \<open>0\<close>.\<close>

definition int64_rem :: "int64 \<Rightarrow> int64 \<Rightarrow> int64" where
  "int64_rem a b = word_of_int (sint a smod sint b)"

text \<open>
  Shifts of an \<open>int64\<close> by a non-negative \<open>int64\<close> count: a count of 64 or more gives
  \<open>0\<close> to the left and the sign to the right.
\<close>

definition int64_shl :: "int64 \<Rightarrow> int64 \<Rightarrow> int64" where
  "int64_shl a n = push_bit (unat n) a"

definition int64_shr :: "int64 \<Rightarrow> int64 \<Rightarrow> int64" where
  "int64_shr a n = signed_drop_bit (unat n) a"

text \<open>
  \<open>strings.Repeat\<close>, with \<open>int\<close> of 64 bits: it panics on a negative count, when the
  length of the result overflows \<open>int\<close>, and when the buffer of that length is beyond
  \<open>maxAlloc\<close> (\<open>None\<close>).  Within \<open>maxAlloc\<close>, memory is not bounded here.
\<close>

definition strings_Repeat :: "host \<Rightarrow> string \<Rightarrow> int \<Rightarrow> string option" where
  "strings_Repeat h s count =
     (if count = 0 then Some []
      else if count = 1 then Some s
      else if count < 0 then None
      else if int (length s) * count > 2 ^ 63 - 1 then None
      else if length s * nat count > maxAlloc h then None
      else Some (concat (replicate (nat count) s)))"

text \<open>
  UTF-8 as Go decodes it (\<open>[]rune(s)\<close>): a well-formed sequence of one to four bytes
  gives its code point; any other byte gives \<open>U+FFFD\<close> and is consumed alone.
\<close>

definition is_cont :: "char \<Rightarrow> nat \<Rightarrow> nat \<Rightarrow> bool" where
  "is_cont c lo hi \<longleftrightarrow> lo \<le> of_char c \<and> (of_char c :: nat) \<le> hi"

definition cont_bits :: "char \<Rightarrow> nat" where
  "cont_bits c = of_char c mod 64"

fun decode_rune :: "string \<Rightarrow> nat \<times> nat" where
  "decode_rune [] = (0xFFFD, 0)"
| "decode_rune (b0 # bs) =
     (let x = (of_char b0 :: nat) in
      if x < 0x80 then (x, 1)
      else if x < 0xC2 \<or> 0xF4 < x then (0xFFFD, 1)
      else if x < 0xE0 then
        (case bs of
           b1 # _ \<Rightarrow> if is_cont b1 0x80 0xBF then ((x mod 32) * 64 + cont_bits b1, 2)
                     else (0xFFFD, 1)
         | _ \<Rightarrow> (0xFFFD, 1))
      else if x < 0xF0 then
        (case bs of
           b1 # b2 # _ \<Rightarrow>
             if is_cont b1 (if x = 0xE0 then 0xA0 else 0x80) (if x = 0xED then 0x9F else 0xBF)
                \<and> is_cont b2 0x80 0xBF
             then ((x mod 16) * 4096 + cont_bits b1 * 64 + cont_bits b2, 3)
             else (0xFFFD, 1)
         | _ \<Rightarrow> (0xFFFD, 1))
      else
        (case bs of
           b1 # b2 # b3 # _ \<Rightarrow>
             if is_cont b1 (if x = 0xF0 then 0x90 else 0x80) (if x = 0xF4 then 0x8F else 0xBF)
                \<and> is_cont b2 0x80 0xBF \<and> is_cont b3 0x80 0xBF
             then ((x mod 8) * 262144 + cont_bits b1 * 4096 + cont_bits b2 * 64 + cont_bits b3, 4)
             else (0xFFFD, 1)
         | _ \<Rightarrow> (0xFFFD, 1)))"

function runes :: "string \<Rightarrow> nat list" where
  "runes bs = (if bs = [] then [] else fst (decode_rune bs) # runes (drop (snd (decode_rune bs)) bs))"
  by pat_completeness auto
termination
proof (relation "measure length")
  show "wf (measure length)" by simp
next
  fix bs :: string
  assume ne: "bs \<noteq> []"
  then have "0 < snd (decode_rune bs)"
    by (cases bs) (auto simp: Let_def split: list.splits)
  with ne show "(drop (snd (decode_rune bs)) bs, bs) \<in> measure length"
    by (auto simp: diff_less)
qed

declare runes.simps [simp del]

text \<open>\<open>string(r)\<close> for a rune: its UTF-8 encoding, \<open>U+FFFD\<close> for an invalid rune.\<close>

definition encode_rune :: "nat \<Rightarrow> string" where
  "encode_rune r =
     (if r < 0x80 then [char_of r]
      else if r < 0x800 then [char_of (0xC0 + r div 64), char_of (0x80 + r mod 64)]
      else if (0xD800 \<le> r \<and> r \<le> 0xDFFF) \<or> 0x10FFFF < r then
        [char_of (0xEF :: nat), char_of (0xBF :: nat), char_of (0xBD :: nat)]
      else if r < 0x10000 then
        [char_of (0xE0 + r div 4096), char_of (0x80 + (r div 64) mod 64), char_of (0x80 + r mod 64)]
      else
        [char_of (0xF0 + r div 262144), char_of (0x80 + (r div 4096) mod 64),
         char_of (0x80 + (r div 64) mod 64), char_of (0x80 + r mod 64)])"


section \<open>The object model\<close>

text \<open>Allocation of a fresh \<open>String\<close> or \<open>List\<close> struct.\<close>

definition new_String :: "string \<Rightarrow> state \<Rightarrow> object \<times> state" where
  "new_String s st =
     (String (StringNext st),
      st\<lparr>Strings := (Strings st)(StringNext st := s), StringNext := Suc (StringNext st)\<rparr>)"

definition new_List :: "object list \<Rightarrow> state \<Rightarrow> object \<times> state" where
  "new_List xs st =
     (List (ListNext st),
      st\<lparr>Lists := (Lists st)(ListNext st := xs), ListNext := Suc (ListNext st)\<rparr>)"

text \<open>The errors that the methods share.\<close>

definition invalid_operation :: "frame option \<Rightarrow> string \<Rightarrow> mret" where
  \<open>invalid_operation fr lit =
     (NilObject, Some (MkError OperationError fr (''invalid operation "'' @ lit @ ''".'')))\<close>

definition division_by_zero :: "frame option \<Rightarrow> mret" where
  "division_by_zero fr = (NilObject, Some (MkError MathError fr ''division by zero.''))"

definition not_indexable :: "frame option \<Rightarrow> mret" where
  "not_indexable fr =
     (NilObject, Some (MkError TypeError fr ''index expression not supported for this type.''))"

definition index_out_of_range :: "frame option \<Rightarrow> error" where
  "index_out_of_range fr = MkError IndexError fr ''index out of range.''"

text \<open>\<open>Type()\<close>; a call on the \<open>nil\<close> interface panics (\<open>None\<close>).\<close>

definition Type_of :: "host \<Rightarrow> object \<Rightarrow> string option" where
  "Type_of h x =
     (case x of
        NilObject \<Rightarrow> None
      | IntObject _ \<Rightarrow> Some ''Int''
      | Float _ \<Rightarrow> Some ''Float''
      | Bool _ \<Rightarrow> Some ''Bool''
      | Null \<Rightarrow> Some (NullType h)
      | String _ \<Rightarrow> Some ''String''
      | List _ \<Rightarrow> Some ''LIST''
      | Function _ _ _ _ _ \<Rightarrow> Some ''Function''
      | BuiltinFunction _ _ _ _ \<Rightarrow> Some ''BuiltinFunction''
      | ReturnValue _ \<Rightarrow> Some (ReturnValueType h))"

subsection \<open>Int\<close>

definition Int_Add :: "host \<Rightarrow> int64 \<Rightarrow> object \<Rightarrow> frame option \<Rightarrow> mret" where
  "Int_Add h i other fr =
     (case other of
        IntObject v \<Rightarrow> (IntObject (i + v), None)
      | Float v \<Rightarrow> (Float (fadd h (float64_of_int64 h i) v), None)
      | _ \<Rightarrow> invalid_operation fr ''+'')"

definition Int_Subtract :: "host \<Rightarrow> int64 \<Rightarrow> object \<Rightarrow> frame option \<Rightarrow> mret" where
  "Int_Subtract h i other fr =
     (case other of
        IntObject v \<Rightarrow> (IntObject (i - v), None)
      | Float v \<Rightarrow> (Float (fsub h (float64_of_int64 h i) v), None)
      | _ \<Rightarrow> invalid_operation fr ''-'')"

text \<open>
  \<open>Int * String\<close> repeats the string; the test \<open>i.Value > math.MaxInt\<close> never holds
  where \<open>int\<close> has 64 bits.
\<close>

definition Int_Multiply :: "host \<Rightarrow> int64 \<Rightarrow> object \<Rightarrow> frame option \<Rightarrow> state \<Rightarrow> mret res" where
  "Int_Multiply h i other fr st =
     (case other of
        IntObject v \<Rightarrow> Ret (IntObject (i * v), None) st
      | Float v \<Rightarrow> Ret (Float (fmul h (float64_of_int64 h i) v), None) st
      | String a \<Rightarrow>
          if sint i < 0 then Ret (invalid_operation fr ''*'') st
          else if sint i > 2 ^ 63 - 1 then Ret (invalid_operation fr ''*'') st
          else (case strings_Repeat h (Strings st a) (sint i) of
                  None \<Rightarrow> Panic
                | Some r \<Rightarrow> (case new_String r st of (v, st') \<Rightarrow> Ret (v, None) st'))
      | _ \<Rightarrow> Ret (invalid_operation fr ''*'') st)"

definition Int_Divide :: "host \<Rightarrow> int64 \<Rightarrow> object \<Rightarrow> frame option \<Rightarrow> mret" where
  "Int_Divide h i other fr =
     (case other of
        IntObject v \<Rightarrow>
          if v = 0 then division_by_zero fr
          else (Float (fdiv h (float64_of_int64 h i) (float64_of_int64 h v)), None)
      | Float v \<Rightarrow>
          if float_eq v 0 then division_by_zero fr
          else (Float (fdiv h (float64_of_int64 h i) v), None)
      | _ \<Rightarrow> invalid_operation fr ''/'')"

definition Int_Mod :: "host \<Rightarrow> int64 \<Rightarrow> object \<Rightarrow> frame option \<Rightarrow> mret" where
  "Int_Mod h i other fr =
     (case other of
        IntObject v \<Rightarrow>
          if v = 0 then division_by_zero fr
          else (IntObject (int64_rem i v), None)
      | Float v \<Rightarrow>
          if float_eq v 0 then division_by_zero fr
          else (Float (fmod h (float64_of_int64 h i) v), None)
      | _ \<Rightarrow> invalid_operation fr ''%'')"

definition Int_Equal :: "host \<Rightarrow> int64 \<Rightarrow> object \<Rightarrow> mret" where
  "Int_Equal h i other =
     (case other of
        IntObject v \<Rightarrow> (Bool (i = v), None)
      | Float v \<Rightarrow> (Bool (float_eq (float64_of_int64 h i) v), None)
      | _ \<Rightarrow> (Bool False, None))"

definition Int_NotEqual :: "host \<Rightarrow> int64 \<Rightarrow> object \<Rightarrow> mret" where
  "Int_NotEqual h i other =
     (case other of
        IntObject v \<Rightarrow> (Bool (i \<noteq> v), None)
      | Float v \<Rightarrow> (Bool (\<not> float_eq (float64_of_int64 h i) v), None)
      | _ \<Rightarrow> (Bool True, None))"

definition Int_LessThan :: "host \<Rightarrow> int64 \<Rightarrow> object \<Rightarrow> frame option \<Rightarrow> mret" where
  "Int_LessThan h i other fr =
     (case other of
        IntObject v \<Rightarrow> (Bool (sint i < sint v), None)
      | Float v \<Rightarrow> (Bool (float_lt (float64_of_int64 h i) v), None)
      | _ \<Rightarrow> invalid_operation fr ''<'')"

definition Int_GreaterThan :: "host \<Rightarrow> int64 \<Rightarrow> object \<Rightarrow> frame option \<Rightarrow> mret" where
  "Int_GreaterThan h i other fr =
     (case other of
        IntObject v \<Rightarrow> (Bool (sint i > sint v), None)
      | Float v \<Rightarrow> (Bool (float_lt v (float64_of_int64 h i)), None)
      | _ \<Rightarrow> invalid_operation fr ''>'')"

definition Int_LessThanOrEqual :: "host \<Rightarrow> int64 \<Rightarrow> object \<Rightarrow> frame option \<Rightarrow> mret" where
  "Int_LessThanOrEqual h i other fr =
     (case other of
        IntObject v \<Rightarrow> (Bool (sint i \<le> sint v), None)
      | Float v \<Rightarrow> (Bool (float_le (float64_of_int64 h i) v), None)
      | _ \<Rightarrow> invalid_operation fr ''<='')"

definition Int_GreaterThanOrEqual :: "host \<Rightarrow> int64 \<Rightarrow> object \<Rightarrow> frame option \<Rightarrow> mret" where
  "Int_GreaterThanOrEqual h i other fr =
     (case other of
        IntObject v \<Rightarrow> (Bool (sint i \<ge> sint v), None)
      | Float v \<Rightarrow> (Bool (float_le v (float64_of_int64 h i)), None)
      | _ \<Rightarrow> invalid_operation fr ''>='')"

definition Int_BitAnd :: "int64 \<Rightarrow> object \<Rightarrow> frame option \<Rightarrow> mret" where
  "Int_BitAnd i other fr =
     (case other of IntObject v \<Rightarrow> (IntObject (i AND v), None) | _ \<Rightarrow> invalid_operation fr ''&'')"

definition Int_BitOr :: "int64 \<Rightarrow> object \<Rightarrow> frame option \<Rightarrow> mret" where
  "Int_BitOr i other fr =
     (case other of IntObject v \<Rightarrow> (IntObject (i OR v), None) | _ \<Rightarrow> invalid_operation fr ''|'')"

definition Int_Xor :: "int64 \<Rightarrow> object \<Rightarrow> frame option \<Rightarrow> mret" where
  "Int_Xor i other fr =
     (case other of IntObject v \<Rightarrow> (IntObject (i XOR v), None) | _ \<Rightarrow> invalid_operation fr ''^'')"

definition Int_LeftShift :: "int64 \<Rightarrow> object \<Rightarrow> frame option \<Rightarrow> mret" where
  "Int_LeftShift i other fr =
     (case other of
        IntObject v \<Rightarrow> if sint v < 0 then invalid_operation fr ''<<'' else (IntObject (int64_shl i v), None)
      | _ \<Rightarrow> invalid_operation fr ''<<'')"

definition Int_RightShift :: "int64 \<Rightarrow> object \<Rightarrow> frame option \<Rightarrow> mret" where
  "Int_RightShift i other fr =
     (case other of
        IntObject v \<Rightarrow> if sint v < 0 then invalid_operation fr ''>>'' else (IntObject (int64_shr i v), None)
      | _ \<Rightarrow> invalid_operation fr ''>>'')"

subsection \<open>Float\<close>

definition Float_Add :: "host \<Rightarrow> float64 \<Rightarrow> object \<Rightarrow> frame option \<Rightarrow> mret" where
  "Float_Add h f other fr =
     (case other of
        IntObject v \<Rightarrow> (Float (fadd h f (float64_of_int64 h v)), None)
      | Float v \<Rightarrow> (Float (fadd h f v), None)
      | _ \<Rightarrow> invalid_operation fr ''+'')"

definition Float_Subtract :: "host \<Rightarrow> float64 \<Rightarrow> object \<Rightarrow> frame option \<Rightarrow> mret" where
  "Float_Subtract h f other fr =
     (case other of
        IntObject v \<Rightarrow> (Float (fsub h f (float64_of_int64 h v)), None)
      | Float v \<Rightarrow> (Float (fsub h f v), None)
      | _ \<Rightarrow> invalid_operation fr ''-'')"

definition Float_Multiply :: "host \<Rightarrow> float64 \<Rightarrow> object \<Rightarrow> frame option \<Rightarrow> mret" where
  "Float_Multiply h f other fr =
     (case other of
        IntObject v \<Rightarrow> (Float (fmul h f (float64_of_int64 h v)), None)
      | Float v \<Rightarrow> (Float (fmul h f v), None)
      | _ \<Rightarrow> invalid_operation fr ''*'')"

definition Float_Divide :: "host \<Rightarrow> float64 \<Rightarrow> object \<Rightarrow> frame option \<Rightarrow> mret" where
  "Float_Divide h f other fr =
     (case other of
        IntObject v \<Rightarrow>
          if v = 0 then division_by_zero fr
          else (Float (fdiv h f (float64_of_int64 h v)), None)
      | Float v \<Rightarrow>
          if float_eq v 0 then division_by_zero fr
          else (Float (fdiv h f v), None)
      | _ \<Rightarrow> invalid_operation fr ''/'')"

definition Float_Mod :: "host \<Rightarrow> float64 \<Rightarrow> object \<Rightarrow> frame option \<Rightarrow> mret" where
  "Float_Mod h f other fr =
     (case other of
        IntObject v \<Rightarrow>
          if v = 0 then division_by_zero fr
          else (Float (fmod h f (float64_of_int64 h v)), None)
      | Float v \<Rightarrow>
          if float_eq v 0 then division_by_zero fr
          else (Float (fmod h f v), None)
      | _ \<Rightarrow> invalid_operation fr ''%'')"

definition Float_Equal :: "host \<Rightarrow> float64 \<Rightarrow> object \<Rightarrow> mret" where
  "Float_Equal h f other =
     (case other of
        IntObject v \<Rightarrow> (Bool (float_eq f (float64_of_int64 h v)), None)
      | Float v \<Rightarrow> (Bool (float_eq f v), None)
      | _ \<Rightarrow> (Bool False, None))"

definition Float_NotEqual :: "host \<Rightarrow> float64 \<Rightarrow> object \<Rightarrow> mret" where
  "Float_NotEqual h f other =
     (case other of
        IntObject v \<Rightarrow> (Bool (\<not> float_eq f (float64_of_int64 h v)), None)
      | Float v \<Rightarrow> (Bool (\<not> float_eq f v), None)
      | _ \<Rightarrow> (Bool True, None))"

definition Float_LessThan :: "host \<Rightarrow> float64 \<Rightarrow> object \<Rightarrow> frame option \<Rightarrow> mret" where
  "Float_LessThan h f other fr =
     (case other of
        IntObject v \<Rightarrow> (Bool (float_lt f (float64_of_int64 h v)), None)
      | Float v \<Rightarrow> (Bool (float_lt f v), None)
      | _ \<Rightarrow> invalid_operation fr ''<'')"

definition Float_GreaterThan :: "host \<Rightarrow> float64 \<Rightarrow> object \<Rightarrow> frame option \<Rightarrow> mret" where
  "Float_GreaterThan h f other fr =
     (case other of
        IntObject v \<Rightarrow> (Bool (float_lt (float64_of_int64 h v) f), None)
      | Float v \<Rightarrow> (Bool (float_lt v f), None)
      | _ \<Rightarrow> invalid_operation fr ''>'')"

definition Float_LessThanOrEqual :: "host \<Rightarrow> float64 \<Rightarrow> object \<Rightarrow> frame option \<Rightarrow> mret" where
  "Float_LessThanOrEqual h f other fr =
     (case other of
        IntObject v \<Rightarrow> (Bool (float_le f (float64_of_int64 h v)), None)
      | Float v \<Rightarrow> (Bool (float_le f v), None)
      | _ \<Rightarrow> invalid_operation fr ''<='')"

definition Float_GreaterThanOrEqual :: "host \<Rightarrow> float64 \<Rightarrow> object \<Rightarrow> frame option \<Rightarrow> mret" where
  "Float_GreaterThanOrEqual h f other fr =
     (case other of
        IntObject v \<Rightarrow> (Bool (float_le (float64_of_int64 h v) f), None)
      | Float v \<Rightarrow> (Bool (float_le v f), None)
      | _ \<Rightarrow> invalid_operation fr ''>='')"

subsection \<open>Bool\<close>

definition Bool_Equal :: "bool \<Rightarrow> object \<Rightarrow> mret" where
  "Bool_Equal b other = (case other of Bool v \<Rightarrow> (Bool (b = v), None) | _ \<Rightarrow> (Bool False, None))"

definition Bool_NotEqual :: "bool \<Rightarrow> object \<Rightarrow> mret" where
  "Bool_NotEqual b other = (case other of Bool v \<Rightarrow> (Bool (b \<noteq> v), None) | _ \<Rightarrow> (Bool True, None))"

definition Bool_And :: "bool \<Rightarrow> object \<Rightarrow> frame option \<Rightarrow> mret" where
  "Bool_And b other fr =
     (case other of Bool v \<Rightarrow> (Bool (b \<and> v), None) | _ \<Rightarrow> invalid_operation fr ''&&'')"

definition Bool_Or :: "bool \<Rightarrow> object \<Rightarrow> frame option \<Rightarrow> mret" where
  "Bool_Or b other fr =
     (case other of Bool v \<Rightarrow> (Bool (b \<or> v), None) | _ \<Rightarrow> invalid_operation fr ''||'')"


subsection \<open>String\<close>

definition String_Add :: "addr \<Rightarrow> object \<Rightarrow> frame option \<Rightarrow> state \<Rightarrow> mret res" where
  "String_Add s other fr st =
     (case other of
        String b \<Rightarrow> (case new_String (Strings st s @ Strings st b) st of (v, st') \<Rightarrow> Ret (v, None) st')
      | _ \<Rightarrow> Ret (invalid_operation fr ''+'') st)"

definition String_Multiply :: "host \<Rightarrow> addr \<Rightarrow> object \<Rightarrow> frame option \<Rightarrow> state \<Rightarrow> mret res" where
  "String_Multiply h s other fr st =
     (case other of
        IntObject v \<Rightarrow>
          if sint v < 0 then Ret (invalid_operation fr ''*'') st
          else if sint v > 2 ^ 63 - 1 then Ret (invalid_operation fr ''*'') st
          else (case strings_Repeat h (Strings st s) (sint v) of
                  None \<Rightarrow> Panic
                | Some r \<Rightarrow> (case new_String r st of (v, st') \<Rightarrow> Ret (v, None) st'))
      | _ \<Rightarrow> Ret (invalid_operation fr ''*'') st)"

definition String_Equal :: "addr \<Rightarrow> object \<Rightarrow> state \<Rightarrow> mret" where
  "String_Equal s other st =
     (case other of
        String b \<Rightarrow> (Bool (Strings st s = Strings st b), None)
      | _ \<Rightarrow> (Bool False, None))"

definition String_NotEqual :: "addr \<Rightarrow> object \<Rightarrow> state \<Rightarrow> mret" where
  "String_NotEqual s other st =
     (case other of
        String b \<Rightarrow> (Bool (Strings st s \<noteq> Strings st b), None)
      | _ \<Rightarrow> (Bool True, None))"

text \<open>
  \<open>String.Index\<close> counts in runes.  The assertion \<open>other.(*Int)\<close> panics on any other
  index object.
\<close>

definition String_Index :: "addr \<Rightarrow> object \<Rightarrow> frame option \<Rightarrow> state \<Rightarrow> mret res" where
  "String_Index s other fr st =
     (case other of
        IntObject i \<Rightarrow>
          (let rs = runes (Strings st s);
               len = (of_nat (length rs) :: int64);
               real = (if sint i < 0 then len + i else i)
           in if sint real < 0 \<or> sint real \<ge> sint len
              then Ret (NilObject, Some (index_out_of_range fr)) st
              else (case new_String (encode_rune (rs ! nat (sint real))) st of
                      (v, st') \<Rightarrow> Ret (v, None) st'))
      | _ \<Rightarrow> Panic)"

text \<open>\<open>String.Set\<close> takes its length and its slices in bytes.\<close>

definition String_Set :: "addr \<Rightarrow> object \<Rightarrow> object \<Rightarrow> frame option \<Rightarrow> state \<Rightarrow> (error option) res" where
  "String_Set s index val fr st =
     (case index of
        IntObject i \<Rightarrow>
          (let len = (of_nat (length (Strings st s)) :: int64);
               real = (if sint i < 0 then len + i else i)
           in if sint real < 0 \<or> sint real \<ge> sint len
              then Ret (Some (index_out_of_range fr)) st
              else (case val of
                      String b \<Rightarrow>
                        Ret None
                          (st\<lparr>Strings := (Strings st)
                             (s := take (nat (sint real)) (Strings st s) @ Strings st b
                                   @ drop (nat (sint real) + 1) (Strings st s))\<rparr>)
                    | _ \<Rightarrow> Ret (Some (MkError TypeError fr ''invalid assignment.'')) st))
      | _ \<Rightarrow> Panic)"

subsection \<open>List\<close>

definition List_Add :: "host \<Rightarrow> addr \<Rightarrow> object \<Rightarrow> frame option \<Rightarrow> state \<Rightarrow> mret res" where
  "List_Add h l other fr st =
     (case other of
        List b \<Rightarrow>
          (let xs = Lists st l; ys = Lists st b in
           if length xs > 0 \<and> length ys > 0 then
             (case (Type_of h (hd xs), Type_of h (hd ys)) of
                (Some t1, Some t2) \<Rightarrow>
                  if t1 \<noteq> t2
                  then Ret (NilObject, Some (MkError OperationError fr
                         ''cannot concatenate lists with different element types.'')) st
                  else (case new_List (xs @ ys) st of (v, st') \<Rightarrow> Ret (v, None) st')
              | _ \<Rightarrow> Panic)
           else (case new_List (xs @ ys) st of (v, st') \<Rightarrow> Ret (v, None) st'))
      | _ \<Rightarrow> Ret (invalid_operation fr ''+'') st)"

text \<open>
  \<open>List.Multiply\<close>: \<open>make\<close> panics when the capacity \<open>len * int(times)\<close>, computed
  in \<open>int\<close>, is negative, and when the slice of that many elements, of 16 bytes each, is
  beyond \<open>maxAlloc\<close>; when the product has wrapped to a capacity that is too small, it is
  \<open>append\<close> that panics on the way to the full length.  Within \<open>maxAlloc\<close>, memory is
  not bounded here.
\<close>

definition List_Multiply :: "host \<Rightarrow> addr \<Rightarrow> object \<Rightarrow> frame option \<Rightarrow> state \<Rightarrow> mret res" where
  "List_Multiply h l other fr st =
     (case other of
        IntObject cnt \<Rightarrow>
          if sint cnt \<le> 0 then Ret (invalid_operation fr ''*'') st
          else if length (Lists st l) = 0
          then (case new_List [] st of (v, st') \<Rightarrow> Ret (v, None) st')
          else if sint ((of_nat (length (Lists st l)) :: int64) * cnt) < 0 then Panic
          else if 16 * (length (Lists st l) * nat (sint cnt)) > maxAlloc h then Panic
          else (case new_List (concat (replicate (nat (sint cnt)) (Lists st l))) st of
                  (v, st') \<Rightarrow> Ret (v, None) st')
      | _ \<Rightarrow> Ret (invalid_operation fr ''*'') st)"

definition List_Index :: "addr \<Rightarrow> object \<Rightarrow> frame option \<Rightarrow> state \<Rightarrow> mret res" where
  "List_Index l other fr st =
     (case other of
        IntObject i \<Rightarrow>
          (let len = (of_nat (length (Lists st l)) :: int64);
               real = (if sint i < 0 then len + i else i)
           in if sint real < 0 \<or> sint real \<ge> sint len
              then Ret (NilObject, Some (index_out_of_range fr)) st
              else Ret (Lists st l ! nat (sint real), None) st)
      | _ \<Rightarrow> Panic)"

definition List_Set :: "host \<Rightarrow> addr \<Rightarrow> object \<Rightarrow> object \<Rightarrow> frame option \<Rightarrow> state \<Rightarrow> (error option) res" where
  "List_Set h l index val fr st =
     (case index of
        IntObject i \<Rightarrow>
          (let len = (of_nat (length (Lists st l)) :: int64);
               real = (if sint i < 0 then len + i else i)
           in if sint real < 0 \<or> sint real \<ge> sint len
              then Ret (Some (index_out_of_range fr)) st
              else (case Lists st l of
                      [] \<Rightarrow> Panic
                    | x # _ \<Rightarrow>
                       (case (Type_of h val, Type_of h x) of
                          (Some t1, Some t2) \<Rightarrow>
                            if t1 \<noteq> t2
                            then Ret (Some (MkError TypeError fr
                                   ''list elements must have consistent types.'')) st
                            else Ret None
                                   (st\<lparr>Lists := (Lists st)(l := (Lists st l)[nat (sint real) := val])\<rparr>)
                        | _ \<Rightarrow> Panic)))
      | _ \<Rightarrow> Panic)"

subsection \<open>Function and BuiltinFunction\<close>

text \<open>Both compare by pointer (\<open>f == otherFunc\<close>).\<close>

definition Function_Equal :: "nat \<Rightarrow> object \<Rightarrow> mret" where
  "Function_Equal f other =
     (case other of Function g _ _ _ _ \<Rightarrow> (Bool (f = g), None) | _ \<Rightarrow> (Bool False, None))"

definition Function_NotEqual :: "nat \<Rightarrow> object \<Rightarrow> mret" where
  "Function_NotEqual f other =
     (case other of Function g _ _ _ _ \<Rightarrow> (Bool (f \<noteq> g), None) | _ \<Rightarrow> (Bool True, None))"

definition BuiltinFunction_Equal :: "nat \<Rightarrow> object \<Rightarrow> mret" where
  "BuiltinFunction_Equal f other =
     (case other of BuiltinFunction g _ _ _ \<Rightarrow> (Bool (f = g), None) | _ \<Rightarrow> (Bool False, None))"

definition BuiltinFunction_NotEqual :: "nat \<Rightarrow> object \<Rightarrow> mret" where
  "BuiltinFunction_NotEqual f other =
     (case other of BuiltinFunction g _ _ _ \<Rightarrow> (Bool (f \<noteq> g), None) | _ \<Rightarrow> (Bool True, None))"


subsection \<open>The method set of \<open>Object\<close>\<close>

text \<open>
  A method call on the \<open>nil\<close> interface panics.  Every variant implements every method;
  where a variant does not support an operation its method returns the uniform
  \<open>OperationError\<close>.  The methods of \<open>Null\<close> and \<open>ReturnValue\<close> are the host's.
\<close>

definition unsupported_unary :: "host \<Rightarrow> string \<Rightarrow> string \<Rightarrow> object \<Rightarrow> frame option \<Rightarrow> state \<Rightarrow> mret res" where
  "unsupported_unary h m lit recv fr st =
     (case recv of
        NilObject \<Rightarrow> Panic
      | Null \<Rightarrow> Ret (absent_unary h recv m fr) st
      | ReturnValue _ \<Rightarrow> Ret (absent_unary h recv m fr) st
      | _ \<Rightarrow> Ret (invalid_operation fr lit) st)"

definition unsupported_binary :: "host \<Rightarrow> string \<Rightarrow> string \<Rightarrow> object \<Rightarrow> object \<Rightarrow> frame option \<Rightarrow> state \<Rightarrow> mret res" where
  "unsupported_binary h m lit recv other fr st =
     (case recv of
        NilObject \<Rightarrow> Panic
      | Null \<Rightarrow> Ret (absent_binary h recv m other fr) st
      | ReturnValue _ \<Rightarrow> Ret (absent_binary h recv m other fr) st
      | _ \<Rightarrow> Ret (invalid_operation fr lit) st)"

definition Object_Negative :: "host \<Rightarrow> object \<Rightarrow> frame option \<Rightarrow> state \<Rightarrow> mret res" where
  "Object_Negative h x fr st =
     (case x of
        IntObject i \<Rightarrow> Ret (IntObject (- i), None) st
      | Float f \<Rightarrow> Ret (Float (float_neg f), None) st
      | _ \<Rightarrow> unsupported_unary h ''Negative'' ''-'' x fr st)"

definition Object_BitNot :: "host \<Rightarrow> object \<Rightarrow> frame option \<Rightarrow> state \<Rightarrow> mret res" where
  "Object_BitNot h x fr st =
     (case x of
        IntObject i \<Rightarrow> Ret (IntObject (NOT i), None) st
      | _ \<Rightarrow> unsupported_unary h ''BitNot'' ''~'' x fr st)"

definition Object_Not :: "host \<Rightarrow> object \<Rightarrow> frame option \<Rightarrow> state \<Rightarrow> mret res" where
  "Object_Not h x fr st =
     (case x of
        Bool b \<Rightarrow> Ret (Bool (\<not> b), None) st
      | _ \<Rightarrow> unsupported_unary h ''Not'' ''!'' x fr st)"

definition Object_Add :: "host \<Rightarrow> object \<Rightarrow> object \<Rightarrow> frame option \<Rightarrow> state \<Rightarrow> mret res" where
  "Object_Add h x other fr st =
     (case x of
        IntObject i \<Rightarrow> Ret (Int_Add h i other fr) st
      | Float f \<Rightarrow> Ret (Float_Add h f other fr) st
      | String a \<Rightarrow> String_Add a other fr st
      | List a \<Rightarrow> List_Add h a other fr st
      | _ \<Rightarrow> unsupported_binary h ''Add'' ''+'' x other fr st)"

definition Object_Subtract :: "host \<Rightarrow> object \<Rightarrow> object \<Rightarrow> frame option \<Rightarrow> state \<Rightarrow> mret res" where
  "Object_Subtract h x other fr st =
     (case x of
        IntObject i \<Rightarrow> Ret (Int_Subtract h i other fr) st
      | Float f \<Rightarrow> Ret (Float_Subtract h f other fr) st
      | _ \<Rightarrow> unsupported_binary h ''Subtract'' ''-'' x other fr st)"

definition Object_Multiply :: "host \<Rightarrow> object \<Rightarrow> object \<Rightarrow> frame option \<Rightarrow> state \<Rightarrow> mret res" where
  "Object_Multiply h x other fr st =
     (case x of
        IntObject i \<Rightarrow> Int_Multiply h i other fr st
      | Float f \<Rightarrow> Ret (Float_Multiply h f other fr) st
      | String a \<Rightarrow> String_Multiply h a other fr st
      | List a \<Rightarrow> List_Multiply h a other fr st
      | _ \<Rightarrow> unsupported_binary h ''Multiply'' ''*'' x other fr st)"

definition Object_Divide :: "host \<Rightarrow> object \<Rightarrow> object \<Rightarrow> frame option \<Rightarrow> state \<Rightarrow> mret res" where
  "Object_Divide h x other fr st =
     (case x of
        IntObject i \<Rightarrow> Ret (Int_Divide h i other fr) st
      | Float f \<Rightarrow> Ret (Float_Divide h f other fr) st
      | _ \<Rightarrow> unsupported_binary h ''Divide'' ''/'' x other fr st)"

definition Object_Mod :: "host \<Rightarrow> object \<Rightarrow> object \<Rightarrow> frame option \<Rightarrow> state \<Rightarrow> mret res" where
  "Object_Mod h x other fr st =
     (case x of
        IntObject i \<Rightarrow> Ret (Int_Mod h i other fr) st
      | Float f \<Rightarrow> Ret (Float_Mod h f other fr) st
      | _ \<Rightarrow> unsupported_binary h ''Mod'' ''%'' x other fr st)"

text \<open>
  \<open>Equal\<close>: \<open>List.Equal\<close> calls \<open>Equal\<close> on the elements, and a list can be made to
  contain itself, so the recursion takes fuel.
\<close>

fun Object_Equal :: "host \<Rightarrow> nat \<Rightarrow> object \<Rightarrow> object \<Rightarrow> frame option \<Rightarrow> state \<Rightarrow> mret res"
  and List_Equal_loop :: "host \<Rightarrow> nat \<Rightarrow> object list \<Rightarrow> object list \<Rightarrow> frame option \<Rightarrow> state \<Rightarrow> mret res"
where
  "Object_Equal h 0 x other fr st = Timeout"
| "Object_Equal h (Suc n) x other fr st =
     (case x of
        NilObject \<Rightarrow> Panic
      | IntObject i \<Rightarrow> Ret (Int_Equal h i other) st
      | Float f \<Rightarrow> Ret (Float_Equal h f other) st
      | Bool b \<Rightarrow> Ret (Bool_Equal b other) st
      | Null \<Rightarrow> Ret (absent_binary h x ''Equal'' other fr) st
      | String a \<Rightarrow> Ret (String_Equal a other st) st
      | List a \<Rightarrow>
          (case other of
             List b \<Rightarrow>
               if length (Lists st a) \<noteq> length (Lists st b) then Ret (Bool False, None) st
               else List_Equal_loop h n (Lists st a) (Lists st b) fr st
           | _ \<Rightarrow> Ret (Bool False, None) st)
      | Function f _ _ _ _ \<Rightarrow> Ret (Function_Equal f other) st
      | BuiltinFunction f _ _ _ \<Rightarrow> Ret (BuiltinFunction_Equal f other) st
      | ReturnValue _ \<Rightarrow> Ret (absent_binary h x ''Equal'' other fr) st)"
| "List_Equal_loop h n [] ys fr st = Ret (Bool True, None) st"
| "List_Equal_loop h n (x # xs) ys fr st =
     (case ys of
        [] \<Rightarrow> Panic
      | y # ys' \<Rightarrow>
          (case Object_Equal h n x y fr st of
             Ret (equal, err) st' \<Rightarrow>
               (case err of
                  Some e \<Rightarrow> Ret (NilObject, Some e) st'
                | None \<Rightarrow>
                    (case equal of
                       Bool v \<Rightarrow> if \<not> v then Ret (Bool False, None) st'
                                 else List_Equal_loop h n xs ys' fr st'
                     | _ \<Rightarrow> Panic))
           | Panic \<Rightarrow> Panic
           | Timeout \<Rightarrow> Timeout))"

definition Object_NotEqual :: "host \<Rightarrow> nat \<Rightarrow> object \<Rightarrow> object \<Rightarrow> frame option \<Rightarrow> state \<Rightarrow> mret res" where
  "Object_NotEqual h n x other fr st =
     (case x of
        NilObject \<Rightarrow> Panic
      | IntObject i \<Rightarrow> Ret (Int_NotEqual h i other) st
      | Float f \<Rightarrow> Ret (Float_NotEqual h f other) st
      | Bool b \<Rightarrow> Ret (Bool_NotEqual b other) st
      | Null \<Rightarrow> Ret (absent_binary h x ''NotEqual'' other fr) st
      | String a \<Rightarrow> Ret (String_NotEqual a other st) st
      | List a \<Rightarrow>
          (case Object_Equal h n x other fr st of
             Ret (equal, err) st' \<Rightarrow>
               (case err of
                  Some e \<Rightarrow> Ret (NilObject, Some e) st'
                | None \<Rightarrow> (case equal of Bool v \<Rightarrow> Ret (Bool (\<not> v), None) st' | _ \<Rightarrow> Panic))
           | Panic \<Rightarrow> Panic
           | Timeout \<Rightarrow> Timeout)
      | Function f _ _ _ _ \<Rightarrow> Ret (Function_NotEqual f other) st
      | BuiltinFunction f _ _ _ \<Rightarrow> Ret (BuiltinFunction_NotEqual f other) st
      | ReturnValue _ \<Rightarrow> Ret (absent_binary h x ''NotEqual'' other fr) st)"

definition Object_LessThan :: "host \<Rightarrow> object \<Rightarrow> object \<Rightarrow> frame option \<Rightarrow> state \<Rightarrow> mret res" where
  "Object_LessThan h x other fr st =
     (case x of
        IntObject i \<Rightarrow> Ret (Int_LessThan h i other fr) st
      | Float f \<Rightarrow> Ret (Float_LessThan h f other fr) st
      | _ \<Rightarrow> unsupported_binary h ''LessThan'' ''<'' x other fr st)"

definition Object_GreaterThan :: "host \<Rightarrow> object \<Rightarrow> object \<Rightarrow> frame option \<Rightarrow> state \<Rightarrow> mret res" where
  "Object_GreaterThan h x other fr st =
     (case x of
        IntObject i \<Rightarrow> Ret (Int_GreaterThan h i other fr) st
      | Float f \<Rightarrow> Ret (Float_GreaterThan h f other fr) st
      | _ \<Rightarrow> unsupported_binary h ''GreaterThan'' ''>'' x other fr st)"

definition Object_LessThanOrEqual :: "host \<Rightarrow> object \<Rightarrow> object \<Rightarrow> frame option \<Rightarrow> state \<Rightarrow> mret res" where
  "Object_LessThanOrEqual h x other fr st =
     (case x of
        IntObject i \<Rightarrow> Ret (Int_LessThanOrEqual h i other fr) st
      | Float f \<Rightarrow> Ret (Float_LessThanOrEqual h f other fr) st
      | _ \<Rightarrow> unsupported_binary h ''LessThanOrEqual'' ''<='' x other fr st)"

definition Object_GreaterThanOrEqual :: "host \<Rightarrow> object \<Rightarrow> object \<Rightarrow> frame option \<Rightarrow> state \<Rightarrow> mret res" where
  "Object_GreaterThanOrEqual h x other fr st =
     (case x of
        IntObject i \<Rightarrow> Ret (Int_GreaterThanOrEqual h i other fr) st
      | Float f \<Rightarrow> Ret (Float_GreaterThanOrEqual h f other fr) st
      | _ \<Rightarrow> unsupported_binary h ''GreaterThanOrEqual'' ''>='' x other fr st)"

definition Object_BitAnd :: "host \<Rightarrow> object \<Rightarrow> object \<Rightarrow> frame option \<Rightarrow> state \<Rightarrow> mret res" where
  "Object_BitAnd h x other fr st =
     (case x of
        IntObject i \<Rightarrow> Ret (Int_BitAnd i other fr) st
      | _ \<Rightarrow> unsupported_binary h ''BitAnd'' ''&'' x other fr st)"

definition Object_BitOr :: "host \<Rightarrow> object \<Rightarrow> object \<Rightarrow> frame option \<Rightarrow> state \<Rightarrow> mret res" where
  "Object_BitOr h x other fr st =
     (case x of
        IntObject i \<Rightarrow> Ret (Int_BitOr i other fr) st
      | _ \<Rightarrow> unsupported_binary h ''BitOr'' ''|'' x other fr st)"

definition Object_Xor :: "host \<Rightarrow> object \<Rightarrow> object \<Rightarrow> frame option \<Rightarrow> state \<Rightarrow> mret res" where
  "Object_Xor h x other fr st =
     (case x of
        IntObject i \<Rightarrow> Ret (Int_Xor i other fr) st
      | _ \<Rightarrow> unsupported_binary h ''Xor'' ''^'' x other fr st)"

definition Object_LeftShift :: "host \<Rightarrow> object \<Rightarrow> object \<Rightarrow> frame option \<Rightarrow> state \<Rightarrow> mret res" where
  "Object_LeftShift h x other fr st =
     (case x of
        IntObject i \<Rightarrow> Ret (Int_LeftShift i other fr) st
      | _ \<Rightarrow> unsupported_binary h ''LeftShift'' ''<<'' x other fr st)"

definition Object_RightShift :: "host \<Rightarrow> object \<Rightarrow> object \<Rightarrow> frame option \<Rightarrow> state \<Rightarrow> mret res" where
  "Object_RightShift h x other fr st =
     (case x of
        IntObject i \<Rightarrow> Ret (Int_RightShift i other fr) st
      | _ \<Rightarrow> unsupported_binary h ''RightShift'' ''>>'' x other fr st)"

definition Object_And :: "host \<Rightarrow> object \<Rightarrow> object \<Rightarrow> frame option \<Rightarrow> state \<Rightarrow> mret res" where
  "Object_And h x other fr st =
     (case x of
        Bool b \<Rightarrow> Ret (Bool_And b other fr) st
      | _ \<Rightarrow> unsupported_binary h ''And'' ''&&'' x other fr st)"

definition Object_Or :: "host \<Rightarrow> object \<Rightarrow> object \<Rightarrow> frame option \<Rightarrow> state \<Rightarrow> mret res" where
  "Object_Or h x other fr st =
     (case x of
        Bool b \<Rightarrow> Ret (Bool_Or b other fr) st
      | _ \<Rightarrow> unsupported_binary h ''Or'' ''||'' x other fr st)"

definition Object_Index :: "host \<Rightarrow> object \<Rightarrow> object \<Rightarrow> frame option \<Rightarrow> state \<Rightarrow> mret res" where
  "Object_Index h x other fr st =
     (case x of
        NilObject \<Rightarrow> Panic
      | Null \<Rightarrow> Ret (absent_binary h x ''Index'' other fr) st
      | ReturnValue _ \<Rightarrow> Ret (absent_binary h x ''Index'' other fr) st
      | String a \<Rightarrow> String_Index a other fr st
      | List a \<Rightarrow> List_Index a other fr st
      | _ \<Rightarrow> Ret (not_indexable fr) st)"

text \<open>
  The interface \<open>indexable\<close> of the evaluator: the variants with a \<open>Set\<close> method, which
  are \<open>String\<close> and \<open>List\<close>.
\<close>

definition is_indexable :: "object \<Rightarrow> bool" where
  "is_indexable x = (case x of String _ \<Rightarrow> True | List _ \<Rightarrow> True | _ \<Rightarrow> False)"

definition indexable_Set :: "host \<Rightarrow> object \<Rightarrow> object \<Rightarrow> object \<Rightarrow> frame option \<Rightarrow> state \<Rightarrow> (error option) res" where
  "indexable_Set h x index val fr st =
     (case x of
        String a \<Rightarrow> String_Set a index val fr st
      | List a \<Rightarrow> List_Set h a index val fr st
      | _ \<Rightarrow> Panic)"

section \<open>Environments\<close>

text \<open>
  \<open>Get\<close> and \<open>Assign\<close> follow the \<open>Outer\<close> pointers; on a store in which these
  form a cycle the walk does not end, which is the value \<open>None\<close> here.
\<close>

partial_function (option) Env_Get :: "(addr \<Rightarrow> environment) \<Rightarrow> addr \<Rightarrow> string \<Rightarrow> symbol option option" where
  "Env_Get hp e name =
     (case Store (hp e) name of
        Some val \<Rightarrow> Some (Some val)
      | None \<Rightarrow> (case Outer (hp e) of Some outer \<Rightarrow> Env_Get hp outer name | None \<Rightarrow> Some None))"

definition Env_Set :: "(addr \<Rightarrow> environment) \<Rightarrow> addr \<Rightarrow> string \<Rightarrow> symbol \<Rightarrow> (addr \<Rightarrow> environment)" where
  "Env_Set hp e name smb = hp(e := (hp e)\<lparr>Store := (Store (hp e))(name \<mapsto> smb)\<rparr>)"

partial_function (option) Env_Assign :: "(addr \<Rightarrow> environment) \<Rightarrow> addr \<Rightarrow> string \<Rightarrow> symbol \<Rightarrow> (addr \<Rightarrow> environment) option" where
  "Env_Assign hp e name smb =
     (case Store (hp e) name of
        Some _ \<Rightarrow> Some (Env_Set hp e name smb)
      | None \<Rightarrow> (case Outer (hp e) of Some outer \<Rightarrow> Env_Assign hp outer name smb | None \<Rightarrow> Some hp))"

definition Env_Exists :: "(addr \<Rightarrow> environment) \<Rightarrow> addr \<Rightarrow> string \<Rightarrow> bool" where
  "Env_Exists hp e name \<longleftrightarrow> Store (hp e) name \<noteq> None"

definition new_Environment :: "addr option \<Rightarrow> state \<Rightarrow> addr \<times> state" where
  "new_Environment outer st =
     (EnvNext st,
      st\<lparr>Envs := (Envs st)(EnvNext st := \<lparr>Store = Map.empty, Outer = outer\<rparr>),
         EnvNext := Suc (EnvNext st)\<rparr>)"


section \<open>The evaluator\<close>

text \<open>
  \<open>Eval\<close> takes an \<open>ast.Node\<close>: the program, a statement, an expression, \<open>nil\<close>, or
  (in the builtin branch of a call) an \<open>Object\<close> that is passed where a node is
  expected.  The functions below are the methods of \<open>Evaluator\<close>; each takes as \<open>ev\<close>
  the function it calls as \<open>e.Eval\<close>.
\<close>

datatype node = Program "stmt list" | StmtNode stmt | ExprNode expr | NilNode | ObjectNode object

type_synonym evalfn = "node \<Rightarrow> addr \<Rightarrow> state \<Rightarrow> object res"

text \<open>\<open>e.Err = err; return nil\<close>\<close>

definition raise :: "error \<Rightarrow> state \<Rightarrow> object res" where
  "raise err st = Ret NilObject (st\<lparr>Err := Some err\<rparr>)"

text \<open>\<open>x := ...; if e.Err != nil { return nil }\<close>, then the rest\<close>

definition errchk :: "object res \<Rightarrow> (object \<Rightarrow> state \<Rightarrow> object res) \<Rightarrow> object res" where
  "errchk m f = bind m (\<lambda>x st. if Err st \<noteq> None then Ret NilObject st else f x st)"

text \<open>\<open>val, err := ...; if err != nil { e.Err = err; return nil }; return val\<close>\<close>

definition method_result :: "mret res \<Rightarrow> object res" where
  "method_result m =
     bind m (\<lambda>r st. case snd r of Some err \<Rightarrow> raise err st | None \<Rightarrow> Ret (fst r) st)"

definition undefined_variable :: "string \<Rightarrow> string" where
  \<open>undefined_variable name = ''undefined variable "'' @ name @ ''".''\<close>

definition cannot_redefine :: "string \<Rightarrow> string" where
  \<open>cannot_redefine name = ''cannot redefine constant "'' @ name @ ''".''\<close>

text \<open>\<open>%d\<close> of a length.\<close>

fun show_nat :: "nat \<Rightarrow> string" where
  "show_nat n = (if n < 10 then [char_of (48 + n)] else show_nat (n div 10) @ [char_of (48 + n mod 10)])"

declare show_nat.simps [simp del]

subsection \<open>Statements\<close>

fun evalProgram :: "evalfn \<Rightarrow> stmt list \<Rightarrow> addr \<Rightarrow> state \<Rightarrow> object res" where
  "evalProgram ev [] env st = Ret NilObject st"
| "evalProgram ev (statement # rest) env st =
     errchk (ev (StmtNode statement) env st) (\<lambda>_ st1. evalProgram ev rest env st1)"

definition non_bool_for :: "state \<Rightarrow> object res" where
  "non_bool_for st = raise (MkError TypeError (Frame st) ''non-bool condition in for loop.'') st"

fun forLoop :: "evalfn \<Rightarrow> nat \<Rightarrow> expr \<Rightarrow> stmt \<Rightarrow> stmt \<Rightarrow> addr \<Rightarrow> bool \<Rightarrow> state \<Rightarrow> object res" where
  "forLoop ev fuel cond update body forEnv condition st =
     (if \<not> condition then Ret NilObject st
      else (case fuel of
              0 \<Rightarrow> Timeout
            | Suc fuel' \<Rightarrow>
                errchk (ev (StmtNode body) forEnv st) (\<lambda>ret st1.
                  case ret of
                    ReturnValue _ \<Rightarrow> Ret ret st1
                  | _ \<Rightarrow>
                      errchk (ev (StmtNode update) forEnv st1) (\<lambda>_ st2.
                        errchk (ev (ExprNode cond) forEnv st2) (\<lambda>c st3.
                          case c of
                            Bool b \<Rightarrow> forLoop ev fuel' cond update body forEnv b st3
                          | _ \<Rightarrow> non_bool_for st3)))))"

declare forLoop.simps [simp del]

definition evalForStatement :: "evalfn \<Rightarrow> nat \<Rightarrow> stmt \<Rightarrow> expr \<Rightarrow> stmt \<Rightarrow> stmt \<Rightarrow> addr \<Rightarrow> state \<Rightarrow> object res" where
  "evalForStatement ev fuel init cond update body env st =
     (case new_Environment (Some env) st of
        (forEnv, st0) \<Rightarrow>
          errchk (ev (StmtNode init) forEnv st0) (\<lambda>_ st1.
            errchk (ev (ExprNode cond) forEnv st1) (\<lambda>c st2.
              case c of
                Bool b \<Rightarrow> forLoop ev fuel cond update body forEnv b st2
              | _ \<Rightarrow> non_bool_for st2)))"

definition evalFunctionDeclarationStatement :: "expr \<Rightarrow> parameter list \<Rightarrow> stmt \<Rightarrow> addr \<Rightarrow> state \<Rightarrow> object res" where
  \<open>evalFunctionDeclarationStatement name params body env st =
     (case name of
        IdentifierExpression funcName \<Rightarrow>
          (case Env_Get (Envs st) env funcName of
             None \<Rightarrow> Timeout
           | Some (Some _) \<Rightarrow>
               raise (MkError VariableError (Frame st)
                        (''function "'' @ funcName @ ''" already defined.'')) st
           | Some None \<Rightarrow>
               Ret NilObject
                 (st\<lparr>Envs := Env_Set (Envs st) env funcName
                        \<lparr>Name = funcName,
                         Value = Function (FuncNext st) funcName params body env,
                         IsConst = True\<rparr>,
                     FuncNext := Suc (FuncNext st)\<rparr>))
      | _ \<Rightarrow> Panic)\<close>

definition evalReturnStatement :: "evalfn \<Rightarrow> expr \<Rightarrow> addr \<Rightarrow> state \<Rightarrow> object res" where
  "evalReturnStatement ev returnValue env st =
     (case Frame st of
        None \<Rightarrow> Panic
      | Some f \<Rightarrow>
          if Parent f = None
          then raise (MkError SyntaxError (Frame st)
                        ''return statement is only allowed inside functions.'') st
          else errchk (ev (ExprNode returnValue) env st) (\<lambda>v st1. Ret (ReturnValue v) st1))"

definition evalExpressionStatement :: "evalfn \<Rightarrow> expr \<Rightarrow> addr \<Rightarrow> state \<Rightarrow> object res" where
  "evalExpressionStatement ev e env st =
     errchk (ev (ExprNode e) env st) (\<lambda>ret st1.
       case ret of ReturnValue _ \<Rightarrow> Ret ret st1 | _ \<Rightarrow> Ret NilObject st1)"

subsection \<open>Literals, identifiers and declarations\<close>

definition evalStringExpression :: "string \<Rightarrow> state \<Rightarrow> object res" where
  "evalStringExpression s st = (case new_String s st of (v, st') \<Rightarrow> Ret v st')"

definition inconsistent_types :: "frame option \<Rightarrow> error" where
  "inconsistent_types fr = MkError TypeError fr ''list elements must have consistent types.''"

fun evalListElements :: "evalfn \<Rightarrow> host \<Rightarrow> expr list \<Rightarrow> addr \<Rightarrow> nat \<Rightarrow> string \<Rightarrow> object list \<Rightarrow> state \<Rightarrow> object res" where
  "evalListElements ev h [] env i firstType elements st =
     (case new_List elements st of (v, st') \<Rightarrow> Ret v st')"
| "evalListElements ev h (elementExpr # rest) env i firstType elements st =
     errchk (ev (ExprNode elementExpr) env st) (\<lambda>element st1.
       case Type_of h element of
         None \<Rightarrow> Panic
       | Some t \<Rightarrow>
           if i = 0 then evalListElements ev h rest env (Suc i) t (elements @ [element]) st1
           else if t \<noteq> firstType then raise (inconsistent_types (Frame st1)) st1
           else evalListElements ev h rest env (Suc i) firstType (elements @ [element]) st1)"

definition evalListExpression :: "evalfn \<Rightarrow> host \<Rightarrow> expr list \<Rightarrow> addr \<Rightarrow> state \<Rightarrow> object res" where
  "evalListExpression ev h es env st = evalListElements ev h es env 0 [] [] st"

definition evalIdentifierExpression :: "string \<Rightarrow> addr \<Rightarrow> state \<Rightarrow> object res" where
  "evalIdentifierExpression varName env st =
     (case Env_Get (Envs st) env varName of
        None \<Rightarrow> Timeout
      | Some None \<Rightarrow> raise (MkError VariableError (Frame st) (undefined_variable varName)) st
      | Some (Some val) \<Rightarrow> Ret (Value val) st)"

definition evalVarInitializationExpression :: "evalfn \<Rightarrow> bool \<Rightarrow> expr \<Rightarrow> expr \<Rightarrow> addr \<Rightarrow> state \<Rightarrow> object res" where
  \<open>evalVarInitializationExpression ev isConst name val env st =
     (case name of
        IdentifierExpression varName \<Rightarrow>
          if Env_Exists (Envs st) env varName
          then raise (MkError VariableError (Frame st)
                        (''variable "'' @ varName @ ''" already defined.'')) st
          else errchk (ev (ExprNode val) env st) (\<lambda>v st1.
                 Ret v (st1\<lparr>Envs := Env_Set (Envs st1) env varName
                                 \<lparr>Name = varName, Value = v, IsConst = isConst\<rparr>\<rparr>))
      | _ \<Rightarrow> Panic)\<close>


subsection \<open>Operators\<close>

definition evalPrefixOperator :: "host \<Rightarrow> token \<Rightarrow> object \<Rightarrow> state \<Rightarrow> object res" where
  \<open>evalPrefixOperator h operator right st =
     (if Type operator = ''MINUS'' then method_result (Object_Negative h right (Frame st) st)
      else if Type operator = ''BANG'' then method_result (Object_Not h right (Frame st) st)
      else if Type operator = ''BITWISE_NOT'' then method_result (Object_BitNot h right (Frame st) st)
      else raise (MkError OperationError None
                    (''invalid operation "'' @ Type operator @ ''".'')) st)\<close>

definition evalPrefixExpression :: "evalfn \<Rightarrow> host \<Rightarrow> token \<Rightarrow> expr \<Rightarrow> addr \<Rightarrow> state \<Rightarrow> object res" where
  "evalPrefixExpression ev h operator val env st =
     errchk (ev (ExprNode val) env st) (\<lambda>right st1.
       errchk (evalPrefixOperator h operator right st1) (\<lambda>v st2. Ret v st2))"

definition evalInfixOperator :: "host \<Rightarrow> nat \<Rightarrow> token \<Rightarrow> object \<Rightarrow> object \<Rightarrow> state \<Rightarrow> object res" where
  \<open>evalInfixOperator h fuel operator left right st =
     (let t = Type operator; fr = Frame st in
      if t = ''PLUS'' then method_result (Object_Add h left right fr st)
      else if t = ''MINUS'' then method_result (Object_Subtract h left right fr st)
      else if t = ''ASTERISK'' then method_result (Object_Multiply h left right fr st)
      else if t = ''SLASH'' then method_result (Object_Divide h left right fr st)
      else if t = ''PERCENT'' then method_result (Object_Mod h left right fr st)
      else if t = ''EQUALS'' then method_result (Object_Equal h fuel left right fr st)
      else if t = ''NOT_EQUALS'' then method_result (Object_NotEqual h fuel left right fr st)
      else if t = ''LT'' then method_result (Object_LessThan h left right fr st)
      else if t = ''GT'' then method_result (Object_GreaterThan h left right fr st)
      else if t = ''LTE'' then method_result (Object_LessThanOrEqual h left right fr st)
      else if t = ''GTE'' then method_result (Object_GreaterThanOrEqual h left right fr st)
      else if t = ''BITWISE_AND'' then method_result (Object_BitAnd h left right fr st)
      else if t = ''BITWISE_OR'' then method_result (Object_BitOr h left right fr st)
      else if t = ''BITWISE_XOR'' then method_result (Object_Xor h left right fr st)
      else if t = ''LEFT_SHIFT'' then method_result (Object_LeftShift h left right fr st)
      else if t = ''RIGHT_SHIFT'' then method_result (Object_RightShift h left right fr st)
      else if t = ''LOGICAL_AND'' then method_result (Object_And h left right fr st)
      else if t = ''LOGICAL_OR'' then method_result (Object_Or h left right fr st)
      else raise (MkError OperationError None (''invalid operation "'' @ t @ ''".'')) st)\<close>

definition evalInfixExpression :: "evalfn \<Rightarrow> host \<Rightarrow> nat \<Rightarrow> expr \<Rightarrow> token \<Rightarrow> expr \<Rightarrow> addr \<Rightarrow> state \<Rightarrow> object res" where
  \<open>evalInfixExpression ev h fuel leftExpr operator rightExpr env st =
     errchk (ev (ExprNode leftExpr) env st) (\<lambda>left st1.
       let rest = (\<lambda>st1. errchk (ev (ExprNode rightExpr) env st1) (\<lambda>right st2.
                    errchk (evalInfixOperator h fuel operator left right st2) (\<lambda>v st3. Ret v st3)))
       in
       if Type operator = ''LOGICAL_AND'' then
         (case left of
            Bool leftValue \<Rightarrow> if \<not> leftValue then Ret (Bool False) st1 else rest st1
          | _ \<Rightarrow> raise (MkError OperationError (Frame st1) ''invalid operation "&&".'') st1)
       else if Type operator = ''LOGICAL_OR'' then
         (case left of
            Bool leftValue \<Rightarrow> if leftValue then Ret (Bool True) st1 else rest st1
          | _ \<Rightarrow> raise (MkError OperationError (Frame st1) ''invalid operation "||".'') st1)
       else rest st1)\<close>

text \<open>\<open>lexer.CompoundAssignmentOperators\<close>; a Go map gives \<open>""\<close> for a missing key.\<close>

definition CompoundAssignmentOperators :: "string \<Rightarrow> string" where
  "CompoundAssignmentOperators t =
     (if t = ''PLUS_EQUAL'' then ''PLUS''
      else if t = ''MINUS_EQUAL'' then ''MINUS''
      else if t = ''ASTERISK_EQUAL'' then ''ASTERISK''
      else if t = ''SLASH_EQUAL'' then ''SLASH''
      else if t = ''PERCENT_EQUAL'' then ''PERCENT''
      else if t = ''BITWISE_AND_EQUAL'' then ''BITWISE_AND''
      else if t = ''BITWISE_OR_EQUAL'' then ''BITWISE_OR''
      else if t = ''BITWISE_XOR_EQUAL'' then ''BITWISE_XOR''
      else if t = ''LEFT_SHIFT_EQUAL'' then ''LEFT_SHIFT''
      else if t = ''RIGHT_SHIFT_EQUAL'' then ''RIGHT_SHIFT''
      else [])"

text \<open>
  The base operator of a compound assignment; the slice \<open>Literal[:len-1]\<close> panics on
  an empty literal (\<open>None\<close>).
\<close>

definition baseOperator :: "token \<Rightarrow> token option" where
  "baseOperator operator =
     (if Literal operator = [] then None
      else Some \<lparr>Type = CompoundAssignmentOperators (Type operator),
                 Literal = butlast (Literal operator)\<rparr>)"

text \<open>The operator that \<open>++\<close> and \<open>--\<close> stand for.\<close>

definition incDecOperator :: "token \<Rightarrow> token" where
  "incDecOperator operator =
     (if Type operator = ''INCREMENT'' then \<lparr>Type = ''PLUS'', Literal = ''+''\<rparr>
      else \<lparr>Type = ''MINUS'', Literal = ''-''\<rparr>)"

subsection \<open>Assignment\<close>

fun checkIndexTargetConst :: "expr \<Rightarrow> addr \<Rightarrow> state \<Rightarrow> (error option) res" where
  "checkIndexTargetConst (IdentifierExpression name) env st =
     (case Env_Get (Envs st) env name of
        None \<Rightarrow> Timeout
      | Some None \<Rightarrow> Ret (Some (MkError VariableError (Frame st) (undefined_variable name))) st
      | Some (Some smb) \<Rightarrow>
          if IsConst smb
          then Ret (Some (MkError VariableError (Frame st) (cannot_redefine name))) st
          else Ret None st)"
| "checkIndexTargetConst (IndexExpression target index) env st = checkIndexTargetConst target env st"
| "checkIndexTargetConst _ env st = Ret None st"

definition index_must_be_integer :: "state \<Rightarrow> object res" where
  "index_must_be_integer st = raise (MkError TypeError (Frame st) ''index must be integer.'') st"

definition index_not_supported :: "state \<Rightarrow> object res" where
  "index_not_supported st =
     raise (MkError TypeError (Frame st) ''index expression not supported for this type.'') st"

definition invalid_variable_name_type :: "state \<Rightarrow> object res" where
  "invalid_variable_name_type st =
     raise (MkError TypeError (Frame st) ''invalid variable name type.'') st"

text \<open>\<open>err2 := idxable.Set(...); if err2 != nil { e.Err = err2; return nil }; return value\<close>\<close>

definition setIndex :: "host \<Rightarrow> object \<Rightarrow> object \<Rightarrow> object \<Rightarrow> object \<Rightarrow> state \<Rightarrow> object res" where
  "setIndex h target index val ret st =
     bind (indexable_Set h target index val (Frame st) st) (\<lambda>err2 st1.
       case err2 of Some err \<Rightarrow> raise err st1 | None \<Rightarrow> Ret ret st1)"

text \<open>
  The part that the four index-target branches share: the constant check on the chain,
  the evaluation of target and index, and the two type checks.
\<close>

definition evalIndexTarget :: "evalfn \<Rightarrow> expr \<Rightarrow> expr \<Rightarrow> addr \<Rightarrow> state \<Rightarrow> (object \<Rightarrow> object \<Rightarrow> state \<Rightarrow> object res) \<Rightarrow> object res" where
  "evalIndexTarget ev targetExpr indexExpr env st cont =
     bind (checkIndexTargetConst targetExpr env st) (\<lambda>err st0.
       case err of
         Some e \<Rightarrow> raise e st0
       | None \<Rightarrow>
           errchk (ev (ExprNode targetExpr) env st0) (\<lambda>target st1.
             errchk (ev (ExprNode indexExpr) env st1) (\<lambda>index st2.
               case index of
                 IntObject _ \<Rightarrow>
                   if \<not> is_indexable target then index_not_supported st2
                   else cont target index st2
               | _ \<Rightarrow> index_must_be_integer st2)))"

definition evalVarAssignmentExpression :: "evalfn \<Rightarrow> host \<Rightarrow> expr \<Rightarrow> expr \<Rightarrow> addr \<Rightarrow> state \<Rightarrow> object res" where
  "evalVarAssignmentExpression ev h name valExpr env st =
     (case name of
        IdentifierExpression varName \<Rightarrow>
          (case Env_Get (Envs st) env varName of
             None \<Rightarrow> Timeout
           | Some None \<Rightarrow> raise (MkError VariableError (Frame st) (undefined_variable varName)) st
           | Some (Some smb) \<Rightarrow>
               if IsConst smb
               then raise (MkError VariableError (Frame st) (cannot_redefine varName)) st
               else errchk (ev (ExprNode valExpr) env st) (\<lambda>v st1.
                      case Env_Assign (Envs st1) env varName
                             \<lparr>Name = varName, Value = v, IsConst = False\<rparr> of
                        None \<Rightarrow> Timeout
                      | Some hp \<Rightarrow> Ret v (st1\<lparr>Envs := hp\<rparr>)))
      | IndexExpression targetExpr indexExpr \<Rightarrow>
          evalIndexTarget ev targetExpr indexExpr env st (\<lambda>target index st2.
            errchk (ev (ExprNode valExpr) env st2) (\<lambda>v st3. setIndex h target index v v st3))
      | _ \<Rightarrow> invalid_variable_name_type st)"

definition evalCompoundAssignmentExpression :: "evalfn \<Rightarrow> host \<Rightarrow> nat \<Rightarrow> expr \<Rightarrow> token \<Rightarrow> expr \<Rightarrow> addr \<Rightarrow> state \<Rightarrow> object res" where
  "evalCompoundAssignmentExpression ev h fuel name operator rightExpr env st =
     (case name of
        IdentifierExpression varName \<Rightarrow>
          (case Env_Get (Envs st) env varName of
             None \<Rightarrow> Timeout
           | Some None \<Rightarrow> raise (MkError VariableError (Frame st) (undefined_variable varName)) st
           | Some (Some smb) \<Rightarrow>
               if IsConst smb
               then raise (MkError VariableError (Frame st) (cannot_redefine varName)) st
               else errchk (ev (ExprNode rightExpr) env st) (\<lambda>right st1.
                      case baseOperator operator of
                        None \<Rightarrow> Panic
                      | Some base \<Rightarrow>
                          errchk (evalInfixOperator h fuel base (Value smb) right st1) (\<lambda>v st2.
                            case Env_Assign (Envs st2) env varName
                                   \<lparr>Name = varName, Value = v, IsConst = False\<rparr> of
                              None \<Rightarrow> Timeout
                            | Some hp \<Rightarrow> Ret v (st2\<lparr>Envs := hp\<rparr>))))
      | IndexExpression targetExpr indexExpr \<Rightarrow>
          evalIndexTarget ev targetExpr indexExpr env st (\<lambda>target index st2.
            errchk (ev (ExprNode rightExpr) env st2) (\<lambda>right st3.
              case baseOperator operator of
                None \<Rightarrow> Panic
              | Some base \<Rightarrow>
                  errchk (ev (ExprNode name) env st3) (\<lambda>idxValue st4.
                    errchk (evalInfixOperator h fuel base idxValue right st4) (\<lambda>v st5.
                      setIndex h target index v v st5))))
      | _ \<Rightarrow> invalid_variable_name_type st)"


subsection \<open>Increment and decrement\<close>

definition evalIndexExpression :: "evalfn \<Rightarrow> host \<Rightarrow> expr \<Rightarrow> expr \<Rightarrow> addr \<Rightarrow> state \<Rightarrow> object res" where
  "evalIndexExpression ev h targetExpr indexExpr env st =
     errchk (ev (ExprNode targetExpr) env st) (\<lambda>target st1.
       errchk (ev (ExprNode indexExpr) env st1) (\<lambda>idxObj st2.
         case idxObj of
           IntObject _ \<Rightarrow> method_result (Object_Index h target idxObj (Frame st2) st2)
         | _ \<Rightarrow> index_must_be_integer st2))"

definition evalPrefixUnaryIncDecExpression :: "evalfn \<Rightarrow> host \<Rightarrow> nat \<Rightarrow> token \<Rightarrow> expr \<Rightarrow> addr \<Rightarrow> state \<Rightarrow> object res" where
  "evalPrefixUnaryIncDecExpression ev h fuel operator rightExpr env st =
     (case rightExpr of
        IdentifierExpression name \<Rightarrow>
          (case Env_Get (Envs st) env name of
             None \<Rightarrow> Timeout
           | Some None \<Rightarrow> raise (MkError VariableError (Frame st) (undefined_variable name)) st
           | Some (Some smb) \<Rightarrow>
               if IsConst smb
               then raise (MkError VariableError (Frame st) (cannot_redefine name)) st
               else errchk (ev (ExprNode rightExpr) env st) (\<lambda>right st1.
                      errchk (evalInfixOperator h fuel (incDecOperator operator) right (IntObject 1) st1)
                        (\<lambda>v st2.
                           Ret v (st2\<lparr>Envs := Env_Set (Envs st2) env name
                                           \<lparr>Name = name, Value = v, IsConst = False\<rparr>\<rparr>))))
      | IndexExpression targetExpr indexExpr \<Rightarrow>
          evalIndexTarget ev targetExpr indexExpr env st (\<lambda>target index st2.
            errchk (ev (ExprNode rightExpr) env st2) (\<lambda>right st3.
              errchk (evalInfixOperator h fuel (incDecOperator operator) right (IntObject 1) st3)
                (\<lambda>v st4. setIndex h target index v v st4)))
      | _ \<Rightarrow> invalid_variable_name_type st)"

definition evalPostfixUnaryIncDecExpression :: "evalfn \<Rightarrow> host \<Rightarrow> nat \<Rightarrow> token \<Rightarrow> expr \<Rightarrow> addr \<Rightarrow> state \<Rightarrow> object res" where
  "evalPostfixUnaryIncDecExpression ev h fuel operator leftExpr env st =
     (case leftExpr of
        IdentifierExpression name \<Rightarrow>
          (case Env_Get (Envs st) env name of
             None \<Rightarrow> Timeout
           | Some None \<Rightarrow> raise (MkError VariableError (Frame st) (undefined_variable name)) st
           | Some (Some smb) \<Rightarrow>
               if IsConst smb
               then raise (MkError VariableError (Frame st) (cannot_redefine name)) st
               else errchk (ev (ExprNode leftExpr) env st) (\<lambda>left st1.
                      errchk (evalInfixOperator h fuel (incDecOperator operator) left (IntObject 1) st1)
                        (\<lambda>v st2.
                           Ret left (st2\<lparr>Envs := Env_Set (Envs st2) env name
                                              \<lparr>Name = name, Value = v, IsConst = False\<rparr>\<rparr>))))
      | IndexExpression targetExpr indexExpr \<Rightarrow>
          evalIndexTarget ev targetExpr indexExpr env st (\<lambda>target index st2.
            errchk (evalIndexExpression ev h targetExpr indexExpr env st2) (\<lambda>left st3.
              errchk (evalInfixOperator h fuel (incDecOperator operator) left (IntObject 1) st3)
                (\<lambda>v st4. setIndex h target index v left st4)))
      | _ \<Rightarrow> invalid_variable_name_type st)"

subsection \<open>Blocks and conditionals\<close>

definition evalWithReturnValue :: "evalfn \<Rightarrow> stmt \<Rightarrow> addr \<Rightarrow> state \<Rightarrow> object res" where
  "evalWithReturnValue ev n env st =
     (case n of
        ExpressionStatement e \<Rightarrow> errchk (ev (ExprNode e) env st) (\<lambda>ret st1. Ret ret st1)
      | ReturnStatement e \<Rightarrow> errchk (ev (ExprNode e) env st) (\<lambda>ret st1. Ret (ReturnValue ret) st1)
      | _ \<Rightarrow>
          errchk (ev (StmtNode n) env st) (\<lambda>ret st1.
            case ret of ReturnValue _ \<Rightarrow> Ret ret st1 | _ \<Rightarrow> Ret Null st1))"

fun evalBlockStatements :: "evalfn \<Rightarrow> stmt list \<Rightarrow> addr \<Rightarrow> object \<Rightarrow> state \<Rightarrow> object res" where
  "evalBlockStatements ev [] blockEnv ret st = Ret ret st"
| "evalBlockStatements ev (statement # rest) blockEnv ret st =
     bind (evalWithReturnValue ev statement blockEnv st) (\<lambda>r st1.
       case r of
         ReturnValue _ \<Rightarrow> Ret r st1
       | _ \<Rightarrow> evalBlockStatements ev rest blockEnv r st1)"

definition evalBlockExpression :: "evalfn \<Rightarrow> stmt list \<Rightarrow> addr \<Rightarrow> state \<Rightarrow> object res" where
  "evalBlockExpression ev statements env st =
     (case new_Environment (Some env) st of
        (blockEnv, st0) \<Rightarrow> evalBlockStatements ev statements blockEnv NilObject st0)"

definition evalIfExpression :: "evalfn \<Rightarrow> expr \<Rightarrow> stmt \<Rightarrow> stmt option \<Rightarrow> addr \<Rightarrow> state \<Rightarrow> object res" where
  "evalIfExpression ev cond consequence alternative env st =
     errchk (ev (ExprNode cond) env st) (\<lambda>condition st1.
       case condition of
         Bool b \<Rightarrow>
           (case new_Environment (Some env) st1 of
              (ifEnv, st2) \<Rightarrow>
                if b then evalWithReturnValue ev consequence ifEnv st2
                else (case alternative of
                        Some alt \<Rightarrow> evalWithReturnValue ev alt ifEnv st2
                      | None \<Rightarrow> Ret Null st2))
       | _ \<Rightarrow> raise (MkError TypeError (Frame st1) ''non-bool condition in if expression.'') st1)"


subsection \<open>Calls\<close>

text \<open>
  The arity test of a call and the \<open>ArgumentError\<close> raised when it fails; \<open>least\<close>
  is computed in \<open>int\<close>.
\<close>

definition arity_ok :: "nat \<Rightarrow> nat \<Rightarrow> nat \<Rightarrow> bool" where
  "arity_ok paramLen defaultLen argLen \<longleftrightarrow>
     int paramLen - int defaultLen \<le> int argLen \<and> argLen \<le> paramLen"

definition show_int :: "int \<Rightarrow> string" where
  "show_int i = (if i < 0 then ''-'' @ show_nat (nat (- i)) else show_nat (nat i))"

definition arity_error :: "nat \<Rightarrow> nat \<Rightarrow> nat \<Rightarrow> frame option \<Rightarrow> error" where
  "arity_error paramLen defaultLen argLen fr =
     MkError ArgumentError fr
       (if defaultLen = 0
        then ''expected '' @ show_nat paramLen @ '' parameters, got '' @ show_nat argLen @ ''.''
        else if int paramLen - int defaultLen = 1
        then ''expected between 1 parameter and '' @ show_nat paramLen
               @ '' parameters, got '' @ show_nat argLen @ ''.''
        else ''expected between '' @ show_int (int paramLen - int defaultLen) @ '' and ''
               @ show_nat paramLen @ '' parameters, got '' @ show_nat argLen @ ''.'')"

text \<open>
  The two loops that build \<open>argument\<close>.  \<open>defaults\<close> holds, per parameter, the node
  that is evaluated for its default; indexing it out of range panics.  The result
  \<open>None\<close> stands for \<open>return nil\<close> after an error.
\<close>

fun evalArguments :: "evalfn \<Rightarrow> node list \<Rightarrow> expr option list \<Rightarrow> addr \<Rightarrow> object list \<Rightarrow> state \<Rightarrow> (object list option) res" where
  "evalArguments ev defaults [] env argument st = Ret (Some argument) st"
| "evalArguments ev defaults (arg # rest) env argument st =
     (case arg of
        None \<Rightarrow>
          if length argument < length defaults then
            bind (ev (defaults ! length argument) env st) (\<lambda>defaultValue st1.
              if Err st1 \<noteq> None then Ret None st1
              else evalArguments ev defaults rest env (argument @ [defaultValue]) st1)
          else Panic
      | Some a \<Rightarrow>
          bind (ev (ExprNode a) env st) (\<lambda>v st1.
            if Err st1 \<noteq> None then Ret None st1
            else evalArguments ev defaults rest env (argument @ [v]) st1))"

fun fillDefaults :: "evalfn \<Rightarrow> node list \<Rightarrow> nat \<Rightarrow> addr \<Rightarrow> object list \<Rightarrow> state \<Rightarrow> (object list option) res" where
  "fillDefaults ev defaults 0 env argument st = Ret (Some argument) st"
| "fillDefaults ev defaults (Suc n) env argument st =
     (if length argument < length defaults then
        bind (ev (defaults ! length argument) env st) (\<lambda>defaultValue st1.
          if Err st1 \<noteq> None then Ret None st1
          else fillDefaults ev defaults n env (argument @ [defaultValue]) st1)
      else Panic)"

definition buildArguments :: "evalfn \<Rightarrow> node list \<Rightarrow> nat \<Rightarrow> expr option list \<Rightarrow> addr \<Rightarrow> state \<Rightarrow> (object list option) res" where
  "buildArguments ev defaults paramLen args env st =
     bind (evalArguments ev defaults args env [] st) (\<lambda>r st1.
       case r of
         None \<Rightarrow> Ret None st1
       | Some argument \<Rightarrow> fillDefaults ev defaults (paramLen - length argument) env argument st1)"

text \<open>Binding the parameters: \<open>argument[i]\<close> panics when \<open>argument\<close> is too short.\<close>

fun bindParameters :: "parameter list \<Rightarrow> object list \<Rightarrow> addr \<Rightarrow> (addr \<Rightarrow> environment) \<Rightarrow> (addr \<Rightarrow> environment) option" where
  "bindParameters [] argument funcEnv hp = Some hp"
| "bindParameters (param # rest) argument funcEnv hp =
     (case argument of
        [] \<Rightarrow> None
      | a # as \<Rightarrow>
          bindParameters rest as funcEnv
            (Env_Set hp funcEnv (fst param) \<lparr>Name = fst param, Value = a, IsConst = False\<rparr>))"

text \<open>
  The call of a \<open>Function\<close>, from the creation of its environment on: the frame is
  pushed, the body is evaluated, and the frame is popped unless the error state is set.
\<close>

definition callFunction :: "evalfn \<Rightarrow> string \<Rightarrow> parameter list \<Rightarrow> stmt \<Rightarrow> addr \<Rightarrow> object list \<Rightarrow> pos option \<Rightarrow> pos option \<Rightarrow> state \<Rightarrow> object res" where
  \<open>callFunction ev fname params body fenv argument posStart posEnd st =
     (case new_Environment (Some fenv) st of
        (funcEnv, st1) \<Rightarrow>
          (let st2 = st1\<lparr>Frame := Some (MkFrame (''<function "'' @ fname @ ''">'')
                                         (Frame st1) posStart posEnd)\<rparr>
           in case bindParameters params argument funcEnv (Envs st2) of
                None \<Rightarrow> Panic
              | Some hp \<Rightarrow>
                  errchk (evalWithReturnValue ev body funcEnv (st2\<lparr>Envs := hp\<rparr>)) (\<lambda>returnValue st3.
                    case Frame st3 of
                      None \<Rightarrow> Panic
                    | Some f \<Rightarrow>
                        (case returnValue of
                           ReturnValue v \<Rightarrow> Ret v (st3\<lparr>Frame := Parent f\<rparr>)
                         | _ \<Rightarrow> Ret returnValue (st3\<lparr>Frame := Parent f\<rparr>)))))\<close>

text \<open>The call of a \<open>BuiltinFunction\<close>, from the push of the frame on.\<close>

definition callBuiltin :: "host \<Rightarrow> nat \<Rightarrow> string \<Rightarrow> object list \<Rightarrow> pos option \<Rightarrow> pos option \<Rightarrow> state \<Rightarrow> object res" where
  \<open>callBuiltin h fid fname argument posStart posEnd st =
     (let st1 = st\<lparr>Frame := Some (MkFrame (''<builtin "'' @ fname @ ''">'')
                                   (Frame st) posStart posEnd)\<rparr>
      in case native h fid (Frame st1) posStart posEnd argument st1 of
           NPanic \<Rightarrow> Panic
         | NRet val err \<Rightarrow>
             (case err of
                Some e \<Rightarrow> raise e st1
              | None \<Rightarrow>
                  (case Frame st1 of
                     None \<Rightarrow> Panic
                   | Some f \<Rightarrow> Ret val (st1\<lparr>Frame := Parent f\<rparr>))))\<close>

definition parameterDefaults :: "parameter list \<Rightarrow> node list" where
  "parameterDefaults params =
     map (\<lambda>p. case snd p of None \<Rightarrow> NilNode | Some d \<Rightarrow> ExprNode d) params"

definition builtinDefaults :: "object list \<Rightarrow> node list" where
  "builtinDefaults ds = map (\<lambda>d. if d = NilObject then NilNode else ObjectNode d) ds"

definition evalCallExpression :: "evalfn \<Rightarrow> host \<Rightarrow> expr \<Rightarrow> expr option list \<Rightarrow> pos option \<Rightarrow> pos option \<Rightarrow> addr \<Rightarrow> state \<Rightarrow> object res" where
  "evalCallExpression ev h fnExpr args posStart posEnd env st =
     errchk (ev (ExprNode fnExpr) env st) (\<lambda>function st1.
       case function of
         Function _ fname params body fenv \<Rightarrow>
           (let defaultLen = length (filter (\<lambda>p. snd p \<noteq> None) params);
                argLen = length (filter (\<lambda>a. a \<noteq> None) args)
            in if \<not> arity_ok (length params) defaultLen argLen
               then raise (arity_error (length params) defaultLen argLen (Frame st1)) st1
               else bind (buildArguments ev (parameterDefaults params) (length params) args env st1)
                      (\<lambda>r st2. case r of
                         None \<Rightarrow> Ret NilObject st2
                       | Some argument \<Rightarrow> callFunction ev fname params body fenv argument posStart posEnd st2))
       | BuiltinFunction fid fname params defaultValue \<Rightarrow>
           (let defaultLen = length (filter (\<lambda>d. d \<noteq> NilObject) defaultValue);
                argLen = length (filter (\<lambda>a. a \<noteq> None) args)
            in if \<not> arity_ok (length params) defaultLen argLen
               then raise (arity_error (length params) defaultLen argLen (Frame st1)) st1
               else bind (buildArguments ev (builtinDefaults defaultValue) (length params) args env st1)
                      (\<lambda>r st2. case r of
                         None \<Rightarrow> Ret NilObject st2
                       | Some argument \<Rightarrow> callBuiltin h fid fname argument posStart posEnd st2))
       | _ \<Rightarrow> raise (MkError TypeError (Frame st1)
                      ''the value is not a function and cannot be called.'') st1)"

subsection \<open>Eval\<close>

fun Eval :: "host \<Rightarrow> nat \<Rightarrow> node \<Rightarrow> addr \<Rightarrow> state \<Rightarrow> object res" where
  "Eval h 0 n env st = Timeout"
| "Eval h (Suc k) n env st =
     (case n of
        Program statements \<Rightarrow> evalProgram (Eval h k) statements env st
      | StmtNode s \<Rightarrow>
          (case s of
             ForStatement init cond update body \<Rightarrow>
               evalForStatement (Eval h k) k init cond update body env st
           | FunctionDeclarationStatement name params body \<Rightarrow>
               evalFunctionDeclarationStatement name params body env st
           | ReturnStatement e \<Rightarrow> evalReturnStatement (Eval h k) e env st
           | ExpressionStatement e \<Rightarrow> evalExpressionStatement (Eval h k) e env st)
      | ExprNode e \<Rightarrow>
          (case e of
             PrefixExpression operator v \<Rightarrow> evalPrefixExpression (Eval h k) h operator v env st
           | InfixExpression l operator r \<Rightarrow> evalInfixExpression (Eval h k) h k l operator r env st
           | IntExpression v \<Rightarrow> Ret (IntObject v) st
           | FloatExpression v \<Rightarrow> Ret (Float v) st
           | BoolExpression v \<Rightarrow> Ret (Bool v) st
           | NullExpression \<Rightarrow> Ret Null st
           | StringExpression v \<Rightarrow> evalStringExpression v st
           | ListExpression es \<Rightarrow> evalListExpression (Eval h k) h es env st
           | IdentifierExpression name \<Rightarrow> evalIdentifierExpression name env st
           | GroupedExpression e' \<Rightarrow> Eval h k (ExprNode e') env st
           | VarInitializationExpression isConst name v \<Rightarrow>
               evalVarInitializationExpression (Eval h k) isConst name v env st
           | VarAssignmentExpression name v \<Rightarrow>
               evalVarAssignmentExpression (Eval h k) h name v env st
           | CompoundAssignmentExpression name operator r \<Rightarrow>
               evalCompoundAssignmentExpression (Eval h k) h k name operator r env st
           | PrefixUnaryIncDecExpression operator r \<Rightarrow>
               evalPrefixUnaryIncDecExpression (Eval h k) h k operator r env st
           | PostfixUnaryIncDecExpression operator l \<Rightarrow>
               evalPostfixUnaryIncDecExpression (Eval h k) h k operator l env st
           | BlockExpression statements \<Rightarrow> evalBlockExpression (Eval h k) statements env st
           | IfExpression cond cons alt \<Rightarrow> evalIfExpression (Eval h k) cond cons alt env st
           | CallExpression f args posStart posEnd \<Rightarrow>
               evalCallExpression (Eval h k) h f args posStart posEnd env st
           | IndexExpression target index \<Rightarrow> evalIndexExpression (Eval h k) h target index env st)
      | NilNode \<Rightarrow> Panic
      | ObjectNode _ \<Rightarrow> Panic)"


subsection \<open>A run\<close>

text \<open>
  The runner and the REPL create the root environment, bind the builtins in it as
  constants, and create the root frame.  The root environment has address \<open>0\<close>.
\<close>

definition Builtins :: "(string \<times> object) list" where
  "Builtins =
     [(''print'', BuiltinFunction 0 ''print'' [''a''] []),
      (''println'', BuiltinFunction 1 ''println'' [''a''] []),
      (''len'', BuiltinFunction 2 ''len'' [''a''] [])]"

definition root_environment :: environment where
  "root_environment =
     \<lparr>Store = map_of (map (\<lambda>nb. (fst nb, \<lparr>Name = fst nb, Value = snd nb, IsConst = True\<rparr>)) Builtins),
      Outer = None\<rparr>"

definition initial_state :: "string \<Rightarrow> state" where
  "initial_state baseName =
     \<lparr>Frame = Some (MkFrame baseName None None None),
      Err = None,
      Envs = (\<lambda>_. \<lparr>Store = Map.empty, Outer = None\<rparr>)(0 := root_environment),
      EnvNext = 1,
      Strings = (\<lambda>_. []),
      StringNext = 0,
      Lists = (\<lambda>_. []),
      ListNext = 0,
      FuncNext = 3\<rparr>"


text \<open>
  Whether \<open>String()\<close> of a value returns.  On \<open>nil\<close> it panics; on an \<open>Int\<close>, a \<open>Float\<close>,
  a \<open>Bool\<close> and a \<open>String\<close> it returns.  \<open>List.String\<close> calls \<open>String()\<close> on every
  element.  \<open>BuiltinFunction.String\<close> reads \<open>DefaultValue[i]\<close> for every index \<open>i\<close> of
  \<open>Parameter\<close>, which panics when there are fewer defaults than parameters (as for the
  three builtins of the table, which have one parameter and no defaults), and calls
  \<open>String()\<close> on each default that is not \<open>nil\<close>.  \<open>Function.String\<close> prints syntax, and
  the methods of \<open>Null\<close> and \<open>ReturnValue\<close> are not part of the sources at hand: for these
  three variants the answer is the parameter \<open>str\<close>.  The fuel bounds the nesting: a list
  that contains itself makes \<open>String()\<close> recurse until the stack overflows.
\<close>

fun String_returns :: "(object \<Rightarrow> bool) \<Rightarrow> nat \<Rightarrow> state \<Rightarrow> object \<Rightarrow> bool" where
  "String_returns str 0 st x = False"
| "String_returns str (Suc k) st x =
     (case x of
        NilObject \<Rightarrow> False
      | IntObject _ \<Rightarrow> True
      | Float _ \<Rightarrow> True
      | Bool _ \<Rightarrow> True
      | Null \<Rightarrow> str x
      | String _ \<Rightarrow> True
      | List a \<Rightarrow> list_all (String_returns str k st) (Lists st a)
      | Function _ _ _ _ _ \<Rightarrow> str x
      | BuiltinFunction _ _ params defaults \<Rightarrow>
          length params \<le> length defaults
          \<and> list_all (\<lambda>d. d = NilObject \<or> String_returns str k st d)
                (take (length params) defaults)
      | ReturnValue _ \<Rightarrow> str x)"

text \<open>
  The native code of the three builtins.  \<open>print\<close> and \<open>println\<close> write
  \<open>args[0].String()\<close>, which is not part of the state here, and return \<open>Null\<close>; they
  crash when \<open>String()\<close> does.  The list cells of a run are allocated below \<open>ListNext\<close>
  and no builtin has defaults, so a value nested deeper than \<open>ListNext\<close> holds a list
  that contains itself.  \<open>len\<close> counts the runes of a string and the elements of a list.
\<close>

definition builtin_Fn :: "(object \<Rightarrow> bool) \<Rightarrow> nat \<Rightarrow> frame option \<Rightarrow> pos option \<Rightarrow> pos option \<Rightarrow> object list \<Rightarrow> state \<Rightarrow> native_result" where
  "builtin_Fn str fid f posStart posEnd args st =
     (case args of
        [] \<Rightarrow> NPanic
      | a # _ \<Rightarrow>
          if fid = 0 \<or> fid = 1
          then (if String_returns str (Suc (ListNext st)) st a then NRet Null None else NPanic)
          else if fid = 2 then
            (case a of
               String s \<Rightarrow> NRet (IntObject (of_nat (length (runes (Strings st s))))) None
             | List l \<Rightarrow> NRet (IntObject (of_nat (length (Lists st l)))) None
             | _ \<Rightarrow> NRet NilObject (Some (MkError TypeError f
                      ''len() argument must be a sequence or collection.'')))
          else NPanic)"

text \<open>
  A host for the worked examples: its builtins are the ones above and its \<open>maxAlloc\<close> is
  that of the 64-bit platforms; its floating-point unit, the methods of the absent
  variants and the \<open>String()\<close> of the values that \<open>String_returns\<close> leaves open are left
  unspecified, and no example depends on them.
\<close>

definition maxAlloc_64 :: nat where
  "maxAlloc_64 = 2 ^ 48"

definition example_host :: host where
  "example_host =
     \<lparr>fadd = undefined, fsub = undefined, fmul = undefined, fdiv = undefined,
      fmod = undefined, float64_of_int64 = undefined, native = builtin_Fn undefined,
      NullType = undefined, ReturnValueType = undefined,
      absent_unary = undefined, absent_binary = undefined, maxAlloc = maxAlloc_64\<rparr>"

text \<open>The operands that \<open>number.go\<close> calls numbers, and the zeros among them.\<close>

definition is_number :: "object \<Rightarrow> bool" where
  "is_number x = (case x of IntObject _ \<Rightarrow> True | Float _ \<Rightarrow> True | _ \<Rightarrow> False)"

definition is_zero :: "object \<Rightarrow> bool" where
  "is_zero x = (case x of IntObject v \<Rightarrow> v = 0 | Float v \<Rightarrow> float_eq v 0 | _ \<Rightarrow> False)"

subsection \<open>States of the worked examples\<close>

text \<open>
  A state in which the string cell \<open>0\<close> holds \<open>"e-acute a"\<close> in UTF-8 (the bytes \<open>C3 A9 61\<close>, two code
  points) and the cell \<open>1\<close> holds \<open>"b"\<close>.
\<close>

definition utf8_state :: state where
  "utf8_state =
     (initial_state ''main'')
       \<lparr>Strings := (\<lambda>_. [])(0 := [CHR 0xC3, CHR 0xA9, CHR ''a''], 1 := ''b''), StringNext := 2\<rparr>"

text \<open>The dynamic test \<open>x.(*object.Bool)\<close>.\<close>

definition is_Bool :: "object \<Rightarrow> bool" where
  "is_Bool x = (case x of Bool _ \<Rightarrow> True | _ \<Rightarrow> False)"

text \<open>The tokens and the expression \<open>(1/0)\<close> of the examples.\<close>

definition AND_token :: token where
  "AND_token = \<lparr>Type = ''LOGICAL_AND'', Literal = ''&&''\<rparr>"

definition OR_token :: token where
  "OR_token = \<lparr>Type = ''LOGICAL_OR'', Literal = ''||''\<rparr>"

definition one_by_zero :: expr where
  "one_by_zero =
     GroupedExpression (InfixExpression (IntExpression 1) \<lparr>Type = ''SLASH'', Literal = ''/''\<rparr>
       (IntExpression 0))"

definition INCREMENT_token :: token where
  "INCREMENT_token = \<lparr>Type = ''INCREMENT'', Literal = ''++''\<rparr>"

definition DECREMENT_token :: token where
  "DECREMENT_token = \<lparr>Type = ''DECREMENT'', Literal = ''--''\<rparr>"

text \<open>The symbol that an assignment stores.\<close>

definition variable :: "string \<Rightarrow> object \<Rightarrow> symbol" where
  "variable name v = \<lparr>Name = name, Value = v, IsConst = False\<rparr>"

text \<open>
  The state after \<open>var x = 5;\<close> at the top level, seen from inside a block: the root
  environment \<open>0\<close> binds \<open>x\<close>, and the environment \<open>1\<close> of the block is empty.
\<close>

definition nested_state :: state where
  "nested_state =
     (initial_state ''main'')
       \<lparr>Envs := (Env_Set (Envs (initial_state ''main'')) 0 ''x'' (variable ''x'' (IntObject 5)))
                  (1 := \<lparr>Store = Map.empty, Outer = Some 0\<rparr>),
        EnvNext := 2\<rparr>"

text \<open>
  What the REPL shows for an expression entered after a program: both are evaluated in
  the root environment, each by a fresh evaluator on the root frame.
\<close>

definition value_after :: "host \<Rightarrow> nat \<Rightarrow> stmt list \<Rightarrow> expr \<Rightarrow> object option" where
  "value_after h fuel prog e =
     (case Eval h fuel (Program prog) 0 (initial_state ''main'') of
        Ret _ st \<Rightarrow>
          (case Eval h fuel (ExprNode e) 0 (st\<lparr>Err := None, Frame := Frame (initial_state ''main'')\<rparr>) of
             Ret v st' \<Rightarrow> if Err st' = None then Some v else None
           | _ \<Rightarrow> None)
      | _ \<Rightarrow> None)"

text \<open>The programs \<open>var x = 5; { ++x; };\<close> and \<open>var x = 5; { x += 1; };\<close>.\<close>

definition var_x_5 :: stmt where
  "var_x_5 = ExpressionStatement (VarInitializationExpression False (IdentifierExpression ''x'') (IntExpression 5))"

definition incr_in_block :: "stmt list" where
  "incr_in_block =
     [var_x_5,
      ExpressionStatement (BlockExpression
        [ExpressionStatement (PrefixUnaryIncDecExpression INCREMENT_token (IdentifierExpression ''x''))])]"

definition add_in_block :: "stmt list" where
  "add_in_block =
     [var_x_5,
      ExpressionStatement (BlockExpression
        [ExpressionStatement (CompoundAssignmentExpression (IdentifierExpression ''x'')
           \<lparr>Type = ''PLUS_EQUAL'', Literal = ''+=''\<rparr> (IntExpression 1))])]"

text \<open>
  The identifier at the root of an assignment target: the target itself, or the
  identifier under a chain of index expressions.  It is the identifier that
  \<open>checkIndexTargetConst\<close> reaches.
\<close>

fun target_root :: "expr \<Rightarrow> string option" where
  "target_root (IdentifierExpression name) = Some name"
| "target_root (IndexExpression target index) = target_root target"
| "target_root _ = None"

text \<open>The error that the REPL shows for an expression entered after a program.\<close>

definition error_after :: "host \<Rightarrow> nat \<Rightarrow> stmt list \<Rightarrow> expr \<Rightarrow> error option" where
  "error_after h fuel prog e =
     (case Eval h fuel (Program prog) 0 (initial_state ''main'') of
        Ret _ st \<Rightarrow>
          (case Eval h fuel (ExprNode e) 0 (st\<lparr>Err := None, Frame := Frame (initial_state ''main'')\<rparr>) of
             Ret v st' \<Rightarrow> Err st'
           | _ \<Rightarrow> None)
      | _ \<Rightarrow> None)"

text \<open>The programs \<open>const x = 1;\<close> and \<open>const l = [1];\<close>.\<close>

definition const_x_1 :: "stmt list" where
  "const_x_1 =
     [ExpressionStatement (VarInitializationExpression True (IdentifierExpression ''x'') (IntExpression 1))]"

definition const_l_1 :: "stmt list" where
  "const_l_1 =
     [ExpressionStatement (VarInitializationExpression True (IdentifierExpression ''l'')
        (ListExpression [IntExpression 1]))]"

subsection \<open>Invariants of an evaluation\<close>

text \<open>
  A list is homogeneous when all its elements have the runtime type of the first; the
  store is, when every list cell is.
\<close>

definition homogeneous :: "host \<Rightarrow> object list \<Rightarrow> bool" where
  "homogeneous h xs \<longleftrightarrow> (\<forall>x \<in> set xs. Type_of h x = Type_of h (hd xs))"

definition lists_homogeneous :: "host \<Rightarrow> state \<Rightarrow> bool" where
  "lists_homogeneous h st \<longleftrightarrow> (\<forall>a. homogeneous h (Lists st a))"

text \<open>
  The frames from a frame up to the root, and the order in which \<open>fo\<close> is \<open>go\<close> or one
  of its ancestors; \<open>nil\<close> is below every frame.
\<close>

fun frame_chain :: "frame \<Rightarrow> frame list" where
  "frame_chain (MkFrame n p s e) =
     MkFrame n p s e # (case p of None \<Rightarrow> [] | Some q \<Rightarrow> frame_chain q)"

definition stack :: "frame option \<Rightarrow> frame list" where
  "stack fo = (case fo of None \<Rightarrow> [] | Some f \<Rightarrow> frame_chain f)"

definition frame_le :: "frame option \<Rightarrow> frame option \<Rightarrow> bool" where
  "frame_le fo go \<longleftrightarrow> (\<exists>ys. stack go = ys @ stack fo)"

text \<open>
  What relates the state in which an evaluation starts to the one in which it returns:
  an error stays set; if none is set at the end, the frame is the one at the start;
  the frame at the end is the one at the start or was pushed below it; homogeneous
  lists stay homogeneous.  \<open>pres\<close> says so of one result, and \<open>ev_ok\<close> of a function
  passed as \<open>e.Eval\<close>.
\<close>

definition step :: "host \<Rightarrow> state \<Rightarrow> state \<Rightarrow> bool" where
  "step h st st' \<longleftrightarrow>
     (Err st \<noteq> None \<longrightarrow> Err st' \<noteq> None)
     \<and> (Err st' = None \<longrightarrow> Frame st' = Frame st)
     \<and> frame_le (Frame st) (Frame st')
     \<and> (lists_homogeneous h st \<longrightarrow> lists_homogeneous h st')"

definition pres :: "host \<Rightarrow> 'a res \<Rightarrow> state \<Rightarrow> bool" where
  "pres h m st \<longleftrightarrow> (\<forall>v st'. m = Ret v st' \<longrightarrow> step h st st')"

definition ev_ok :: "host \<Rightarrow> evalfn \<Rightarrow> bool" where
  "ev_ok h ev \<longleftrightarrow> (\<forall>n env st. pres h (ev n env st) st)"

text \<open>
  The values of element expressions evaluated in order, as the loop of
  \<open>evalListExpression\<close> evaluates them, when each returns with the error state unset.
\<close>

fun evalElements :: "evalfn \<Rightarrow> expr list \<Rightarrow> addr \<Rightarrow> state \<Rightarrow> (object list \<times> state) option" where
  "evalElements ev [] env st = Some ([], st)"
| "evalElements ev (e # es) env st =
     (case ev (ExprNode e) env st of
        Ret v st1 \<Rightarrow>
          if Err st1 \<noteq> None then None
          else (case evalElements ev es env st1 of
                  None \<Rightarrow> None
                | Some (vs, st2) \<Rightarrow> Some (v # vs, st2))
      | _ \<Rightarrow> None)"

text \<open>The index test of \<open>List.Index\<close> and \<open>List.Set\<close>, negative indices counting from the end.\<close>

definition index_in_range :: "nat \<Rightarrow> int64 \<Rightarrow> bool" where
  "index_in_range n i \<longleftrightarrow>
     (let len = (of_nat n :: int64);
          real = (if sint i < 0 then len + i else i)
      in \<not> (sint real < 0 \<or> sint real \<ge> sint len))"


text \<open>
  The outcome of an expression entered after a program, and what is observed of an
  outcome: the value, the error state, the current frame, a list cell.
\<close>

definition outcome_after :: "host \<Rightarrow> nat \<Rightarrow> stmt list \<Rightarrow> expr \<Rightarrow> object res" where
  "outcome_after h fuel prog e =
     (case Eval h fuel (Program prog) 0 (initial_state ''main'') of
        Ret _ st \<Rightarrow> Eval h fuel (ExprNode e) 0 (st\<lparr>Err := None, Frame := Frame (initial_state ''main'')\<rparr>)
      | Panic \<Rightarrow> Panic
      | Timeout \<Rightarrow> Timeout)"

definition final_value :: "object res \<Rightarrow> object option" where
  "final_value r = (case r of Ret v st \<Rightarrow> Some v | _ \<Rightarrow> None)"

definition final_error :: "object res \<Rightarrow> error option" where
  "final_error r = (case r of Ret v st \<Rightarrow> Err st | _ \<Rightarrow> None)"

definition final_frame :: "object res \<Rightarrow> frame option" where
  "final_frame r = (case r of Ret v st \<Rightarrow> Frame st | _ \<Rightarrow> None)"

definition final_list :: "object res \<Rightarrow> addr \<Rightarrow> object list" where
  "final_list r a = (case r of Ret v st \<Rightarrow> Lists st a | _ \<Rightarrow> [])"

text \<open>
  The program \<open>func f(a, b=2) return a+b;\<close> and the calls of \<open>f\<close>; the program
  \<open>func g() return y;\<close> with the call \<open>g()\<close>; the bodies \<open>return a\<close> and \<open>return y\<close>.
\<close>

definition PLUS_token :: token where
  "PLUS_token = \<lparr>Type = ''PLUS'', Literal = ''+''\<rparr>"

definition func_f :: "stmt list" where
  "func_f =
     [FunctionDeclarationStatement (IdentifierExpression ''f'')
        [(''a'', None), (''b'', Some (IntExpression 2))]
        (ReturnStatement (InfixExpression (IdentifierExpression ''a'') PLUS_token (IdentifierExpression ''b'')))]"

definition call_f :: "expr option list \<Rightarrow> expr" where
  "call_f args = CallExpression (IdentifierExpression ''f'') args None None"





text \<open>
  The program \<open>var l = [1, 2];\<close>, the assignment \<open>l[0] = "a"\<close>, and a state in which the
  list cell \<open>0\<close> holds \<open>[1, 2]\<close> and the string cell \<open>0\<close> holds \<open>"a"\<close>.
\<close>

definition var_l_1_2 :: "stmt list" where
  "var_l_1_2 =
     [ExpressionStatement (VarInitializationExpression False (IdentifierExpression ''l'')
        (ListExpression [IntExpression 1, IntExpression 2]))]"

definition l_0_gets_a :: expr where
  "l_0_gets_a =
     VarAssignmentExpression (IndexExpression (IdentifierExpression ''l'') (IntExpression 0))
       (StringExpression ''a'')"

definition list_1_2_state :: state where
  "list_1_2_state =
     (initial_state ''main'')
       \<lparr>Strings := (\<lambda>_. [])(0 := ''a''), StringNext := 1,
        Lists := (\<lambda>_. [])(0 := [IntObject 1, IntObject 2]), ListNext := 1\<rparr>"

(* ---------- C8 ---------- *)


text \<open>
  The targets \<open>l[0]\<close> and \<open>(l)[0]\<close>, which the parser both accepts on the left of an
  assignment (\<open>GroupedExpression.IsLvalue\<close> is that of the expression inside), and the
  token \<open>+=\<close>.
\<close>

definition l_0 :: expr where
  "l_0 = IndexExpression (IdentifierExpression ''l'') (IntExpression 0)"

definition grouped_l_0 :: expr where
  "grouped_l_0 = IndexExpression (GroupedExpression (IdentifierExpression ''l'')) (IntExpression 0)"

definition PLUS_EQUAL_token :: token where
  "PLUS_EQUAL_token = \<lparr>Type = ''PLUS_EQUAL'', Literal = ''+=''\<rparr>"


section \<open>Properties\<close>

subsection \<open>Basic facts\<close>

lemma bind_Ret [simp]: "bind (Ret x st) f = f x st"
  by (simp add: bind_def)

lemma bind_Panic [simp]: "bind Panic f = Panic"
  by (simp add: bind_def)

lemma bind_Timeout [simp]: "bind Timeout f = Timeout"
  by (simp add: bind_def)

lemma errchk_Ret [simp]:
  "errchk (Ret x st) f = (if Err st \<noteq> None then Ret NilObject st else f x st)"
  by (simp add: errchk_def)

lemma errchk_Panic [simp]: "errchk Panic f = Panic"
  by (simp add: errchk_def)

lemma errchk_Timeout [simp]: "errchk Timeout f = Timeout"
  by (simp add: errchk_def)

lemma method_result_Ret [simp]:
  "method_result (Ret r st) = (case snd r of Some err \<Rightarrow> raise err st | None \<Rightarrow> Ret (fst r) st)"
  by (simp add: method_result_def)

lemma float_zero_patterns:
  "float_eq 0 0" "float_eq 0x8000000000000000 0"
  by (simp_all add: float_eq_def float_is_nan_def float_key_def)

subsection \<open>Division and modulo by zero\<close>

lemma divide_by_zero:
  assumes "is_number left" and "is_zero right"
  shows "Object_Divide h left right fr st = Ret (division_by_zero fr) st"
    and "Object_Mod h left right fr st = Ret (division_by_zero fr) st"
  using assms
  by (auto simp: is_number_def is_zero_def Object_Divide_def Object_Mod_def Int_Divide_def
      Int_Mod_def Float_Divide_def Float_Mod_def split: object.splits)

lemma infix_divide_by_zero:
  assumes "is_number left" and "is_zero right"
    and "Type operator = ''SLASH'' \<or> Type operator = ''PERCENT''"
  shows "evalInfixOperator h fuel operator left right st =
           Ret NilObject (st\<lparr>Err := Some (MkError MathError (Frame st) ''division by zero.'')\<rparr>)"
  using assms(3) divide_by_zero [OF assms(1,2), of h "Frame st" st]
  by (auto simp: evalInfixOperator_def Let_def division_by_zero_def raise_def)

lemma eval_divide_by_zero:
  assumes "Err st = None"
    and "(l = IntExpression a \<and> lv = IntObject a) \<or> (l = FloatExpression a \<and> lv = Float a)"
    and "(r = IntExpression b \<and> rv = IntObject b) \<or> (r = FloatExpression b \<and> rv = Float b)"
    and "is_zero rv"
  shows "Eval h (Suc (Suc k))
           (ExprNode (InfixExpression l \<lparr>Type = ''SLASH'', Literal = ''/''\<rparr> r)) env st =
           Ret NilObject (st\<lparr>Err := Some (MkError MathError (Frame st) ''division by zero.'')\<rparr>)"
proof -
  have "is_number lv"
    using assms(2) by (auto simp: is_number_def)
  from infix_divide_by_zero [OF this assms(4), of "\<lparr>Type = ''SLASH'', Literal = ''/''\<rparr>" h "Suc k" st]
  show ?thesis
    using assms(1-3) by (auto simp: evalInfixExpression_def)
qed

text \<open>
  C6.  For a numeric left operand (\<open>Int\<close> or \<open>Float\<close>) and a right operand that is
  zero (\<open>Int 0\<close>, or a \<open>Float\<close> equal to \<open>0\<close>, which is \<open>0.0\<close> or \<open>-0.0\<close>), the
  operators \<open>/\<close> and \<open>%\<close> set the error state to a \<open>MathError\<close> with the message
  \<open>division by zero.\<close> and return no value (\<open>nil\<close>); the outcome is a return, not a
  panic.  In particular the expressions \<open>1/0\<close> and \<open>1.0/0.0\<close> evaluate so.
\<close>

theorem division_by_zero_is_MathError:
  "(is_number left \<and> is_zero right
      \<and> (Type operator = ''SLASH'' \<or> Type operator = ''PERCENT'') \<longrightarrow>
      evalInfixOperator h fuel operator left right st =
        Ret NilObject (st\<lparr>Err := Some (MkError MathError (Frame st) ''division by zero.'')\<rparr>))
   \<and> (Err st = None \<longrightarrow>
      Eval h (Suc (Suc k))
        (ExprNode (InfixExpression (IntExpression 1) \<lparr>Type = ''SLASH'', Literal = ''/''\<rparr>
           (IntExpression 0))) env st =
        Ret NilObject (st\<lparr>Err := Some (MkError MathError (Frame st) ''division by zero.'')\<rparr>))
   \<and> (Err st = None \<longrightarrow>
      Eval h (Suc (Suc k))
        (ExprNode (InfixExpression (FloatExpression 0x3FF0000000000000)
           \<lparr>Type = ''SLASH'', Literal = ''/''\<rparr> (FloatExpression 0))) env st =
        Ret NilObject (st\<lparr>Err := Some (MkError MathError (Frame st) ''division by zero.'')\<rparr>))"
proof (intro conjI impI)
  assume "is_number left \<and> is_zero right
      \<and> (Type operator = ''SLASH'' \<or> Type operator = ''PERCENT'')"
  then show "evalInfixOperator h fuel operator left right st =
        Ret NilObject (st\<lparr>Err := Some (MkError MathError (Frame st) ''division by zero.'')\<rparr>)"
    by (simp add: infix_divide_by_zero)
next
  assume "Err st = None"
  then show "Eval h (Suc (Suc k))
        (ExprNode (InfixExpression (IntExpression 1) \<lparr>Type = ''SLASH'', Literal = ''/''\<rparr>
           (IntExpression 0))) env st =
        Ret NilObject (st\<lparr>Err := Some (MkError MathError (Frame st) ''division by zero.'')\<rparr>)"
    by (rule eval_divide_by_zero [where lv = "IntObject 1" and rv = "IntObject 0" and a = 1 and b = 0])
      (simp_all add: is_zero_def)
next
  assume "Err st = None"
  then show "Eval h (Suc (Suc k))
        (ExprNode (InfixExpression (FloatExpression 0x3FF0000000000000)
           \<lparr>Type = ''SLASH'', Literal = ''/''\<rparr> (FloatExpression 0))) env st =
        Ret NilObject (st\<lparr>Err := Some (MkError MathError (Frame st) ''division by zero.'')\<rparr>)"
    by (rule eval_divide_by_zero [where lv = "Float 0x3FF0000000000000" and rv = "Float 0"
          and a = "0x3FF0000000000000" and b = 0])
      (simp_all add: is_zero_def float_zero_patterns)
qed

text \<open>The theorem at \<open>7 % 0\<close>, \<open>1/0\<close> and \<open>1.0/0.0\<close>, run from the initial state.\<close>

theorem division_by_zero_is_MathError_witness:
  "evalInfixOperator example_host 1 \<lparr>Type = ''PERCENT'', Literal = ''%''\<rparr> (IntObject 7) (IntObject 0)
       (initial_state ''main'') =
     Ret NilObject ((initial_state ''main'')
       \<lparr>Err := Some (MkError MathError (Frame (initial_state ''main'')) ''division by zero.'')\<rparr>)
   \<and> Eval example_host 2
        (ExprNode (InfixExpression (IntExpression 1) \<lparr>Type = ''SLASH'', Literal = ''/''\<rparr>
           (IntExpression 0))) 0 (initial_state ''main'') =
     Ret NilObject ((initial_state ''main'')
       \<lparr>Err := Some (MkError MathError (Frame (initial_state ''main'')) ''division by zero.'')\<rparr>)
   \<and> Eval example_host 2
        (ExprNode (InfixExpression (FloatExpression 0x3FF0000000000000)
           \<lparr>Type = ''SLASH'', Literal = ''/''\<rparr> (FloatExpression 0))) 0 (initial_state ''main'') =
     Ret NilObject ((initial_state ''main'')
       \<lparr>Err := Some (MkError MathError (Frame (initial_state ''main'')) ''division by zero.'')\<rparr>)"
proof -
  have e: "Err (initial_state ''main'') = None"
    by (simp add: initial_state_def)
  have n: "is_number (IntObject 7) \<and> is_zero (IntObject 0)
      \<and> (Type \<lparr>Type = ''PERCENT'', Literal = ''%''\<rparr> = ''SLASH''
         \<or> Type \<lparr>Type = ''PERCENT'', Literal = ''%''\<rparr> = ''PERCENT'')"
    by (simp add: is_number_def is_zero_def)
  show ?thesis
    using division_by_zero_is_MathError
      [of "IntObject 7" "IntObject 0" "\<lparr>Type = ''PERCENT'', Literal = ''%''\<rparr>"
          example_host 1 "initial_state ''main''" 0 0] e n
    by (simp add: numeral_2_eq_2)
qed


subsection \<open>Numeric promotion\<close>

lemma mixed_arithmetic:
  "Object_Add h (IntObject a) (Float b) fr st = Ret (Float (fadd h (float64_of_int64 h a) b), None) st"
  "Object_Add h (Float b) (IntObject a) fr st = Ret (Float (fadd h b (float64_of_int64 h a)), None) st"
  "Object_Subtract h (IntObject a) (Float b) fr st = Ret (Float (fsub h (float64_of_int64 h a) b), None) st"
  "Object_Subtract h (Float b) (IntObject a) fr st = Ret (Float (fsub h b (float64_of_int64 h a)), None) st"
  "Object_Multiply h (IntObject a) (Float b) fr st = Ret (Float (fmul h (float64_of_int64 h a) b), None) st"
  "Object_Multiply h (Float b) (IntObject a) fr st = Ret (Float (fmul h b (float64_of_int64 h a)), None) st"
  by (simp_all add: Object_Add_def Object_Subtract_def Object_Multiply_def Int_Add_def Float_Add_def
      Int_Subtract_def Float_Subtract_def Int_Multiply_def Float_Multiply_def)

lemma mixed_division:
  "\<not> float_eq b 0 \<Longrightarrow>
     Object_Divide h (IntObject a) (Float b) fr st = Ret (Float (fdiv h (float64_of_int64 h a) b), None) st"
  "\<not> float_eq b 0 \<Longrightarrow>
     Object_Mod h (IntObject a) (Float b) fr st = Ret (Float (fmod h (float64_of_int64 h a) b), None) st"
  "a \<noteq> 0 \<Longrightarrow>
     Object_Divide h (Float b) (IntObject a) fr st = Ret (Float (fdiv h b (float64_of_int64 h a)), None) st"
  "a \<noteq> 0 \<Longrightarrow>
     Object_Mod h (Float b) (IntObject a) fr st = Ret (Float (fmod h b (float64_of_int64 h a)), None) st"
  by (simp_all add: Object_Divide_def Object_Mod_def Int_Divide_def Float_Divide_def Int_Mod_def
      Float_Mod_def)

lemma int_arithmetic:
  "Object_Add h (IntObject a) (IntObject a2) fr st = Ret (IntObject (a + a2), None) st"
  "Object_Subtract h (IntObject a) (IntObject a2) fr st = Ret (IntObject (a - a2), None) st"
  "Object_Multiply h (IntObject a) (IntObject a2) fr st = Ret (IntObject (a * a2), None) st"
  "a2 \<noteq> 0 \<Longrightarrow>
     Object_Mod h (IntObject a) (IntObject a2) fr st = Ret (IntObject (int64_rem a a2), None) st"
  "a2 \<noteq> 0 \<Longrightarrow>
     Object_Divide h (IntObject a) (IntObject a2) fr st =
       Ret (Float (fdiv h (float64_of_int64 h a) (float64_of_int64 h a2)), None) st"
  by (simp_all add: Object_Add_def Object_Subtract_def Object_Multiply_def Object_Mod_def
      Object_Divide_def Int_Add_def Int_Subtract_def Int_Multiply_def Int_Mod_def Int_Divide_def)

text \<open>
  C5 as stated fails where the right operand is zero: \<open>1 % 0\<close> on two \<open>Int\<close>s returns
  no \<open>Int\<close> but the \<open>MathError\<close> (and so do the mixed \<open>/\<close> and \<open>%\<close>).
\<close>

theorem int_mod_zero_returns_no_Int:
  "Object_Mod example_host (IntObject 1) (IntObject 0) None (initial_state ''main'') =
     Ret (NilObject, Some (MkError MathError None ''division by zero.'')) (initial_state ''main'')"
  by (simp add: Object_Mod_def Int_Mod_def division_by_zero_def)

text \<open>
  C5, amended.  For every \<open>Int a\<close> and \<open>Float b\<close>: \<open>+\<close>, \<open>-\<close> and \<open>*\<close>, in either
  order, return the \<open>Float\<close> computed with \<open>float64(a)\<close> in the place of \<open>a\<close>; so do
  \<open>/\<close> and \<open>%\<close> whenever the right operand is not zero.  For \<open>Int\<close> operands \<open>a\<close> and
  \<open>a2\<close>: \<open>+\<close>, \<open>-\<close> and \<open>*\<close> return an \<open>Int\<close> (wrapping in 64 bits); \<open>a % a2\<close>
  returns an \<open>Int\<close> when \<open>a2 \<noteq> 0\<close>; \<open>a / a2\<close> with \<open>a2 \<noteq> 0\<close> returns the \<open>Float\<close>
  \<open>float64(a) / float64(a2)\<close>.
\<close>

theorem numeric_promotion:
  "Object_Add h (IntObject a) (Float b) fr st = Ret (Float (fadd h (float64_of_int64 h a) b), None) st
   \<and> Object_Add h (Float b) (IntObject a) fr st = Ret (Float (fadd h b (float64_of_int64 h a)), None) st
   \<and> Object_Subtract h (IntObject a) (Float b) fr st = Ret (Float (fsub h (float64_of_int64 h a) b), None) st
   \<and> Object_Subtract h (Float b) (IntObject a) fr st = Ret (Float (fsub h b (float64_of_int64 h a)), None) st
   \<and> Object_Multiply h (IntObject a) (Float b) fr st = Ret (Float (fmul h (float64_of_int64 h a) b), None) st
   \<and> Object_Multiply h (Float b) (IntObject a) fr st = Ret (Float (fmul h b (float64_of_int64 h a)), None) st
   \<and> (\<not> float_eq b 0 \<longrightarrow>
        Object_Divide h (IntObject a) (Float b) fr st = Ret (Float (fdiv h (float64_of_int64 h a) b), None) st
      \<and> Object_Mod h (IntObject a) (Float b) fr st = Ret (Float (fmod h (float64_of_int64 h a) b), None) st)
   \<and> (a \<noteq> 0 \<longrightarrow>
        Object_Divide h (Float b) (IntObject a) fr st = Ret (Float (fdiv h b (float64_of_int64 h a)), None) st
      \<and> Object_Mod h (Float b) (IntObject a) fr st = Ret (Float (fmod h b (float64_of_int64 h a)), None) st)
   \<and> Object_Add h (IntObject a) (IntObject a2) fr st = Ret (IntObject (a + a2), None) st
   \<and> Object_Subtract h (IntObject a) (IntObject a2) fr st = Ret (IntObject (a - a2), None) st
   \<and> Object_Multiply h (IntObject a) (IntObject a2) fr st = Ret (IntObject (a * a2), None) st
   \<and> (a2 \<noteq> 0 \<longrightarrow>
        Object_Mod h (IntObject a) (IntObject a2) fr st = Ret (IntObject (int64_rem a a2), None) st
      \<and> Object_Divide h (IntObject a) (IntObject a2) fr st =
          Ret (Float (fdiv h (float64_of_int64 h a) (float64_of_int64 h a2)), None) st)"
  by (simp add: mixed_arithmetic mixed_division int_arithmetic)

text \<open>The theorem at \<open>a = 7\<close>, \<open>a2 = 2\<close> and \<open>b = 2.0\<close>: \<open>7 % 2\<close> is \<open>Int 1\<close>.\<close>

theorem numeric_promotion_witness:
  "Object_Mod example_host (IntObject 7) (IntObject 2) None (initial_state ''main'') =
     Ret (IntObject 1, None) (initial_state ''main'')
   \<and> Object_Divide example_host (IntObject 7) (IntObject 2) None (initial_state ''main'') =
     Ret (Float (fdiv example_host (float64_of_int64 example_host 7) (float64_of_int64 example_host 2)), None)
       (initial_state ''main'')
   \<and> Object_Divide example_host (IntObject 7) (Float 0x4000000000000000) None (initial_state ''main'') =
     Ret (Float (fdiv example_host (float64_of_int64 example_host 7) 0x4000000000000000), None)
       (initial_state ''main'')
   \<and> Object_Mod example_host (Float 0x4000000000000000) (IntObject 7) None (initial_state ''main'') =
     Ret (Float (fmod example_host 0x4000000000000000 (float64_of_int64 example_host 7)), None)
       (initial_state ''main'')"
proof -
  have nz: "\<not> float_eq 0x4000000000000000 0"
    by (simp add: float_eq_def float_is_nan_def float_key_def)
  have rem: "int64_rem 7 2 = 1"
    by (simp add: int64_rem_def signed_modulo_int_def)
  show ?thesis
    using numeric_promotion [of example_host 7 "0x4000000000000000" None "initial_state ''main''" 2] nz rem
    by simp
qed


subsection \<open>Strings are indexed by code point, but replaced by byte\<close>

lemma runes_Nil [simp]: "runes [] = []"
  by (simp add: runes.simps)

lemma runes_Cons: "runes (b # bs) = fst (decode_rune (b # bs)) # runes (drop (snd (decode_rune (b # bs))) (b # bs))"
  by (subst runes.simps) simp

text \<open>
  C3 at the string \<open>"e-acute a"\<close> (cell \<open>0\<close> of \<open>utf8_state\<close>), the index \<open>1\<close> and the
  value \<open>"b"\<close>.  The string has the two code points \<open>U+00E9\<close> and \<open>a\<close>, and
  \<open>String.Index\<close> reads \<open>a\<close> at index \<open>1\<close>.  \<open>String.Set\<close> at the same index
  replaces the byte \<open>A9\<close>, the second byte of the first code point: it leaves the bytes
  \<open>C3 62 61\<close>, which are the three code points \<open>U+FFFD\<close>, \<open>b\<close>, \<open>a\<close>.
\<close>

theorem String_Set_replaces_a_byte:
  "runes (Strings utf8_state 0) = [0xE9, 0x61]
   \<and> String_Index 0 (IntObject 1) None utf8_state =
       Ret (String 2, None) (utf8_state\<lparr>Strings := (Strings utf8_state)(2 := ''a''), StringNext := 3\<rparr>)
   \<and> String_Set 0 (IntObject 1) (String 1) None utf8_state =
       Ret None (utf8_state\<lparr>Strings := (Strings utf8_state)(0 := [CHR 0xC3, CHR ''b'', CHR ''a''])\<rparr>)
   \<and> runes [CHR 0xC3, CHR ''b'', CHR ''a''] = [0xFFFD, 0x62, 0x61]"
proof -
  have r1: "runes [CHR 0xC3, CHR 0xA9, CHR ''a''] = [0xE9, 0x61]"
    by (simp add: runes_Cons is_cont_def cont_bits_def)
  have r2: "runes [CHR 0xC3, CHR ''b'', CHR ''a''] = [0xFFFD, 0x62, 0x61]"
    by (simp add: runes_Cons is_cont_def cont_bits_def)
  have s0: "Strings utf8_state 0 = [CHR 0xC3, CHR 0xA9, CHR ''a'']"
    and s1: "Strings utf8_state (Suc 0) = ''b''" and sn: "StringNext utf8_state = 2"
    by (simp_all add: utf8_state_def)
  have idx: "String_Index 0 (IntObject 1) None utf8_state =
       Ret (String 2, None) (utf8_state\<lparr>Strings := (Strings utf8_state)(2 := ''a''), StringNext := 3\<rparr>)"
  proof -
    have "char_of (97::nat) = CHR ''a''"
      by (simp add: char_of_def bit_simps)
    then show ?thesis
      by (simp add: String_Index_def s0 r1 sn new_String_def encode_rune_def Let_def)
  qed
  have set: "String_Set 0 (IntObject 1) (String 1) None utf8_state =
       Ret None (utf8_state\<lparr>Strings := (Strings utf8_state)(0 := [CHR 0xC3, CHR ''b'', CHR ''a''])\<rparr>)"
    by (simp add: String_Set_def s0 s1 Let_def)
  show ?thesis
    using r1 r2 s0 idx set by simp
qed


subsection \<open>Short-circuit evaluation of \<open>&&\<close> and \<open>||\<close>\<close>

lemma and_short_circuit:
  assumes "ev (ExprNode l) env st = Ret (Bool False) st1" and "Err st1 = None"
  shows "evalInfixExpression ev h k l AND_token r env st = Ret (Bool False) st1"
  using assms by (simp add: evalInfixExpression_def AND_token_def)

lemma or_short_circuit:
  assumes "ev (ExprNode l) env st = Ret (Bool True) st1" and "Err st1 = None"
  shows "evalInfixExpression ev h k l OR_token r env st = Ret (Bool True) st1"
  using assms by (simp add: evalInfixExpression_def OR_token_def)

lemma left_not_Bool:
  assumes "ev (ExprNode l) env st = Ret left st1" and "Err st1 = None" and "\<not> is_Bool left"
  shows \<open>evalInfixExpression ev h k l AND_token r env st =
           Ret NilObject (st1\<lparr>Err := Some (MkError OperationError (Frame st1) ''invalid operation "&&".'')\<rparr>)\<close>
    and \<open>evalInfixExpression ev h k l OR_token r env st =
           Ret NilObject (st1\<lparr>Err := Some (MkError OperationError (Frame st1) ''invalid operation "||".'')\<rparr>)\<close>
  using assms
  by (auto simp: evalInfixExpression_def AND_token_def OR_token_def is_Bool_def raise_def
      split: object.splits)

lemma right_not_Bool:
  assumes "ev (ExprNode r) env st1 = Ret right st2" and "Err st1 = None" and "Err st2 = None"
    and "\<not> is_Bool right"
  shows \<open>ev (ExprNode l) env st = Ret (Bool True) st1 \<Longrightarrow>
         evalInfixExpression ev h k l AND_token r env st =
           Ret NilObject (st2\<lparr>Err := Some (MkError OperationError (Frame st2) ''invalid operation "&&".'')\<rparr>)\<close>
    and \<open>ev (ExprNode l) env st = Ret (Bool False) st1 \<Longrightarrow>
         evalInfixExpression ev h k l OR_token r env st =
           Ret NilObject (st2\<lparr>Err := Some (MkError OperationError (Frame st2) ''invalid operation "||".'')\<rparr>)\<close>
  using assms
  by (auto simp: evalInfixExpression_def AND_token_def OR_token_def is_Bool_def raise_def
      evalInfixOperator_def Object_And_def Object_Or_def Bool_And_def Bool_Or_def
      invalid_operation_def split: object.splits)

lemma short_circuit_examples:
  assumes "Err st = None"
  shows "Eval h (Suc (Suc k)) (ExprNode (InfixExpression (BoolExpression False) AND_token one_by_zero))
           env st = Ret (Bool False) st"
    and "Eval h (Suc (Suc k)) (ExprNode (InfixExpression (BoolExpression True) OR_token one_by_zero))
           env st = Ret (Bool True) st"
  using assms by (simp_all add: and_short_circuit or_short_circuit)

text \<open>
  C9.  Let the left operand evaluate without error.  If it is \<open>Bool false\<close>, \<open>&&\<close>
  yields \<open>Bool false\<close> in the state the left operand left, and if it is \<open>Bool true\<close>,
  \<open>||\<close> yields \<open>Bool true\<close> there: this holds whatever the evaluation function \<open>ev\<close>
  would do on the right operand (return, panic or run forever), so the right operand is
  not evaluated.  If the left operand is not a \<open>Bool\<close>, both operators yield an
  \<open>OperationError\<close>.  If the left operand does not decide the result and the right
  operand evaluates without error to a value that is not a \<open>Bool\<close>, the result is an
  \<open>OperationError\<close>.  In particular \<open>false && (1/0)\<close> yields \<open>false\<close> and
  \<open>true || (1/0)\<close> yields \<open>true\<close>, and the error state stays unset.
\<close>

theorem logical_operators_short_circuit:
  \<open>(ev (ExprNode l) env st = Ret (Bool False) st1 \<and> Err st1 = None \<longrightarrow>
      evalInfixExpression ev h k l AND_token r env st = Ret (Bool False) st1)
   \<and> (ev (ExprNode l) env st = Ret (Bool True) st1 \<and> Err st1 = None \<longrightarrow>
      evalInfixExpression ev h k l OR_token r env st = Ret (Bool True) st1)
   \<and> (ev (ExprNode l) env st = Ret left st1 \<and> Err st1 = None \<and> \<not> is_Bool left \<longrightarrow>
      evalInfixExpression ev h k l AND_token r env st =
        Ret NilObject (st1\<lparr>Err := Some (MkError OperationError (Frame st1) ''invalid operation "&&".'')\<rparr>)
      \<and> evalInfixExpression ev h k l OR_token r env st =
        Ret NilObject (st1\<lparr>Err := Some (MkError OperationError (Frame st1) ''invalid operation "||".'')\<rparr>))
   \<and> (ev (ExprNode l) env st = Ret (Bool True) st1 \<and> Err st1 = None
        \<and> ev (ExprNode r) env st1 = Ret right st2 \<and> Err st2 = None \<and> \<not> is_Bool right \<longrightarrow>
      evalInfixExpression ev h k l AND_token r env st =
        Ret NilObject (st2\<lparr>Err := Some (MkError OperationError (Frame st2) ''invalid operation "&&".'')\<rparr>))
   \<and> (ev (ExprNode l) env st = Ret (Bool False) st1 \<and> Err st1 = None
        \<and> ev (ExprNode r) env st1 = Ret right st2 \<and> Err st2 = None \<and> \<not> is_Bool right \<longrightarrow>
      evalInfixExpression ev h k l OR_token r env st =
        Ret NilObject (st2\<lparr>Err := Some (MkError OperationError (Frame st2) ''invalid operation "||".'')\<rparr>))
   \<and> (Err st = None \<longrightarrow>
      Eval h (Suc (Suc k)) (ExprNode (InfixExpression (BoolExpression False) AND_token one_by_zero))
        env st = Ret (Bool False) st
      \<and> Eval h (Suc (Suc k)) (ExprNode (InfixExpression (BoolExpression True) OR_token one_by_zero))
        env st = Ret (Bool True) st)\<close>
  by (intro conjI impI; (elim conjE)?;
      (simp add: and_short_circuit or_short_circuit left_not_Bool short_circuit_examples
       | (rule right_not_Bool; assumption)))

text \<open>
  The theorem on the initial state: \<open>false && (1/0)\<close> and \<open>true || (1/0)\<close> with an
  evaluation function that panics on everything but the left operand; \<open>1 && true\<close>;
  \<open>true && 1\<close>.
\<close>

theorem logical_operators_short_circuit_witness:
  \<open>evalInfixExpression (\<lambda>n env st. if n = ExprNode (BoolExpression False) then Ret (Bool False) st else Panic)
       example_host 1 (BoolExpression False) AND_token one_by_zero 0 (initial_state ''main'') =
     Ret (Bool False) (initial_state ''main'')
   \<and> Eval example_host 2 (ExprNode (InfixExpression (BoolExpression False) AND_token one_by_zero))
       0 (initial_state ''main'') = Ret (Bool False) (initial_state ''main'')
   \<and> Eval example_host 2 (ExprNode (InfixExpression (BoolExpression True) OR_token one_by_zero))
       0 (initial_state ''main'') = Ret (Bool True) (initial_state ''main'')
   \<and> evalInfixExpression (Eval example_host 1) example_host 1 (IntExpression 1) AND_token
       (BoolExpression True) 0 (initial_state ''main'') =
     Ret NilObject ((initial_state ''main'')
       \<lparr>Err := Some (MkError OperationError (Frame (initial_state ''main'')) ''invalid operation "&&".'')\<rparr>)
   \<and> evalInfixExpression (Eval example_host 1) example_host 1 (BoolExpression True) AND_token
       (IntExpression 1) 0 (initial_state ''main'') =
     Ret NilObject ((initial_state ''main'')
       \<lparr>Err := Some (MkError OperationError (Frame (initial_state ''main'')) ''invalid operation "&&".'')\<rparr>)\<close>
proof -
  let ?s = "initial_state ''main''"
  let ?ev = "\<lambda>n (env::addr) st. if n = ExprNode (BoolExpression False) then Ret (Bool False) st else Panic"
  have e: "Err ?s = None"
    by (simp add: initial_state_def)
  have w1: "evalInfixExpression ?ev example_host 1 (BoolExpression False) AND_token one_by_zero 0 ?s
      = Ret (Bool False) ?s"
    using logical_operators_short_circuit
      [where ev = ?ev and l = "BoolExpression False" and env = 0 and st = ?s and ?st1.0 = ?s
          and h = example_host and k = 1 and r = one_by_zero] e
    by simp
  have w2: "Eval example_host 2 (ExprNode (InfixExpression (BoolExpression False) AND_token one_by_zero))
       0 ?s = Ret (Bool False) ?s
     \<and> Eval example_host 2 (ExprNode (InfixExpression (BoolExpression True) OR_token one_by_zero))
       0 ?s = Ret (Bool True) ?s"
    using logical_operators_short_circuit
      [where st = ?s and h = example_host and k = 0 and env = 0] e
    by (simp add: numeral_2_eq_2)
  have w3: \<open>evalInfixExpression (Eval example_host 1) example_host 1 (IntExpression 1) AND_token
       (BoolExpression True) 0 ?s =
     Ret NilObject (?s\<lparr>Err := Some (MkError OperationError (Frame ?s) ''invalid operation "&&".'')\<rparr>)\<close>
    using logical_operators_short_circuit
      [where ev = "Eval example_host 1" and l = "IntExpression 1" and env = 0 and st = ?s
          and ?st1.0 = ?s and h = example_host and k = 1 and r = "BoolExpression True"
          and left = "IntObject 1"] e
    by (simp add: is_Bool_def)
  have w4: \<open>evalInfixExpression (Eval example_host 1) example_host 1 (BoolExpression True) AND_token
       (IntExpression 1) 0 ?s =
     Ret NilObject (?s\<lparr>Err := Some (MkError OperationError (Frame ?s) ''invalid operation "&&".'')\<rparr>)\<close>
    using logical_operators_short_circuit
      [where ev = "Eval example_host 1" and l = "BoolExpression True" and env = 0 and st = ?s
          and ?st1.0 = ?s and h = example_host and k = 1 and r = "IntExpression 1"
          and right = "IntObject 1" and ?st2.0 = ?s] e
    by (simp add: is_Bool_def)
  show ?thesis
    using w1 w2 w3 w4 by simp
qed


subsection \<open>Increment and decrement of an identifier\<close>

lemma Env_Get_here: "Store (hp e) name = Some smb \<Longrightarrow> Env_Get hp e name = Some (Some smb)"
  by (subst Env_Get.simps) simp

lemma Env_Get_Set_same: "Env_Get (Env_Set hp e name smb) e name = Some (Some smb)"
  by (rule Env_Get_here) (simp add: Env_Set_def)

lemma eval_identifier:
  "Env_Get (Envs st) env x = Some (Some smb) \<Longrightarrow>
   Eval h (Suc k) (ExprNode (IdentifierExpression x)) env st = Ret (Value smb) st"
  by (simp add: evalIdentifierExpression_def)

lemma plus_one:
  "evalInfixOperator h fuel (incDecOperator INCREMENT_token) (IntObject v) (IntObject 1) st =
     Ret (IntObject (v + 1)) st"
  "evalInfixOperator h fuel (incDecOperator DECREMENT_token) (IntObject v) (IntObject 1) st =
     Ret (IntObject (v - 1)) st"
  by (simp_all add: evalInfixOperator_def incDecOperator_def INCREMENT_token_def DECREMENT_token_def
      Object_Add_def Object_Subtract_def Int_Add_def Int_Subtract_def)

lemma eval_incdec_identifier:
  assumes "Err st = None" and "Env_Get (Envs st) env x = Some (Some smb)"
    and "\<not> IsConst smb" and "Value smb = IntObject v"
  shows "Eval h (Suc (Suc k)) (ExprNode (PostfixUnaryIncDecExpression INCREMENT_token (IdentifierExpression x))) env st
           = Ret (IntObject v) (st\<lparr>Envs := Env_Set (Envs st) env x (variable x (IntObject (v + 1)))\<rparr>)"
    and "Eval h (Suc (Suc k)) (ExprNode (PostfixUnaryIncDecExpression DECREMENT_token (IdentifierExpression x))) env st
           = Ret (IntObject v) (st\<lparr>Envs := Env_Set (Envs st) env x (variable x (IntObject (v - 1)))\<rparr>)"
    and "Eval h (Suc (Suc k)) (ExprNode (PrefixUnaryIncDecExpression INCREMENT_token (IdentifierExpression x))) env st
           = Ret (IntObject (v + 1)) (st\<lparr>Envs := Env_Set (Envs st) env x (variable x (IntObject (v + 1)))\<rparr>)"
    and "Eval h (Suc (Suc k)) (ExprNode (PrefixUnaryIncDecExpression DECREMENT_token (IdentifierExpression x))) env st
           = Ret (IntObject (v - 1)) (st\<lparr>Envs := Env_Set (Envs st) env x (variable x (IntObject (v - 1)))\<rparr>)"
  using assms eval_identifier [OF assms(2), of h k]
  by (simp_all add: evalPostfixUnaryIncDecExpression_def evalPrefixUnaryIncDecExpression_def
      plus_one variable_def)

text \<open>
  C10.  Let \<open>x\<close> resolve (through the scope chain) to a symbol that is not constant
  and holds \<open>Int v\<close>, and let the error state be unset.  Then, with fuel \<open>2\<close> or more,
  \<open>x++\<close> and \<open>x--\<close> evaluate to \<open>Int v\<close>, the value held before, while \<open>++x\<close> and
  \<open>--x\<close> evaluate to the updated value \<open>Int (v + 1)\<close> and \<open>Int (v - 1)\<close>
  (wrapping in 64 bits).  In all four cases the evaluation stores a symbol holding the
  updated value under \<open>x\<close>, and afterwards \<open>x\<close> resolves to that symbol.
\<close>

theorem incdec_result_and_stored_value:
  "Err st = None \<and> Env_Get (Envs st) env x = Some (Some smb) \<and> \<not> IsConst smb
     \<and> Value smb = IntObject v \<longrightarrow>
   Eval h (Suc (Suc k)) (ExprNode (PostfixUnaryIncDecExpression INCREMENT_token (IdentifierExpression x))) env st
     = Ret (IntObject v) (st\<lparr>Envs := Env_Set (Envs st) env x (variable x (IntObject (v + 1)))\<rparr>)
   \<and> Eval h (Suc (Suc k)) (ExprNode (PostfixUnaryIncDecExpression DECREMENT_token (IdentifierExpression x))) env st
     = Ret (IntObject v) (st\<lparr>Envs := Env_Set (Envs st) env x (variable x (IntObject (v - 1)))\<rparr>)
   \<and> Eval h (Suc (Suc k)) (ExprNode (PrefixUnaryIncDecExpression INCREMENT_token (IdentifierExpression x))) env st
     = Ret (IntObject (v + 1)) (st\<lparr>Envs := Env_Set (Envs st) env x (variable x (IntObject (v + 1)))\<rparr>)
   \<and> Eval h (Suc (Suc k)) (ExprNode (PrefixUnaryIncDecExpression DECREMENT_token (IdentifierExpression x))) env st
     = Ret (IntObject (v - 1)) (st\<lparr>Envs := Env_Set (Envs st) env x (variable x (IntObject (v - 1)))\<rparr>)
   \<and> Env_Get (Env_Set (Envs st) env x (variable x (IntObject (v + 1)))) env x
     = Some (Some (variable x (IntObject (v + 1))))
   \<and> Env_Get (Env_Set (Envs st) env x (variable x (IntObject (v - 1)))) env x
     = Some (Some (variable x (IntObject (v - 1))))"
  by (intro impI conjI; (elim conjE)?;
      (rule Env_Get_Set_same | (rule eval_incdec_identifier; assumption)))


lemma nested_state_x:
  "Err nested_state = None"
  "Env_Get (Envs nested_state) 1 ''x'' = Some (Some (variable ''x'' (IntObject 5)))"
  by (simp_all add: nested_state_def initial_state_def Env_Get.simps Env_Set_def)

text \<open>
  The theorem for \<open>x\<close> bound to \<open>5\<close> in the enclosing scope: \<open>x++\<close> yields \<open>5\<close>,
  \<open>++x\<close> yields \<open>6\<close>, and \<open>x\<close> then resolves to \<open>6\<close>.
\<close>

theorem incdec_result_and_stored_value_witness:
  "Eval example_host 2 (ExprNode (PostfixUnaryIncDecExpression INCREMENT_token (IdentifierExpression ''x'')))
       1 nested_state
     = Ret (IntObject 5)
         (nested_state\<lparr>Envs := Env_Set (Envs nested_state) 1 ''x'' (variable ''x'' (IntObject 6))\<rparr>)
   \<and> Eval example_host 2 (ExprNode (PrefixUnaryIncDecExpression INCREMENT_token (IdentifierExpression ''x'')))
       1 nested_state
     = Ret (IntObject 6)
         (nested_state\<lparr>Envs := Env_Set (Envs nested_state) 1 ''x'' (variable ''x'' (IntObject 6))\<rparr>)
   \<and> Env_Get (Env_Set (Envs nested_state) 1 ''x'' (variable ''x'' (IntObject 6))) 1 ''x''
     = Some (Some (variable ''x'' (IntObject 6)))"
proof -
  have v: "\<not> IsConst (variable ''x'' (IntObject 5))" "Value (variable ''x'' (IntObject 5)) = IntObject 5"
    by (simp_all add: variable_def)
  have six: "(5::int64) + 1 = 6"
    by simp
  show ?thesis
    using incdec_result_and_stored_value
      [where st = nested_state and env = 1 and x = "''x''" and smb = "variable ''x'' (IntObject 5)"
         and v = 5 and h = example_host and k = 0]
      nested_state_x v
    by (simp only: six numeral_2_eq_2 simp_thms)
qed


subsection \<open>Increment and decrement against compound assignment\<close>

lemmas eval_defs =
  evalExpressionStatement_def evalVarInitializationExpression_def evalBlockExpression_def
  evalWithReturnValue_def evalPrefixUnaryIncDecExpression_def evalPostfixUnaryIncDecExpression_def
  evalCompoundAssignmentExpression_def evalVarAssignmentExpression_def evalIdentifierExpression_def
  evalFunctionDeclarationStatement_def evalReturnStatement_def evalCallExpression_def
  evalInfixExpression_def evalIndexExpression_def evalListExpression_def evalStringExpression_def
  evalIfExpression_def evalIndexTarget_def setIndex_def
  new_Environment_def new_List_def new_String_def Env_Exists_def Env_Set_def raise_def
  Env_Get.simps Env_Assign.simps

lemmas run_defs =
  initial_state_def root_environment_def Builtins_def value_after_def eval_nat_numeral

text \<open>
  C1 at \<open>var x = 5; { ++x; };\<close>.  The increment inside the block binds a new \<open>x\<close> in
  the scope of the block, which is dropped when the block ends: at the top level \<open>x\<close> is
  still \<open>5\<close>.  After \<open>var x = 5; { x += 1; };\<close> it is \<open>6\<close>.  In the state the block
  sees, \<open>++x\<close> stores the new symbol in the environment \<open>1\<close> of the block and leaves the
  root environment \<open>0\<close> as it was, while \<open>x += 1\<close> stores it in the root environment.
\<close>

theorem increment_binds_in_current_scope:
  "value_after example_host 5 incr_in_block (IdentifierExpression ''x'') = Some (IntObject 5)
   \<and> value_after example_host 5 add_in_block (IdentifierExpression ''x'') = Some (IntObject 6)
   \<and> Eval example_host 2
        (ExprNode (PrefixUnaryIncDecExpression INCREMENT_token (IdentifierExpression ''x''))) 1 nested_state
      = Ret (IntObject 6)
          (nested_state\<lparr>Envs := Env_Set (Envs nested_state) 1 ''x'' (variable ''x'' (IntObject 6))\<rparr>)
   \<and> Eval example_host 2
        (ExprNode (CompoundAssignmentExpression (IdentifierExpression ''x'')
           \<lparr>Type = ''PLUS_EQUAL'', Literal = ''+=''\<rparr> (IntExpression 1))) 1 nested_state
      = Ret (IntObject 6)
          (nested_state\<lparr>Envs := Env_Set (Envs nested_state) 0 ''x'' (variable ''x'' (IntObject 6))\<rparr>)
   \<and> Store (Env_Set (Envs nested_state) 1 ''x'' (variable ''x'' (IntObject 6)) 0) ''x''
      = Some (variable ''x'' (IntObject 5))
   \<and> Store (Env_Set (Envs nested_state) 0 ''x'' (variable ''x'' (IntObject 6)) 0) ''x''
      = Some (variable ''x'' (IntObject 6))"
proof -
  have a: "value_after example_host 5 incr_in_block (IdentifierExpression ''x'') = Some (IntObject 5)"
    by (simp add: run_defs eval_defs incr_in_block_def var_x_5_def plus_one)
  have b: "value_after example_host 5 add_in_block (IdentifierExpression ''x'') = Some (IntObject 6)"
    by (simp add: run_defs eval_defs add_in_block_def var_x_5_def baseOperator_def
        CompoundAssignmentOperators_def evalInfixOperator_def Object_Add_def Int_Add_def)
  have c: "Eval example_host 2
        (ExprNode (PrefixUnaryIncDecExpression INCREMENT_token (IdentifierExpression ''x''))) 1 nested_state
      = Ret (IntObject 6)
          (nested_state\<lparr>Envs := Env_Set (Envs nested_state) 1 ''x'' (variable ''x'' (IntObject 6))\<rparr>)"
    using eval_incdec_identifier(3) [OF nested_state_x, of 5 example_host 0]
    by (simp add: variable_def numeral_2_eq_2)
  have d: "Eval example_host 2
        (ExprNode (CompoundAssignmentExpression (IdentifierExpression ''x'')
           \<lparr>Type = ''PLUS_EQUAL'', Literal = ''+=''\<rparr> (IntExpression 1))) 1 nested_state
      = Ret (IntObject 6)
          (nested_state\<lparr>Envs := Env_Set (Envs nested_state) 0 ''x'' (variable ''x'' (IntObject 6))\<rparr>)"
    by (simp add: eval_nat_numeral eval_defs nested_state_def initial_state_def variable_def
        baseOperator_def CompoundAssignmentOperators_def evalInfixOperator_def Object_Add_def
        Int_Add_def)
  have e: "Store (Env_Set (Envs nested_state) 1 ''x'' (variable ''x'' (IntObject 6)) 0) ''x''
      = Some (variable ''x'' (IntObject 5))"
    "Store (Env_Set (Envs nested_state) 0 ''x'' (variable ''x'' (IntObject 6)) 0) ''x''
      = Some (variable ''x'' (IntObject 6))"
    by (simp_all add: nested_state_def Env_Set_def)
  show ?thesis
    using a b c d e by simp
qed


subsection \<open>Constants\<close>

lemma checkIndexTargetConst_constant:
  assumes "Env_Get (Envs st) env x = Some (Some smb)" and "IsConst smb"
  shows "target_root t = Some x \<Longrightarrow>
         checkIndexTargetConst t env st =
           Ret (Some (MkError VariableError (Frame st) (cannot_redefine x))) st"
  using assms by (induction t env st rule: checkIndexTargetConst.induct) simp_all

lemma assign_constant:
  assumes "Env_Get (Envs st) env x = Some (Some smb)" and "IsConst smb"
    and "target_root t = Some x"
  shows "evalVarAssignmentExpression ev h t rhs env st =
           Ret NilObject (st\<lparr>Err := Some (MkError VariableError (Frame st) (cannot_redefine x))\<rparr>)"
    and "evalCompoundAssignmentExpression ev h fuel t operator rhs env st =
           Ret NilObject (st\<lparr>Err := Some (MkError VariableError (Frame st) (cannot_redefine x))\<rparr>)"
    and "evalPrefixUnaryIncDecExpression ev h fuel operator t env st =
           Ret NilObject (st\<lparr>Err := Some (MkError VariableError (Frame st) (cannot_redefine x))\<rparr>)"
    and "evalPostfixUnaryIncDecExpression ev h fuel operator t env st =
           Ret NilObject (st\<lparr>Err := Some (MkError VariableError (Frame st) (cannot_redefine x))\<rparr>)"
proof -
  consider (ident) "t = IdentifierExpression x"
    | (index) target index where "t = IndexExpression target index" "target_root target = Some x"
    using assms(3) by (cases t) simp_all
  then have "evalVarAssignmentExpression ev h t rhs env st =
           Ret NilObject (st\<lparr>Err := Some (MkError VariableError (Frame st) (cannot_redefine x))\<rparr>)
    \<and> evalCompoundAssignmentExpression ev h fuel t operator rhs env st =
           Ret NilObject (st\<lparr>Err := Some (MkError VariableError (Frame st) (cannot_redefine x))\<rparr>)
    \<and> evalPrefixUnaryIncDecExpression ev h fuel operator t env st =
           Ret NilObject (st\<lparr>Err := Some (MkError VariableError (Frame st) (cannot_redefine x))\<rparr>)
    \<and> evalPostfixUnaryIncDecExpression ev h fuel operator t env st =
           Ret NilObject (st\<lparr>Err := Some (MkError VariableError (Frame st) (cannot_redefine x))\<rparr>)"
  proof cases
    case ident
    then show ?thesis
      using assms(1,2)
      by (simp add: evalVarAssignmentExpression_def evalCompoundAssignmentExpression_def
          evalPrefixUnaryIncDecExpression_def evalPostfixUnaryIncDecExpression_def raise_def)
  next
    case index
    then show ?thesis
      using checkIndexTargetConst_constant [OF assms(1,2) index(2)]
      by (simp add: evalVarAssignmentExpression_def evalCompoundAssignmentExpression_def
          evalPrefixUnaryIncDecExpression_def evalPostfixUnaryIncDecExpression_def raise_def
          evalIndexTarget_def)
  qed
  then show "evalVarAssignmentExpression ev h t rhs env st =
           Ret NilObject (st\<lparr>Err := Some (MkError VariableError (Frame st) (cannot_redefine x))\<rparr>)"
    and "evalCompoundAssignmentExpression ev h fuel t operator rhs env st =
           Ret NilObject (st\<lparr>Err := Some (MkError VariableError (Frame st) (cannot_redefine x))\<rparr>)"
    and "evalPrefixUnaryIncDecExpression ev h fuel operator t env st =
           Ret NilObject (st\<lparr>Err := Some (MkError VariableError (Frame st) (cannot_redefine x))\<rparr>)"
    and "evalPostfixUnaryIncDecExpression ev h fuel operator t env st =
           Ret NilObject (st\<lparr>Err := Some (MkError VariableError (Frame st) (cannot_redefine x))\<rparr>)"
    by simp_all
qed

text \<open>
  Let the name \<open>x\<close> resolve to a symbol whose is-const flag is set, and let the
  target \<open>t\<close> be \<open>x\<close> itself or a nest of index expressions directly over \<open>x\<close> (\<open>x[i]\<close>,
  \<open>x[i][j]\<close>, ...), as \<open>checkIndexTargetConst\<close> walks it.  Then, with any fuel but \<open>0\<close>,
  the plain assignment \<open>t = e\<close>, every compound assignment to \<open>t\<close>, and \<open>++t\<close>, \<open>--t\<close>,
  \<open>t++\<close>, \<open>t--\<close> return no value and leave the state as it was but for the error, which
  is the \<open>VariableError\<close> \<open>cannot redefine constant "x".\<close>: no environment, list or
  string has changed, and no operand has been evaluated.
\<close>

lemma direct_target_of_constant:
  "Env_Get (Envs st) env x = Some (Some smb) \<and> IsConst smb \<and> target_root t = Some x \<longrightarrow>
   Eval h (Suc k) (ExprNode (VarAssignmentExpression t rhs)) env st =
     Ret NilObject (st\<lparr>Err := Some (MkError VariableError (Frame st) (cannot_redefine x))\<rparr>)
   \<and> Eval h (Suc k) (ExprNode (CompoundAssignmentExpression t operator rhs)) env st =
     Ret NilObject (st\<lparr>Err := Some (MkError VariableError (Frame st) (cannot_redefine x))\<rparr>)
   \<and> Eval h (Suc k) (ExprNode (PrefixUnaryIncDecExpression operator t)) env st =
     Ret NilObject (st\<lparr>Err := Some (MkError VariableError (Frame st) (cannot_redefine x))\<rparr>)
   \<and> Eval h (Suc k) (ExprNode (PostfixUnaryIncDecExpression operator t)) env st =
     Ret NilObject (st\<lparr>Err := Some (MkError VariableError (Frame st) (cannot_redefine x))\<rparr>)"
  by (intro impI; elim conjE) (simp add: assign_constant)

text \<open>
  The same at the builtin \<open>print\<close>, a constant of the root environment, with the
  targets \<open>print\<close> and \<open>print[0]\<close>; and at the two programs
  \<open>const x = 1; x = 2;\<close> and \<open>const l = [1]; l[0] = 2;\<close>.
\<close>

lemma direct_target_of_constant_examples:
  \<open>Eval example_host 1 (ExprNode (VarAssignmentExpression (IdentifierExpression ''print'') (IntExpression 2)))
       0 (initial_state ''main'') =
     Ret NilObject ((initial_state ''main'')
       \<lparr>Err := Some (MkError VariableError (Frame (initial_state ''main''))
                 ''cannot redefine constant "print".'')\<rparr>)
   \<and> Eval example_host 1
       (ExprNode (PostfixUnaryIncDecExpression INCREMENT_token
          (IndexExpression (IdentifierExpression ''print'') (IntExpression 0))))
       0 (initial_state ''main'') =
     Ret NilObject ((initial_state ''main'')
       \<lparr>Err := Some (MkError VariableError (Frame (initial_state ''main''))
                 ''cannot redefine constant "print".'')\<rparr>)
   \<and> error_after example_host 4 const_x_1
       (VarAssignmentExpression (IdentifierExpression ''x'') (IntExpression 2)) =
     Some (MkError VariableError (Frame (initial_state ''main'')) ''cannot redefine constant "x".'')
   \<and> error_after example_host 6 const_l_1
       (VarAssignmentExpression (IndexExpression (IdentifierExpression ''l'') (IntExpression 0))
          (IntExpression 2)) =
     Some (MkError VariableError (Frame (initial_state ''main'')) ''cannot redefine constant "l".'')\<close>
proof -
  let ?s = "initial_state ''main''"
  let ?p = "\<lparr>Name = ''print'', Value = BuiltinFunction 0 ''print'' [''a''] [], IsConst = True\<rparr>"
  have g: "Env_Get (Envs ?s) 0 ''print'' = Some (Some ?p)" "IsConst ?p"
    by (simp_all add: initial_state_def root_environment_def Builtins_def Env_Get.simps)
  have m: \<open>cannot_redefine ''print'' = ''cannot redefine constant "print".''\<close>
    by (simp add: cannot_redefine_def)
  have w1: "target_root (IdentifierExpression ''print'') = Some ''print''"
    and w2: "target_root (IndexExpression (IdentifierExpression ''print'') (IntExpression 0)) = Some ''print''"
    by simp_all
  have p1: \<open>error_after example_host 4 const_x_1
       (VarAssignmentExpression (IdentifierExpression ''x'') (IntExpression 2)) =
     Some (MkError VariableError (Frame ?s) ''cannot redefine constant "x".'')\<close>
    by (simp add: error_after_def const_x_1_def initial_state_def root_environment_def Builtins_def
        eval_nat_numeral eval_defs cannot_redefine_def)
  have p2: \<open>error_after example_host 6 const_l_1
       (VarAssignmentExpression (IndexExpression (IdentifierExpression ''l'') (IntExpression 0))
          (IntExpression 2)) =
     Some (MkError VariableError (Frame ?s) ''cannot redefine constant "l".'')\<close>
    by (simp add: error_after_def const_l_1_def initial_state_def root_environment_def Builtins_def
        eval_nat_numeral eval_defs cannot_redefine_def Type_of_def)
  show ?thesis
    using direct_target_of_constant
        [where st = ?s and env = 0 and x = "''print''" and smb = ?p and h = example_host and k = 0
           and t = "IdentifierExpression ''print''" and rhs = "IntExpression 2"]
      direct_target_of_constant
        [where st = ?s and env = 0 and x = "''print''" and smb = ?p and h = example_host and k = 0
           and t = "IndexExpression (IdentifierExpression ''print'') (IntExpression 0)"
           and operator = INCREMENT_token]
      g m w1 w2 p1 p2
    by (simp only: One_nat_def simp_thms)
qed


subsection \<open>What every evaluation preserves\<close>

text \<open>
  Every method of the object model and every function of the evaluator relates the
  state it starts in to the state it returns by \<open>step\<close>, provided the function it calls
  as \<open>e.Eval\<close> does; so does \<open>Eval\<close>, by induction on the fuel.
\<close>

lemma frame_le_refl [simp]: "frame_le f f"
  by (simp add: frame_le_def)

lemma frame_le_trans: "frame_le f g \<Longrightarrow> frame_le g k \<Longrightarrow> frame_le f k"
  by (auto simp: frame_le_def)

lemma frame_le_push: "frame_le f (Some (MkFrame l f ps pe))"
  by (cases f) (auto simp: frame_le_def stack_def)


lemma step_refl [simp]: "step h st st"
  by (simp add: step_def)

lemma step_trans: "step h st st1 \<Longrightarrow> step h st1 st2 \<Longrightarrow> step h st st2"
  by (auto simp: step_def intro: frame_le_trans)

lemma pres_Ret [simp]: "pres h (Ret v st') st \<longleftrightarrow> step h st st'"
  by (simp add: pres_def)

lemma pres_Panic [simp]: "pres h Panic st"
  by (simp add: pres_def)

lemma pres_Timeout [simp]: "pres h Timeout st"
  by (simp add: pres_def)

lemma pres_from: "step h st st1 \<Longrightarrow> pres h m st1 \<Longrightarrow> pres h m st"
  by (auto simp: pres_def intro: step_trans)

lemma pres_bind:
  assumes "pres h m st" and "\<And>x st1. m = Ret x st1 \<Longrightarrow> pres h (f x st1) st1"
  shows "pres h (bind m f) st"
  using assms by (cases m) (auto simp: pres_def intro: step_trans)

lemma pres_errchk:
  assumes "pres h m st" and "\<And>x st1. m = Ret x st1 \<Longrightarrow> Err st1 = None \<Longrightarrow> pres h (f x st1) st1"
  shows "pres h (errchk m f) st"
  using assms by (cases m) (auto simp: pres_def errchk_def intro: step_trans)

lemma step_raise [simp]: "step h st (st\<lparr>Err := Some e\<rparr>)"
  by (simp add: step_def lists_homogeneous_def)

lemma pres_raise [simp]: "pres h (raise e st) st"
  by (simp add: raise_def)

lemma pres_method_result:
  assumes "pres h m st"
  shows "pres h (method_result m) st"
  unfolding method_result_def
  by (rule pres_bind [OF assms]) (auto split: option.splits)

lemma step_Envs [simp]: "step h st (st\<lparr>Envs := hp\<rparr>)"
  by (simp add: step_def lists_homogeneous_def)

lemma step_Envs_FuncNext [simp]: "step h st (st\<lparr>Envs := hp, FuncNext := n\<rparr>)"
  by (simp add: step_def lists_homogeneous_def)

lemma step_new_Environment: "new_Environment outer st = (e, st') \<Longrightarrow> step h st st'"
  by (auto simp: new_Environment_def step_def lists_homogeneous_def)

lemma step_new_String: "new_String s st = (v, st') \<Longrightarrow> step h st st'"
  by (auto simp: new_String_def step_def lists_homogeneous_def)

lemma step_new_List: "homogeneous h xs \<Longrightarrow> new_List xs st = (v, st') \<Longrightarrow> step h st st'"
  by (auto simp: new_List_def step_def lists_homogeneous_def)

lemma ev_okD: "ev_ok h ev \<Longrightarrow> pres h (ev n env st) st"
  by (simp add: ev_ok_def)

lemma pres_evalProgram:
  assumes ok: "ev_ok h ev"
  shows "pres h (evalProgram ev ss env st) st"
  by (induction ss arbitrary: st) (auto intro!: pres_errchk ev_okD [OF ok])

lemma pres_non_bool_for [simp]: "pres h (non_bool_for st) st"
  by (simp add: non_bool_for_def)

lemma pres_forLoop:
  assumes ok: "ev_ok h ev"
  shows "pres h (forLoop ev fuel c u b env cond st) st"
proof (induction fuel arbitrary: cond st)
  case 0
  then show ?case by (subst forLoop.simps) simp
next
  case (Suc fuel)
  show ?case
    by (subst forLoop.simps)
      (auto intro!: pres_errchk ev_okD [OF ok] Suc.IH split: object.splits)
qed

lemma pres_evalForStatement:
  assumes ok: "ev_ok h ev"
  shows "pres h (evalForStatement ev fuel i c u b env st) st"
  unfolding evalForStatement_def
  by (auto intro!: pres_errchk ev_okD [OF ok] pres_forLoop [OF ok] split: prod.splits object.splits
      intro: pres_from [OF step_new_Environment])

lemma homogeneous_Nil [simp]: "homogeneous h []"
  by (simp add: homogeneous_def)

lemma homogeneous_append:
  assumes "homogeneous h xs" and "homogeneous h ys"
    and "xs \<noteq> [] \<Longrightarrow> ys \<noteq> [] \<Longrightarrow> Type_of h (hd xs) = Type_of h (hd ys)"
  shows "homogeneous h (xs @ ys)"
  using assms by (cases xs; cases ys) (auto simp: homogeneous_def)

lemma homogeneous_replicate:
  assumes "homogeneous h xs"
  shows "homogeneous h (concat (replicate n xs))"
proof (cases "xs = [] \<or> n = 0")
  case True
  then show ?thesis by (auto simp: homogeneous_def)
next
  case False
  then obtain m where n: "n = Suc m" by (cases n) auto
  from False have "hd (concat (replicate n xs)) = hd xs"
    by (simp add: n)
  with assms show ?thesis
    by (auto simp: homogeneous_def)
qed

lemma homogeneous_update:
  assumes "homogeneous h xs" and "Type_of h v = Type_of h (hd xs)"
  shows "homogeneous h (xs[i := v])"
proof (cases xs)
  case Nil
  then show ?thesis by simp
next
  case (Cons y ys)
  have "set (xs[i := v]) \<subseteq> insert v (set xs)"
    by (rule set_update_subset_insert)
  moreover have "Type_of h (hd (xs[i := v])) = Type_of h (hd xs)"
    using assms(2) Cons by (cases i) simp_all
  ultimately show ?thesis
    using assms by (auto simp: homogeneous_def)
qed

lemma step_alloc_List:
  assumes "lists_homogeneous h st \<Longrightarrow> homogeneous h xs"
  shows "step h st (st\<lparr>Lists := (Lists st)(a := xs), ListNext := n\<rparr>)"
  using assms by (auto simp: step_def lists_homogeneous_def)

lemma pres_if:
  assumes "c \<Longrightarrow> pres h a st" and "\<not> c \<Longrightarrow> pres h b st"
  shows "pres h (if c then a else b) st"
  using assms by simp

lemma step_Lists:
  assumes "lists_homogeneous h st \<Longrightarrow> homogeneous h xs"
  shows "step h st (st\<lparr>Lists := (Lists st)(l := xs)\<rparr>)"
  using assms by (auto simp: step_def lists_homogeneous_def)

lemma step_Strings [simp]: "step h st (st\<lparr>Strings := ss\<rparr>)"
  by (simp add: step_def lists_homogeneous_def)

lemma lists_homogeneousD: "lists_homogeneous h st \<Longrightarrow> homogeneous h (Lists st a)"
  by (simp add: lists_homogeneous_def)

lemma pres_String_Add: "pres h (String_Add s other fr st) st"
  by (auto simp: String_Add_def split: object.splits prod.splits intro: step_new_String)

lemma pres_String_Multiply: "pres h (String_Multiply h s other fr st) st"
  by (auto simp: String_Multiply_def split: object.splits prod.splits option.splits
      intro: step_new_String)

lemma pres_Int_Multiply: "pres h (Int_Multiply h i other fr st) st"
  by (auto simp: Int_Multiply_def split: object.splits prod.splits option.splits
      intro: step_new_String)

lemma pres_String_Index: "pres h (String_Index s other fr st) st"
  by (auto simp: String_Index_def Let_def split: object.splits prod.splits intro: step_new_String)

lemma pres_String_Set: "pres h (String_Set s index v fr st) st"
  by (auto simp: String_Set_def Let_def split: object.splits)

lemma pres_List_Add: "pres h (List_Add h l other fr st) st"
  by (auto simp: List_Add_def Let_def new_List_def split: object.splits option.splits
      intro!: step_alloc_List homogeneous_append lists_homogeneousD)

lemma pres_List_Multiply: "pres h (List_Multiply h l other fr st) st"
  by (auto simp: List_Multiply_def new_List_def split: object.splits
      intro!: step_alloc_List homogeneous_replicate lists_homogeneousD)

lemma pres_List_Index: "pres h (List_Index l other fr st) st"
  by (auto simp: List_Index_def Let_def split: object.splits)

lemma pres_List_Set: "pres h (List_Set h l index v fr st) st"
proof -
  have "step h st (st\<lparr>Lists := (Lists st)(l := (Lists st l)[i := v])\<rparr>)"
    if "Lists st l = x # xs" "Type_of h v = Type_of h x" for i x xs
    using that by (intro step_Lists homogeneous_update lists_homogeneousD) simp_all
  then show ?thesis
    by (auto simp: List_Set_def Let_def split: object.splits list.splits option.splits)
qed

lemma pres_unsupported [simp]:
  "pres h (unsupported_unary h m lit x fr st) st"
  "pres h (unsupported_binary h m lit x y fr st) st"
  by (auto simp: unsupported_unary_def unsupported_binary_def split: object.splits)

lemma List_Equal_loop_state:
  assumes P: "\<And>x y fr st r st'. Object_Equal h n x y fr st = Ret r st' \<Longrightarrow> st' = st"
  shows "List_Equal_loop h n xs ys fr st = Ret r st' \<Longrightarrow> st' = st"
proof (induction xs arbitrary: ys st)
  case Nil
  then show ?case by simp
next
  case (Cons x xs)
  show ?case
  proof (cases ys)
    case Nil
    with Cons.prems show ?thesis by simp
  next
    case (Cons y ys')
    show ?thesis
    proof (cases "Object_Equal h n x y fr st")
      case (Ret eq st1)
      then have st1: "st1 = st" by (rule P)
      show ?thesis
        using Cons.prems Cons.IH [of ys' st] Ret st1 \<open>ys = y # ys'\<close>
        by (auto split: option.splits object.splits if_splits prod.splits)
    qed (use Cons.prems \<open>ys = y # ys'\<close> in auto)
  qed
qed

lemma Equal_state: "Object_Equal h n x y fr st = Ret r st' \<Longrightarrow> st' = st"
proof (induction n arbitrary: x y fr st r st')
  case 0
  then show ?case by simp
next
  case (Suc n)
  have loop: "st' = st" if "List_Equal_loop h n xs ys fr st = Ret r st'" for xs ys fr st r st'
    using that by (rule List_Equal_loop_state [rotated]) (rule Suc.IH)
  from Suc.prems show ?case
    by (auto split: object.splits if_splits dest: loop)
qed

lemma pres_Object_Equal: "pres h (Object_Equal h n x y fr st) st"
  by (auto simp: pres_def dest: Equal_state)

lemma pres_Object_NotEqual: "pres h (Object_NotEqual h n x y fr st) st"
  by (auto simp: Object_NotEqual_def pres_def dest: Equal_state
      split: object.splits res.splits option.splits prod.splits)

lemma pres_Object:
  "pres h (Object_Negative h x fr st) st"
  "pres h (Object_BitNot h x fr st) st"
  "pres h (Object_Not h x fr st) st"
  "pres h (Object_Add h x y fr st) st"
  "pres h (Object_Subtract h x y fr st) st"
  "pres h (Object_Multiply h x y fr st) st"
  "pres h (Object_Divide h x y fr st) st"
  "pres h (Object_Mod h x y fr st) st"
  "pres h (Object_LessThan h x y fr st) st"
  "pres h (Object_GreaterThan h x y fr st) st"
  "pres h (Object_LessThanOrEqual h x y fr st) st"
  "pres h (Object_GreaterThanOrEqual h x y fr st) st"
  "pres h (Object_BitAnd h x y fr st) st"
  "pres h (Object_BitOr h x y fr st) st"
  "pres h (Object_Xor h x y fr st) st"
  "pres h (Object_LeftShift h x y fr st) st"
  "pres h (Object_RightShift h x y fr st) st"
  "pres h (Object_And h x y fr st) st"
  "pres h (Object_Or h x y fr st) st"
  "pres h (Object_Index h x y fr st) st"
  by (auto simp: Object_Negative_def Object_BitNot_def Object_Not_def Object_Add_def
      Object_Subtract_def Object_Multiply_def Object_Divide_def Object_Mod_def Object_LessThan_def
      Object_GreaterThan_def Object_LessThanOrEqual_def Object_GreaterThanOrEqual_def
      Object_BitAnd_def Object_BitOr_def Object_Xor_def Object_LeftShift_def Object_RightShift_def
      Object_And_def Object_Or_def Object_Index_def
      pres_String_Add pres_String_Multiply pres_Int_Multiply pres_List_Add pres_List_Multiply
      pres_String_Index pres_List_Index
      split: object.splits)

lemma pres_evalInfixOperator: "pres h (evalInfixOperator h fuel operator l r st) st"
  unfolding evalInfixOperator_def Let_def
  by (intro pres_if pres_method_result pres_Object pres_Object_Equal pres_Object_NotEqual pres_raise)

lemma pres_evalPrefixOperator: "pres h (evalPrefixOperator h operator r st) st"
  unfolding evalPrefixOperator_def
  by (intro pres_if pres_method_result pres_Object pres_raise)

lemma pres_case_object:
  assumes "\<And>a. x = ReturnValue a \<Longrightarrow> pres h (f x) st" and "(\<And>a. x \<noteq> ReturnValue a) \<Longrightarrow> pres h g st"
  shows "pres h (case x of ReturnValue a \<Rightarrow> f x | _ \<Rightarrow> g) st"
  using assms by (cases x) auto

lemma pres_evalFunctionDeclarationStatement:
  "pres h (evalFunctionDeclarationStatement name params body env st) st"
  by (auto simp: evalFunctionDeclarationStatement_def split: expr.splits option.splits)

lemma pres_evalReturnStatement:
  assumes ok: "ev_ok h ev"
  shows "pres h (evalReturnStatement ev e env st) st"
  unfolding evalReturnStatement_def
  by (auto split: option.splits intro!: pres_errchk ev_okD [OF ok])

lemma pres_evalExpressionStatement:
  assumes ok: "ev_ok h ev"
  shows "pres h (evalExpressionStatement ev e env st) st"
  unfolding evalExpressionStatement_def
  by (auto split: object.splits intro!: pres_errchk ev_okD [OF ok])

lemma pres_evalStringExpression: "pres h (evalStringExpression s st) st"
  by (auto simp: evalStringExpression_def split: prod.splits intro: step_new_String)

lemma pres_evalListElements:
  assumes ok: "ev_ok h ev"
  shows "(i = 0 \<longrightarrow> elements = []) \<and> (0 < i \<longrightarrow> (\<forall>x \<in> set elements. Type_of h x = Some firstType))
         \<Longrightarrow> pres h (evalListElements ev h es env i firstType elements st) st"
proof (induction es arbitrary: i firstType elements st)
  case Nil
  then have "homogeneous h elements"
    by (cases elements) (auto simp: homogeneous_def)
  then show ?case
    by (auto simp: new_List_def intro!: step_alloc_List)
next
  case (Cons e es)
  show ?case
    using Cons.prems
    by (auto intro!: pres_errchk ev_okD [OF ok] Cons.IH split: option.splits)
qed

lemma pres_evalListExpression:
  assumes ok: "ev_ok h ev"
  shows "pres h (evalListExpression ev h es env st) st"
  unfolding evalListExpression_def
  by (rule pres_evalListElements [OF ok]) simp

lemma pres_evalIdentifierExpression: "pres h (evalIdentifierExpression x env st) st"
  by (auto simp: evalIdentifierExpression_def split: option.splits)

lemma pres_evalVarInitializationExpression:
  assumes ok: "ev_ok h ev"
  shows "pres h (evalVarInitializationExpression ev c name v env st) st"
  unfolding evalVarInitializationExpression_def
  by (auto split: expr.splits intro!: pres_errchk ev_okD [OF ok])

lemma pres_evalPrefixExpression:
  assumes ok: "ev_ok h ev"
  shows "pres h (evalPrefixExpression ev h operator v env st) st"
  unfolding evalPrefixExpression_def
  by (auto intro!: pres_errchk ev_okD [OF ok] pres_evalPrefixOperator)

lemma pres_evalInfixExpression:
  assumes ok: "ev_ok h ev"
  shows "pres h (evalInfixExpression ev h fuel l operator r env st) st"
  unfolding evalInfixExpression_def Let_def
  by (auto intro!: pres_errchk ev_okD [OF ok] pres_evalInfixOperator split: object.splits)

lemma pres_checkIndexTargetConst: "pres h (checkIndexTargetConst t env st) st"
  by (induction t env st rule: checkIndexTargetConst.induct) (auto split: option.splits)

lemma pres_index_errors [simp]:
  "pres h (index_must_be_integer st) st"
  "pres h (index_not_supported st) st"
  "pres h (invalid_variable_name_type st) st"
  by (simp_all add: index_must_be_integer_def index_not_supported_def invalid_variable_name_type_def)

lemma pres_evalIndexTarget:
  assumes ok: "ev_ok h ev" and cont: "\<And>t i st2. pres h (cont t i st2) st2"
  shows "pres h (evalIndexTarget ev te ie env st cont) st"
  unfolding evalIndexTarget_def
  by (auto intro!: pres_bind pres_checkIndexTargetConst pres_errchk ev_okD [OF ok] cont
      split: option.splits object.splits)

lemma pres_setIndex: "pres h (setIndex h target index v ret st) st"
  unfolding setIndex_def indexable_Set_def
  by (auto intro!: pres_bind pres_String_Set pres_List_Set split: object.splits option.splits)

lemma pres_evalIndexExpression:
  assumes ok: "ev_ok h ev"
  shows "pres h (evalIndexExpression ev h t i env st) st"
  unfolding evalIndexExpression_def
  by (auto intro!: pres_errchk ev_okD [OF ok] pres_method_result pres_Object split: object.splits)

lemma pres_evalVarAssignmentExpression:
  assumes ok: "ev_ok h ev"
  shows "pres h (evalVarAssignmentExpression ev h name v env st) st"
  unfolding evalVarAssignmentExpression_def
  by (auto intro!: pres_errchk ev_okD [OF ok] pres_evalIndexTarget [OF ok] pres_setIndex
      split: expr.splits option.splits)

lemma pres_evalCompoundAssignmentExpression:
  assumes ok: "ev_ok h ev"
  shows "pres h (evalCompoundAssignmentExpression ev h fuel name operator r env st) st"
  unfolding evalCompoundAssignmentExpression_def
  by (auto intro!: pres_errchk ev_okD [OF ok] pres_evalIndexTarget [OF ok] pres_setIndex
      pres_evalInfixOperator split: expr.splits option.splits)

lemma pres_evalPrefixUnaryIncDecExpression:
  assumes ok: "ev_ok h ev"
  shows "pres h (evalPrefixUnaryIncDecExpression ev h fuel operator r env st) st"
  unfolding evalPrefixUnaryIncDecExpression_def
  by (auto intro!: pres_errchk ev_okD [OF ok] pres_evalIndexTarget [OF ok] pres_setIndex
      pres_evalInfixOperator split: expr.splits option.splits)

lemma pres_evalPostfixUnaryIncDecExpression:
  assumes ok: "ev_ok h ev"
  shows "pres h (evalPostfixUnaryIncDecExpression ev h fuel operator l env st) st"
  unfolding evalPostfixUnaryIncDecExpression_def
  by (auto intro!: pres_errchk ev_okD [OF ok] pres_evalIndexTarget [OF ok] pres_setIndex
      pres_evalInfixOperator pres_evalIndexExpression [OF ok] split: expr.splits option.splits)

lemma pres_evalWithReturnValue:
  assumes ok: "ev_ok h ev"
  shows "pres h (evalWithReturnValue ev n env st) st"
  unfolding evalWithReturnValue_def
  by (auto intro!: pres_errchk ev_okD [OF ok] split: stmt.splits object.splits)

lemma pres_evalBlockStatements:
  assumes ok: "ev_ok h ev"
  shows "pres h (evalBlockStatements ev ss env ret st) st"
  by (induction ss arbitrary: ret st)
    (auto intro!: pres_bind pres_evalWithReturnValue [OF ok] split: object.splits)

lemma pres_evalBlockExpression:
  assumes ok: "ev_ok h ev"
  shows "pres h (evalBlockExpression ev ss env st) st"
  unfolding evalBlockExpression_def
  by (auto split: prod.splits intro: pres_from [OF step_new_Environment pres_evalBlockStatements [OF ok]])

lemma pres_evalIfExpression:
  assumes ok: "ev_ok h ev"
  shows "pres h (evalIfExpression ev c t e env st) st"
  unfolding evalIfExpression_def
  by (auto intro!: pres_errchk ev_okD [OF ok] split: object.splits prod.splits option.splits
      intro: pres_from [OF step_new_Environment pres_evalWithReturnValue [OF ok]] step_new_Environment)

lemma pres_evalArguments:
  assumes ok: "ev_ok h ev"
  shows "pres h (evalArguments ev defaults args env argument st) st"
  by (induction args arbitrary: argument st)
    (auto intro!: pres_bind ev_okD [OF ok] split: option.splits)

lemma pres_fillDefaults:
  assumes ok: "ev_ok h ev"
  shows "pres h (fillDefaults ev defaults n env argument st) st"
  by (induction n arbitrary: argument st) (auto intro!: pres_bind ev_okD [OF ok])

lemma pres_buildArguments:
  assumes ok: "ev_ok h ev"
  shows "pres h (buildArguments ev defaults n args env st) st"
  unfolding buildArguments_def
  by (auto intro!: pres_bind pres_evalArguments [OF ok] pres_fillDefaults [OF ok] split: option.splits)

lemma step_call:
  assumes body: "step h st2 st3"
    and st2: "Err st2 = Err st" "Lists st2 = Lists st" "Frame st2 = Some (MkFrame l (Frame st) ps pe)"
  shows "Err st3 \<noteq> None \<Longrightarrow> step h st st3"
    and "Err st3 = None \<Longrightarrow> Frame st3 = Some f \<Longrightarrow> step h st (st3\<lparr>Frame := Parent f\<rparr>)"
  using assms frame_le_trans [OF frame_le_push [of "Frame st" l ps pe], of "Frame st3"]
  by (auto simp: step_def lists_homogeneous_def)

lemma pres_callFunction:
  assumes ok: "ev_ok h ev"
  shows "pres h (callFunction ev fname params body fenv argument ps pe st) st"
proof -
  have "pres h (errchk (evalWithReturnValue ev body e st2) (\<lambda>returnValue st3.
                    case Frame st3 of
                      None \<Rightarrow> Panic
                    | Some f \<Rightarrow>
                        (case returnValue of
                           ReturnValue v \<Rightarrow> Ret v (st3\<lparr>Frame := Parent f\<rparr>)
                         | _ \<Rightarrow> Ret returnValue (st3\<lparr>Frame := Parent f\<rparr>)))) st"
    if "Err st2 = Err st" "Lists st2 = Lists st" "Frame st2 = Some (MkFrame l (Frame st) ps pe)"
    for e st2 l
  proof (cases "evalWithReturnValue ev body e st2")
    case (Ret rv st3)
    with pres_evalWithReturnValue [OF ok, of body e st2] have "step h st2 st3"
      by simp
    from step_call [OF this that] Ret show ?thesis
      by (auto split: option.splits object.splits)
  qed simp_all
  then show ?thesis
    unfolding callFunction_def Let_def
    by (auto simp: new_Environment_def split: option.splits)
qed

lemma pres_callBuiltin: "pres h (callBuiltin h fid fname argument ps pe st) st"
  unfolding callBuiltin_def Let_def
  by (auto simp: raise_def step_def lists_homogeneous_def frame_le_push
      split: native_result.splits option.splits)

lemma pres_evalCallExpression:
  assumes ok: "ev_ok h ev"
  shows "pres h (evalCallExpression ev h f args ps pe env st) st"
  unfolding evalCallExpression_def Let_def
  by (auto intro!: pres_errchk ev_okD [OF ok] pres_bind pres_buildArguments [OF ok]
      pres_callFunction [OF ok] pres_callBuiltin split: object.splits option.splits)

lemma Eval_ok: "ev_ok h (Eval h k)"
proof (induction k)
  case 0
  then show ?case by (simp add: ev_ok_def)
next
  case (Suc k)
  note ok = Suc.IH
  show ?case
    unfolding ev_ok_def
  proof (intro allI)
    fix n env st
    show "pres h (Eval h (Suc k) n env st) st"
    proof (cases n)
      case (Program ss)
      then show ?thesis by (simp add: pres_evalProgram [OF ok])
    next
      case (StmtNode s)
      then show ?thesis
        by (cases s)
          (simp_all add: pres_evalForStatement [OF ok] pres_evalExpressionStatement [OF ok]
            pres_evalFunctionDeclarationStatement pres_evalReturnStatement [OF ok])
    next
      case (ExprNode e)
      then show ?thesis
        by (cases e)
          (simp_all add: pres_evalPrefixExpression [OF ok] pres_evalInfixExpression [OF ok]
            pres_evalStringExpression pres_evalListExpression [OF ok] pres_evalIdentifierExpression
            ev_okD [OF ok] pres_evalVarInitializationExpression [OF ok]
            pres_evalVarAssignmentExpression [OF ok] pres_evalCompoundAssignmentExpression [OF ok]
            pres_evalPrefixUnaryIncDecExpression [OF ok] pres_evalPostfixUnaryIncDecExpression [OF ok]
            pres_evalBlockExpression [OF ok] pres_evalIfExpression [OF ok]
            pres_evalCallExpression [OF ok] pres_evalIndexExpression [OF ok])
    qed simp_all
  qed
qed

lemma Eval_step: "Eval h k n env st = Ret v st' \<Longrightarrow> step h st st'"
  using Eval_ok [of h k] by (auto simp: ev_ok_def pres_def)


subsection \<open>Lists are homogeneous\<close>

lemma homogeneous_typed:
  "(\<forall>x \<in> set xs. Type_of h x = Some t) \<Longrightarrow> homogeneous h xs"
  by (cases xs) (auto simp: homogeneous_def)

lemma evalListElements_List:
  "(i = 0 \<longrightarrow> elements = []) \<and> (0 < i \<longrightarrow> (\<forall>x \<in> set elements. Type_of h x = Some firstType))
   \<Longrightarrow> evalListElements ev h es env i firstType elements st = Ret (List a) st'
   \<Longrightarrow> homogeneous h (Lists st' a)"
proof (induction es arbitrary: i firstType elements st)
  case Nil
  then have "homogeneous h elements"
    by (cases "i = 0") (auto intro: homogeneous_typed)
  with Nil.prems(2) show ?case
    by (auto simp: new_List_def)
next
  case (Cons e es)
  from Cons.prems(2) obtain element st1 t where
    ev: "ev (ExprNode e) env st = Ret element st1" "Err st1 = None" "Type_of h element = Some t"
    by (auto simp: errchk_def bind_def raise_def split: res.splits if_splits option.splits)
  show ?case
  proof (cases "i = 0")
    case True
    with Cons.prems ev
    have "evalListElements ev h es env (Suc i) t (elements @ [element]) st1 = Ret (List a) st'"
      by (simp add: errchk_def bind_def)
    moreover have "\<forall>x \<in> set (elements @ [element]). Type_of h x = Some t"
      using True Cons.prems(1) ev by simp
    ultimately show ?thesis
      by (intro Cons.IH [of "Suc i" "elements @ [element]" t st1]) simp_all
  next
    case False
    with Cons.prems ev have t: "t = firstType"
      by (auto simp: errchk_def bind_def raise_def split: if_splits)
    with False Cons.prems ev
    have "evalListElements ev h es env (Suc i) firstType (elements @ [element]) st1 = Ret (List a) st'"
      by (simp add: errchk_def bind_def)
    moreover have "\<forall>x \<in> set (elements @ [element]). Type_of h x = Some firstType"
      using False Cons.prems(1) ev t by simp
    ultimately show ?thesis
      by (intro Cons.IH [of "Suc i" "elements @ [element]" firstType st1]) simp_all
  qed
qed

lemma evalElements_length:
  "evalElements ev es env st = Some (vs, st1) \<Longrightarrow> length vs = length es"
  by (induction es arbitrary: vs st)
     (auto split: res.splits if_splits option.splits prod.splits)

lemma evalListElements_mismatch:
  assumes inv: "(i = 0 \<longrightarrow> elements = [])
                \<and> (0 < i \<longrightarrow> elements \<noteq> [] \<and> (\<forall>x \<in> set elements. Type_of h x = Some firstType))"
    and ev: "evalElements ev (es1 @ [e]) env st = Some (vs, st1)"
    and typed: "\<forall>v \<in> set vs. Type_of h v \<noteq> None"
    and hom: "homogeneous h (elements @ butlast vs)"
    and nhom: "\<not> homogeneous h (elements @ vs)"
  shows "evalListElements ev h (es1 @ e # es2) env i firstType elements st =
           Ret NilObject (st1\<lparr>Err := Some (inconsistent_types (Frame st1))\<rparr>)"
  using assms
proof (induction es1 arbitrary: i firstType elements st vs)
  case Nil
  from Nil.prems(2) obtain v where
    v: "ev (ExprNode e) env st = Ret v st1" "Err st1 = None" "vs = [v]"
    by (auto split: res.splits if_splits)
  from Nil.prems(3) v obtain t where t: "Type_of h v = Some t" by auto
  have i: "i \<noteq> 0"
    using Nil.prems(1,5) v by (auto simp: homogeneous_def)
  have "t \<noteq> firstType"
  proof
    assume "t = firstType"
    with Nil.prems(1) i t have "\<forall>x \<in> set (elements @ [v]). Type_of h x = Some firstType"
      by simp
    then have "homogeneous h (elements @ [v])" by (rule homogeneous_typed)
    with Nil.prems(5) v show False by simp
  qed
  with v t i show ?case
    by (simp add: errchk_def bind_def raise_def)
next
  case (Cons e1 es1)
  from Cons.prems(2) obtain v1 sta vs' where
    v1: "ev (ExprNode e1) env st = Ret v1 sta" "Err sta = None"
      "evalElements ev (es1 @ [e]) env sta = Some (vs', st1)" "vs = v1 # vs'"
    by (auto split: res.splits if_splits option.splits prod.splits)
  from evalElements_length [OF v1(3)] have ne: "vs' \<noteq> []" by auto
  from Cons.prems(3) v1 obtain t where t: "Type_of h v1 = Some t" by auto
  have bl: "butlast vs = v1 # butlast vs'"
    using v1(4) ne by simp
  have typed': "\<forall>v \<in> set vs'. Type_of h v \<noteq> None"
    using Cons.prems(3) v1(4) by simp
  have hom': "homogeneous h ((elements @ [v1]) @ butlast vs')"
    using Cons.prems(4) bl by simp
  have nhom': "\<not> homogeneous h ((elements @ [v1]) @ vs')"
    using Cons.prems(5) v1(4) by simp
  show ?case
  proof (cases "i = 0")
    case True
    have "evalListElements ev h (es1 @ e # es2) env (Suc i) t (elements @ [v1]) sta =
            Ret NilObject (st1\<lparr>Err := Some (inconsistent_types (Frame st1))\<rparr>)"
      using True Cons.prems(1) t
      by (intro Cons.IH [OF _ v1(3) typed' hom' nhom']) simp
    with True v1 t show ?thesis
      by (simp add: errchk_def bind_def)
  next
    case False
    with Cons.prems(1) have el: "elements \<noteq> []" "\<forall>x \<in> set elements. Type_of h x = Some firstType"
      by auto
    have "Type_of h v1 = Type_of h (hd elements)"
      using Cons.prems(4) bl el(1) by (cases elements) (auto simp: homogeneous_def)
    with el t have tf: "t = firstType"
      by (cases elements) auto
    have "evalListElements ev h (es1 @ e # es2) env (Suc i) firstType (elements @ [v1]) sta =
            Ret NilObject (st1\<lparr>Err := Some (inconsistent_types (Frame st1))\<rparr>)"
      using el t tf
      by (intro Cons.IH [OF _ v1(3) typed' hom' nhom']) simp
    with False v1 t tf show ?thesis
      by (simp add: errchk_def bind_def)
  qed
qed

lemma List_Set_mismatch:
  assumes "Lists st l = x # xs" and "index_in_range (length (x # xs)) i"
    and "Type_of h val = Some t1" and "Type_of h x = Some t2" and "t1 \<noteq> t2"
  shows "List_Set h l (IntObject i) val fr st = Ret (Some (inconsistent_types fr)) st"
  using assms
  by (simp add: List_Set_def index_in_range_def Let_def inconsistent_types_def)

lemma lists_homogeneous_initial: "lists_homogeneous h (initial_state baseName)"
  by (simp add: lists_homogeneous_def initial_state_def)

lemma Eval_lists_homogeneous:
  "lists_homogeneous h st \<Longrightarrow> Eval h k n env st = Ret v st' \<Longrightarrow> lists_homogeneous h st'"
  using Eval_step [of h k n env st v st'] by (simp add: step_def)

text \<open>
  C8.  Every list of the store is homogeneous in the initial state, and every
  evaluation that returns, of any node with any fuel, leaves the lists homogeneous if
  they were.  A list literal that evaluates to a list yields a homogeneous one.  If the
  element expressions up to and including \<open>e\<close> evaluate, in order and without error, to
  values that all have a type and of which the last is the first whose type differs,
  the literal returns no value, with the \<open>TypeError\<close>
  \<open>list elements must have consistent types.\<close> set in the state reached after \<open>e\<close>: no
  list is created and the later elements are not evaluated.  \<open>List.Set\<close> with an index in
  range and a value whose type differs from that of the first element returns the same
  \<open>TypeError\<close> and leaves the state, hence the list, as it was.
\<close>

theorem lists_stay_homogeneous:
  "lists_homogeneous h (initial_state baseName)
   \<and> (lists_homogeneous h st \<and> Eval h k n env st = Ret v st' \<longrightarrow> lists_homogeneous h st')
   \<and> (evalListExpression ev h es env st0 = Ret (List a) st0' \<longrightarrow> homogeneous h (Lists st0' a))
   \<and> (evalElements ev (es1 @ [e]) env st2 = Some (vs, st3)
        \<and> (\<forall>x \<in> set vs. Type_of h x \<noteq> None)
        \<and> homogeneous h (butlast vs) \<and> \<not> homogeneous h vs \<longrightarrow>
      evalListExpression ev h (es1 @ e # es2) env st2 =
        Ret NilObject (st3\<lparr>Err := Some (inconsistent_types (Frame st3))\<rparr>))
   \<and> (Lists st4 l = x # xs \<and> index_in_range (length (x # xs)) i
        \<and> Type_of h val = Some t1 \<and> Type_of h x = Some t2 \<and> t1 \<noteq> t2 \<longrightarrow>
      List_Set h l (IntObject i) val fr st4 = Ret (Some (inconsistent_types fr)) st4)"
proof (intro conjI impI; (elim conjE)?)
  show "lists_homogeneous h (initial_state baseName)"
    by (rule lists_homogeneous_initial)
next
  assume "lists_homogeneous h st" "Eval h k n env st = Ret v st'"
  then show "lists_homogeneous h st'" by (rule Eval_lists_homogeneous)
next
  assume "evalListExpression ev h es env st0 = Ret (List a) st0'"
  then show "homogeneous h (Lists st0' a)"
    unfolding evalListExpression_def
    by (intro evalListElements_List [of 0 "[]" h "[]" ev es env st0 a st0']) simp_all
next
  assume "evalElements ev (es1 @ [e]) env st2 = Some (vs, st3)"
    "\<forall>x \<in> set vs. Type_of h x \<noteq> None" "homogeneous h (butlast vs)" "\<not> homogeneous h vs"
  then show "evalListExpression ev h (es1 @ e # es2) env st2 =
        Ret NilObject (st3\<lparr>Err := Some (inconsistent_types (Frame st3))\<rparr>)"
    unfolding evalListExpression_def
    by (intro evalListElements_mismatch [where elements = "[]" and vs = vs]) simp_all
next
  assume "Lists st4 l = x # xs" "index_in_range (length (x # xs)) i"
    "Type_of h val = Some t1" "Type_of h x = Some t2" "t1 \<noteq> t2"
  then show "List_Set h l (IntObject i) val fr st4 = Ret (Some (inconsistent_types fr)) st4"
    by (rule List_Set_mismatch)
qed

lemmas run_defs2 =
  initial_state_def root_environment_def Builtins_def outcome_after_def eval_nat_numeral
  final_frame_def final_error_def final_list_def final_value_def

text \<open>
  The theorem at the literals \<open>[1, 2]\<close> and \<open>[1, "a"]\<close> and at \<open>List.Set\<close> of \<open>"a"\<close> at
  index \<open>0\<close> of \<open>[1, 2]\<close>; and the program \<open>var l = [1, 2]; l[0] = "a";\<close>, which ends
  with the \<open>TypeError\<close> and the list \<open>[1, 2]\<close>.
\<close>

theorem lists_stay_homogeneous_witness:
  "lists_homogeneous example_host
     ((initial_state ''main'')
        \<lparr>Lists := (Lists (initial_state ''main''))(0 := [IntObject 1, IntObject 2]), ListNext := 1\<rparr>)
   \<and> homogeneous example_host [IntObject 1, IntObject 2]
   \<and> Eval example_host 2 (ExprNode (ListExpression [IntExpression 1, StringExpression ''a''])) 0
        (initial_state ''main'') =
      Ret NilObject
        ((initial_state ''main'')
           \<lparr>Err := Some (MkError TypeError (Frame (initial_state ''main''))
                     ''list elements must have consistent types.''),
            Strings := (Strings (initial_state ''main''))(0 := ''a''), StringNext := 1\<rparr>)
   \<and> List_Set example_host 0 (IntObject 0) (String 0) (Frame list_1_2_state) list_1_2_state =
      Ret (Some (MkError TypeError (Frame list_1_2_state)
                   ''list elements must have consistent types.'')) list_1_2_state
   \<and> final_error (outcome_after example_host 5 var_l_1_2 l_0_gets_a) =
      Some (MkError TypeError (Frame (initial_state ''main''))
              ''list elements must have consistent types.'')
   \<and> final_list (outcome_after example_host 5 var_l_1_2 l_0_gets_a) 0 = [IntObject 1, IntObject 2]"
proof -
  let ?s = "initial_state ''main''"
  let ?s1 = "?s\<lparr>Lists := (Lists ?s)(0 := [IntObject 1, IntObject 2]), ListNext := 1\<rparr>"
  let ?s2 = "?s\<lparr>Strings := (Strings ?s)(0 := ''a''), StringNext := 1\<rparr>"
  have e1: "Eval example_host 2 (ExprNode (ListExpression [IntExpression 1, IntExpression 2])) 0 ?s
            = Ret (List 0) ?s1"
    by (simp add: eval_nat_numeral evalListExpression_def new_List_def Type_of_def initial_state_def)
  have e2: "evalListExpression (Eval example_host 1) example_host
              [IntExpression 1, IntExpression 2] 0 ?s = Ret (List 0) ?s1"
    by (simp add: evalListExpression_def new_List_def Type_of_def initial_state_def)
  have l1: "Lists ?s1 0 = [IntObject 1, IntObject 2]"
    by simp
  have e3: "evalElements (Eval example_host 1) ([IntExpression 1] @ [StringExpression ''a'']) 0 ?s
            = Some ([IntObject 1, String 0], ?s2)"
    by (simp add: evalStringExpression_def new_String_def initial_state_def)
  have t: "\<forall>x \<in> set [IntObject 1, String 0]. Type_of example_host x \<noteq> None"
    "homogeneous example_host (butlast [IntObject 1, String 0])"
    "\<not> homogeneous example_host [IntObject 1, String 0]"
    by (simp_all add: Type_of_def homogeneous_def)
  have e4: "Eval example_host 2 (ExprNode (ListExpression [IntExpression 1, StringExpression ''a''])) 0 ?s
            = evalListExpression (Eval example_host 1) example_host
                ([IntExpression 1] @ StringExpression ''a'' # []) 0 ?s"
    by (simp add: eval_nat_numeral)
  have s4: "Lists list_1_2_state 0 = IntObject 1 # [IntObject 2]"
    "index_in_range (length (IntObject 1 # [IntObject 2])) 0"
    "Type_of example_host (String 0) = Some ''String''"
    "Type_of example_host (IntObject 1) = Some ''Int''"
    "''String'' \<noteq> ''Int''"
    by (simp_all add: list_1_2_state_def index_in_range_def Type_of_def)
  have i: "inconsistent_types fr = MkError TypeError fr ''list elements must have consistent types.''" for fr
    by (simp add: inconsistent_types_def)
  have f: "Frame ?s2 = Frame ?s"
    by simp
  have u: "?s2\<lparr>Err := Some (MkError TypeError (Frame ?s) ''list elements must have consistent types.'')\<rparr>
           = ?s\<lparr>Err := Some (MkError TypeError (Frame ?s) ''list elements must have consistent types.''),
                 Strings := (Strings ?s)(0 := ''a''), StringNext := 1\<rparr>"
    by simp
  have p1: "final_error (outcome_after example_host 5 var_l_1_2 l_0_gets_a) =
      Some (MkError TypeError (Frame ?s) ''list elements must have consistent types.'')"
    by (simp add: run_defs2 eval_defs var_l_1_2_def l_0_gets_a_def Type_of_def
        Object_Index_def is_indexable_def indexable_Set_def List_Set_def List_Index_def
        checkIndexTargetConst.simps)
  have p2: "final_list (outcome_after example_host 5 var_l_1_2 l_0_gets_a) 0 = [IntObject 1, IntObject 2]"
    by (simp add: run_defs2 eval_defs var_l_1_2_def l_0_gets_a_def Type_of_def
        Object_Index_def is_indexable_def indexable_Set_def List_Set_def List_Index_def
        checkIndexTargetConst.simps)
  show ?thesis
    using lists_stay_homogeneous
        [where h = example_host and baseName = "''main''" and st = ?s and k = 2
           and n = "ExprNode (ListExpression [IntExpression 1, IntExpression 2])" and env = 0
           and v = "List 0" and st' = ?s1
           and ev = "Eval example_host 1" and es = "[IntExpression 1, IntExpression 2]"
           and ?st0.0 = ?s and a = 0 and st0' = ?s1
           and ?es1.0 = "[IntExpression 1]" and e = "StringExpression ''a''" and ?es2.0 = "[]"
           and ?st2.0 = ?s and vs = "[IntObject 1, String 0]" and ?st3.0 = ?s2
           and ?st4.0 = list_1_2_state and l = 0 and x = "IntObject 1" and xs = "[IntObject 2]"
           and i = 0 and val = "String 0" and ?t1.0 = "''String''" and ?t2.0 = "''Int''"
           and fr = "Frame list_1_2_state"]
      e1 e2 l1 e3 t e4 s4 i f u p1 p2
    by (simp only: simp_thms)
qed


subsection \<open>The frame of a call\<close>








subsection \<open>Arguments, placeholders and defaults\<close>

lemma show_nat_small:
  "show_nat 0 = ''0''" "show_nat (Suc 0) = ''1''" "show_nat (Suc (Suc 0)) = ''2''"
proof -
  have "show_nat 0 = ''0''" "show_nat 1 = ''1''" "show_nat 2 = ''2''"
    by (simp_all add: show_nat.simps char_of_def bit_simps)
  then show "show_nat 0 = ''0''" "show_nat (Suc 0) = ''1''" "show_nat (Suc (Suc 0)) = ''2''"
    by (simp_all add: numeral_2_eq_2)
qed

text \<open>
  C4 at \<open>func f(a, b=2) return a+b;\<close>.  The calls \<open>f(1)\<close> and \<open>f(1,3)\<close> return \<open>3\<close> and
  \<open>4\<close>, and \<open>f()\<close> raises the \<open>ArgumentError\<close>.  The call \<open>f(,3)\<close> supplies one
  argument that is not a placeholder, which is within the bounds \<open>P - D = 1\<close> and
  \<open>P = 2\<close>, so the arity test passes; the placeholder stands for \<open>a\<close>, which has no
  default expression, and \<open>Eval\<close> of the missing expression panics.
\<close>

theorem placeholder_for_required_parameter:
  "final_value (outcome_after example_host 5 func_f (call_f [Some (IntExpression 1)])) =
     Some (IntObject 3)
   \<and> final_value (outcome_after example_host 5 func_f
        (call_f [Some (IntExpression 1), Some (IntExpression 3)])) = Some (IntObject 4)
   \<and> final_error (outcome_after example_host 5 func_f (call_f [])) =
     Some (MkError ArgumentError (Frame (initial_state ''main''))
             ''expected between 1 parameter and 2 parameters, got 0.'')
   \<and> arity_ok 2 1 1
   \<and> outcome_after example_host 5 func_f (call_f [None, Some (IntExpression 3)]) = Panic"
proof -
  note defs = run_defs2 eval_defs func_f_def call_f_def PLUS_token_def
        evalProgram.simps arity_ok_def arity_error_def buildArguments_def parameterDefaults_def
        callFunction_def errchk_def evalInfixOperator_def Object_Add_def Int_Add_def
        method_result_def show_nat_small
  have a: "final_value (outcome_after example_host 5 func_f (call_f [Some (IntExpression 1)])) =
     Some (IntObject 3)"
    by (simp add: defs)
  have b: "final_value (outcome_after example_host 5 func_f
        (call_f [Some (IntExpression 1), Some (IntExpression 3)])) = Some (IntObject 4)"
    by (simp add: defs)
  have c: "final_error (outcome_after example_host 5 func_f (call_f [])) =
     Some (MkError ArgumentError (Frame (initial_state ''main''))
             ''expected between 1 parameter and 2 parameters, got 0.'')"
    by (simp add: defs)
  have d: "arity_ok 2 1 1"
    by (simp add: arity_ok_def)
  have e: "outcome_after example_host 5 func_f (call_f [None, Some (IntExpression 3)]) = Panic"
    by (simp add: defs)
  show ?thesis
    using a b c d e by simp
qed


subsection \<open>Constants behind parentheses\<close>

text \<open>
  C7 at \<open>const l = [1];\<close>.  \<open>checkIndexTargetConst\<close> has a case for an identifier and one
  for an index expression and returns no error for any other target, so for a
  parenthesised one.  The assignment \<open>l[0] = 2\<close> raises the \<open>VariableError\<close> and leaves the
  list \<open>[1]\<close>.  The assignment \<open>(l)[0] = 2\<close> returns \<open>2\<close> with no error, and the list
  bound to the constant \<open>l\<close> is then \<open>[2]\<close>; so it is after \<open>(l)[0] += 1\<close>, \<open>++(l)[0]\<close>
  and \<open>(l)[0]++\<close>.  After \<open>const x = 1;\<close> the assignment \<open>(x) = 2\<close> fails, but with the
  \<open>TypeError\<close> \<open>invalid variable name type.\<close> of the targets that are neither an
  identifier nor an index expression.
\<close>

theorem grouped_target_escapes_constant_check:
  \<open>checkIndexTargetConst (GroupedExpression e) env st = Ret None st
   \<and> final_error (outcome_after example_host 5 const_l_1 (VarAssignmentExpression l_0 (IntExpression 2))) =
       Some (MkError VariableError (Frame (initial_state ''main'')) ''cannot redefine constant "l".'')
   \<and> final_list (outcome_after example_host 5 const_l_1 (VarAssignmentExpression l_0 (IntExpression 2))) 0 =
       [IntObject 1]
   \<and> final_value (outcome_after example_host 5 const_l_1
         (VarAssignmentExpression grouped_l_0 (IntExpression 2))) = Some (IntObject 2)
   \<and> final_error (outcome_after example_host 5 const_l_1
         (VarAssignmentExpression grouped_l_0 (IntExpression 2))) = None
   \<and> final_list (outcome_after example_host 5 const_l_1
         (VarAssignmentExpression grouped_l_0 (IntExpression 2))) 0 = [IntObject 2]
   \<and> final_error (outcome_after example_host 5 const_l_1
         (CompoundAssignmentExpression grouped_l_0 PLUS_EQUAL_token (IntExpression 1))) = None
   \<and> final_list (outcome_after example_host 5 const_l_1
         (CompoundAssignmentExpression grouped_l_0 PLUS_EQUAL_token (IntExpression 1))) 0 = [IntObject 2]
   \<and> final_error (outcome_after example_host 5 const_l_1
         (PrefixUnaryIncDecExpression INCREMENT_token grouped_l_0)) = None
   \<and> final_list (outcome_after example_host 5 const_l_1
         (PrefixUnaryIncDecExpression INCREMENT_token grouped_l_0)) 0 = [IntObject 2]
   \<and> final_error (outcome_after example_host 5 const_l_1
         (PostfixUnaryIncDecExpression INCREMENT_token grouped_l_0)) = None
   \<and> final_list (outcome_after example_host 5 const_l_1
         (PostfixUnaryIncDecExpression INCREMENT_token grouped_l_0)) 0 = [IntObject 2]
   \<and> final_error (outcome_after example_host 5 const_x_1
         (VarAssignmentExpression (GroupedExpression (IdentifierExpression ''x'')) (IntExpression 2))) =
       Some (MkError TypeError (Frame (initial_state ''main'')) ''invalid variable name type.'')\<close>
proof -
  note defs = run_defs2 eval_defs const_l_1_def const_x_1_def l_0_def grouped_l_0_def
        PLUS_EQUAL_token_def Type_of_def cannot_redefine_def invalid_variable_name_type_def
        Object_Index_def is_indexable_def indexable_Set_def List_Set_def List_Index_def
        errchk_def
  note infix_defs = baseOperator_def CompoundAssignmentOperators_def evalInfixOperator_def
        Object_Add_def Int_Add_def method_result_def
  have a: "checkIndexTargetConst (GroupedExpression e) env st = Ret None st"
    by simp
  have b: \<open>final_error (outcome_after example_host 5 const_l_1 (VarAssignmentExpression l_0 (IntExpression 2))) =
       Some (MkError VariableError (Frame (initial_state ''main'')) ''cannot redefine constant "l".'')\<close>
    \<open>final_list (outcome_after example_host 5 const_l_1 (VarAssignmentExpression l_0 (IntExpression 2))) 0 =
       [IntObject 1]\<close>
    by (simp_all add: defs)
  have c: "final_value (outcome_after example_host 5 const_l_1
         (VarAssignmentExpression grouped_l_0 (IntExpression 2))) = Some (IntObject 2)"
    "final_error (outcome_after example_host 5 const_l_1
         (VarAssignmentExpression grouped_l_0 (IntExpression 2))) = None"
    "final_list (outcome_after example_host 5 const_l_1
         (VarAssignmentExpression grouped_l_0 (IntExpression 2))) 0 = [IntObject 2]"
    by (simp_all add: defs)
  have d: "final_error (outcome_after example_host 5 const_l_1
         (CompoundAssignmentExpression grouped_l_0 PLUS_EQUAL_token (IntExpression 1))) = None"
    "final_list (outcome_after example_host 5 const_l_1
         (CompoundAssignmentExpression grouped_l_0 PLUS_EQUAL_token (IntExpression 1))) 0 = [IntObject 2]"
    by (simp_all add: defs infix_defs)
  have e: "final_error (outcome_after example_host 5 const_l_1
         (PrefixUnaryIncDecExpression INCREMENT_token grouped_l_0)) = None"
    "final_list (outcome_after example_host 5 const_l_1
         (PrefixUnaryIncDecExpression INCREMENT_token grouped_l_0)) 0 = [IntObject 2]"
    "final_error (outcome_after example_host 5 const_l_1
         (PostfixUnaryIncDecExpression INCREMENT_token grouped_l_0)) = None"
    "final_list (outcome_after example_host 5 const_l_1
         (PostfixUnaryIncDecExpression INCREMENT_token grouped_l_0)) 0 = [IntObject 2]"
    by (simp_all add: defs plus_one)
  have f: "final_error (outcome_after example_host 5 const_x_1
         (VarAssignmentExpression (GroupedExpression (IdentifierExpression ''x'')) (IntExpression 2))) =
       Some (MkError TypeError (Frame (initial_state ''main'')) ''invalid variable name type.'')"
    by (simp add: defs)
  show ?thesis
    using a b c d e f by simp
qed

end
